theory Spec2Isabelle
  imports Main "HOL-Library.Word" "HOL-Library.AList"
begin

unbundle bit_operations_syntax

section \<open>Property lists\<close>

text \<open>
  The restore driver of \<^verbatim>\<open>restore.c\<close> talks to the device in property lists. A C buffer
  is a list of bytes; \<^typ>\<open>char\<close> is exactly one byte, so \<^verbatim>\<open>char*\<close> and
  \<^verbatim>\<open>unsigned char*\<close> buffers are both \<open>char list\<close>. A node pointer \<^verbatim>\<open>plist_t\<close> that may
  be \<^verbatim>\<open>NULL\<close> is a \<open>plist option\<close>. A dictionary keeps its items in insertion order, which
  is the order its iterator walks them, so it is an association list. Only the node kinds
  that the modelled functions inspect are represented.
\<close>

type_synonym bytes = "char list"

datatype plist =
    PBool bool
  | PUInt "64 word"
  | PString string
  | PData bytes
  | PArray "plist list"
  | PDict "(string \<times> plist) list"

datatype plist_type =
  PLIST_BOOLEAN | PLIST_UINT | PLIST_STRING | PLIST_DATA | PLIST_ARRAY | PLIST_DICT

fun plist_get_node_type :: "plist \<Rightarrow> plist_type" where
  "plist_get_node_type (PBool _) = PLIST_BOOLEAN"
| "plist_get_node_type (PUInt _) = PLIST_UINT"
| "plist_get_node_type (PString _) = PLIST_STRING"
| "plist_get_node_type (PData _) = PLIST_DATA"
| "plist_get_node_type (PArray _) = PLIST_ARRAY"
| "plist_get_node_type (PDict _) = PLIST_DICT"

text \<open>\<^verbatim>\<open>plist_dict_get_item\<close>: the item stored under a key; \<^verbatim>\<open>NULL\<close> when the node is
  no dictionary or has no such key.\<close>

fun plist_dict_get_item :: "plist \<Rightarrow> string \<Rightarrow> plist option" where
  "plist_dict_get_item (PDict items) key = map_of items key"
| "plist_dict_get_item _ key = None"

text \<open>\<^verbatim>\<open>plist_dict_set_item\<close>: an existing key keeps its place and gets the new value, a
  new key goes to the end.\<close>

fun plist_dict_set_item :: "plist \<Rightarrow> string \<Rightarrow> plist \<Rightarrow> plist" where
  "plist_dict_set_item (PDict items) key v = PDict (AList.update key v items)"
| "plist_dict_set_item node key v = node"

text \<open>\<^verbatim>\<open>plist_array_get_item\<close>, \<^verbatim>\<open>plist_array_insert_item\<close> and
  \<^verbatim>\<open>plist_array_append_item\<close>.\<close>

fun plist_array_get_item :: "plist \<Rightarrow> nat \<Rightarrow> plist option" where
  "plist_array_get_item (PArray xs) n = (if n < length xs then Some (xs ! n) else None)"
| "plist_array_get_item _ n = None"

fun plist_array_insert_item :: "plist \<Rightarrow> plist \<Rightarrow> nat \<Rightarrow> plist" where
  "plist_array_insert_item (PArray xs) item n =
     (if n \<le> length xs then PArray (take n xs @ item # drop n xs) else PArray xs)"
| "plist_array_insert_item node item n = node"

fun plist_array_append_item :: "plist \<Rightarrow> plist \<Rightarrow> plist" where
  "plist_array_append_item (PArray xs) item = PArray (xs @ [item])"
| "plist_array_append_item node item = node"

text \<open>\<^verbatim>\<open>plist_access_path\<close> with string keys: it follows one key per dictionary on the
  way, stops at \<^verbatim>\<open>NULL\<close>, and steps over a node that is neither a dictionary nor an array
  without consuming it (the library's loop only advances on containers; arrays on the
  way would take an index, which no caller here passes).\<close>

fun plist_access_path :: "plist \<Rightarrow> string list \<Rightarrow> plist option" where
  "plist_access_path node [] = Some node"
| "plist_access_path (PDict items) (key # keys) =
     (case map_of items key of None \<Rightarrow> None | Some child \<Rightarrow> plist_access_path child keys)"
| "plist_access_path (PArray xs) (key # keys) = None"
| "plist_access_path node (key # keys) = plist_access_path node keys"

text \<open>The typed readers leave the caller's variable alone unless the node exists and
  has the right type; the caller's initial value is the second argument.\<close>

fun plist_get_uint_val :: "plist option \<Rightarrow> 64 word \<Rightarrow> 64 word" where
  "plist_get_uint_val (Some (PUInt v)) old = v"
| "plist_get_uint_val _ old = old"

fun plist_get_bool_val :: "plist option \<Rightarrow> bool \<Rightarrow> bool" where
  "plist_get_bool_val (Some (PBool b)) old = b"
| "plist_get_bool_val _ old = old"

fun plist_get_string_val :: "plist option \<Rightarrow> string option" where
  "plist_get_string_val (Some (PString s)) = Some s"
| "plist_get_string_val _ = None"

text \<open>\<^verbatim>\<open>plist_get_data_val\<close> hands out a copy of the node's bytes; the copy of an empty
  data node is taken to be a buffer of length 0, not \<^verbatim>\<open>NULL\<close>.\<close>

fun plist_get_data_val :: "plist option \<Rightarrow> bytes option" where
  "plist_get_data_val (Some (PData d)) = Some d"
| "plist_get_data_val _ = None"

text \<open>\<^verbatim>\<open>node && plist_get_node_type(node) == t\<close>, the guard in front of most reads.\<close>

definition node_is :: "plist option \<Rightarrow> plist_type \<Rightarrow> bool" where
  "node_is node t = (case node of None \<Rightarrow> False | Some n \<Rightarrow> plist_get_node_type n = t)"

section \<open>The code outside \<^verbatim>\<open>restore.c\<close>\<close>

text \<open>
  \<^verbatim>\<open>restore.c\<close> calls into the device library and into other files of the program
  (\<^verbatim>\<open>ipsw.c\<close>, \<^verbatim>\<open>tss.c\<close>, \<^verbatim>\<open>idevicerestore.c\<close>, \<^verbatim>\<open>common.c\<close>) that are not among the
  sources. Each of them is a record of functions that the handlers take as a parameter;
  every theorem holds for all of them. A function that reports failure by a negative
  return or a \<^verbatim>\<open>NULL\<close> result gives \<open>None\<close>.
\<close>

text \<open>
  A connection opened with \<^verbatim>\<open>idevice_connect\<close> is modelled by the bytes the device has
  received on it and by how many more bytes the transport will take before it fails.
\<close>

record connection =
  wire :: bytes
  room :: nat

text \<open>The device library: what the \<open>k\<close>-th call of \<^verbatim>\<open>idevice_connect\<close> on a port gives,
  and whether \<^verbatim>\<open>restored_send\<close> delivers a message (\<^verbatim>\<open>RESTORE_E_SUCCESS\<close>).\<close>

record device_io =
  idevice_connect :: "16 word \<Rightarrow> nat \<Rightarrow> connection option"
  restored_send :: "plist \<Rightarrow> bool"

text \<open>The fields of \<^verbatim>\<open>struct stat\<close> that the code reads, at their widths on 64-bit Linux.
  Every use converts to \<^verbatim>\<open>int\<close> first, which keeps the low 32 bits.\<close>

record stat =
  st_dev :: "64 word"
  st_ino :: "64 word"
  st_mode :: "32 word"
  st_uid :: "32 word"
  st_gid :: "32 word"
  st_nlink :: "64 word"
  st_rdev :: "64 word"
  st_mtime :: "64 word"
  st_size :: "64 word"

text \<open>A ZIP archive on disk: its entries, name and content, in index order.\<close>

type_synonym zip_entries = "(string \<times> bytes) list"

text \<open>The open firmware archive \<^verbatim>\<open>client->ipsw\<close> as \<^verbatim>\<open>ipsw.c\<close> shows it: its entries with
  their \<^verbatim>\<open>stat\<close> in listing order, extraction to memory, the existence test, and
  extraction to a file. The only file extracted is the baseband firmware, so the last
  one gives the content of the file written: the entries of a ZIP archive, or \<open>None\<close>
  for a file that is no readable archive.\<close>

record ipsw_archive =
  ipsw_entries :: "(string \<times> stat) list"
  ipsw_extract_to_memory :: "string \<Rightarrow> bytes option"
  ipsw_file_exists :: "string \<Rightarrow> bool"
  ipsw_extract_to_file :: "string \<Rightarrow> zip_entries option option"

text \<open>The ticket functions of \<^verbatim>\<open>tss.c\<close>. \<^verbatim>\<open>tss_request_new\<close> is called with \<^verbatim>\<open>NULL\<close> only;
  the functions that add to a dictionary in place return the new dictionary.\<close>

record tss_api =
  tss_response_get_ap_img4_ticket :: "plist option \<Rightarrow> bytes option"
  tss_response_get_ap_ticket :: "plist option \<Rightarrow> bytes option"
  tss_response_get_path_by_entry :: "plist \<Rightarrow> string \<Rightarrow> string option"
  tss_request_new :: "plist option"
  tss_parameters_add_from_manifest :: "plist \<Rightarrow> plist \<Rightarrow> plist"
  tss_request_add_common_tags :: "plist \<Rightarrow> plist \<Rightarrow> plist"
  tss_request_add_baseband_tags :: "plist \<Rightarrow> plist \<Rightarrow> plist"
  tss_request_send :: "plist \<Rightarrow> string \<Rightarrow> plist option"

text \<open>The component helpers of \<^verbatim>\<open>idevicerestore.c\<close> and \<^verbatim>\<open>common.c\<close>; extraction is from
  \<^verbatim>\<open>client->ipsw\<close>, personalization takes the component name, the raw bytes and the
  ticket response. \<^verbatim>\<open>read_file\<close> is only used on the baseband archive and gives its
  bytes.\<close>

record component_api =
  build_identity_get_component_path :: "plist \<Rightarrow> string \<Rightarrow> string option"
  build_identity_has_component :: "plist \<Rightarrow> string \<Rightarrow> bool"
  extract_component :: "string \<Rightarrow> bytes option"
  personalize_component :: "string \<Rightarrow> bytes \<Rightarrow> plist option \<Rightarrow> bytes option"
  get_component_name :: "string \<Rightarrow> string option"
  read_file :: "zip_entries option \<Rightarrow> bytes option"

section \<open>Status messages\<close>

text \<open>
  \<^verbatim>\<open>restore_handle_status_msg\<close> reads \<open>Status\<close> (a missing or mistyped node leaves the
  value at 0, which takes the "restore finished" branch and sets the global flag
  \<^verbatim>\<open>restore_finished\<close>), then \<open>AMRError\<close>. The C statement \<^verbatim>\<open>result = -value\<close> negates
  in \<^verbatim>\<open>uint64_t\<close> and converts to \<^verbatim>\<open>int\<close>, which keeps the low 32 bits; the result is then
  negated once more when it came out positive. The function returns the result and the
  new value of the flag.
\<close>

definition restore_handle_status_msg :: "bool \<Rightarrow> plist \<Rightarrow> 32 word \<times> bool" where
  "restore_handle_status_msg restore_finished msg =
     (let value = plist_get_uint_val (plist_dict_get_item msg ''Status'') 0;
          finished = (if value = 0 then True else restore_finished);
          node = plist_dict_get_item msg ''AMRError'';
          result =
            (if node_is node PLIST_UINT then
               (let value = plist_get_uint_val node value;
                    result = (ucast (- value) :: 32 word)
                in if 0 <s result then - result else result)
             else 0)
      in (result, finished))"

section \<open>Progress messages\<close>

text \<open>The operation codes, as the \<^verbatim>\<open>#define\<close>s at the top of the file give them.\<close>

abbreviation (input) CREATE_PARTITION_MAP :: "32 word" where "CREATE_PARTITION_MAP \<equiv> 11"
abbreviation (input) CREATE_FILESYSTEM :: "32 word" where "CREATE_FILESYSTEM \<equiv> 12"
abbreviation (input) RESTORE_IMAGE :: "32 word" where "RESTORE_IMAGE \<equiv> 13"
abbreviation (input) VERIFY_RESTORE :: "32 word" where "VERIFY_RESTORE \<equiv> 14"
abbreviation (input) CHECK_FILESYSTEMS :: "32 word" where "CHECK_FILESYSTEMS \<equiv> 15"
abbreviation (input) MOUNT_FILESYSTEMS :: "32 word" where "MOUNT_FILESYSTEMS \<equiv> 16"
abbreviation (input) FIXUP_VAR :: "32 word" where "FIXUP_VAR \<equiv> 17"
abbreviation (input) FLASH_FIRMWARE :: "32 word" where "FLASH_FIRMWARE \<equiv> 18"
abbreviation (input) UPDATE_BASEBAND :: "32 word" where "UPDATE_BASEBAND \<equiv> 19"
abbreviation (input) SET_BOOT_STAGE :: "32 word" where "SET_BOOT_STAGE \<equiv> 20"
abbreviation (input) REBOOT_DEVICE :: "32 word" where "REBOOT_DEVICE \<equiv> 21"
abbreviation (input) SHUTDOWN_DEVICE :: "32 word" where "SHUTDOWN_DEVICE \<equiv> 22"
abbreviation (input) TURN_ON_ACCESSORY_POWER :: "32 word" where "TURN_ON_ACCESSORY_POWER \<equiv> 23"
abbreviation (input) CLEAR_BOOTARGS :: "32 word" where "CLEAR_BOOTARGS \<equiv> 24"
abbreviation (input) MODIFY_BOOTARGS :: "32 word" where "MODIFY_BOOTARGS \<equiv> 25"
abbreviation (input) INSTALL_ROOT :: "32 word" where "INSTALL_ROOT \<equiv> 26"
abbreviation (input) INSTALL_KERNELCACHE :: "32 word" where "INSTALL_KERNELCACHE \<equiv> 27"
abbreviation (input) WAIT_FOR_NAND :: "32 word" where "WAIT_FOR_NAND \<equiv> 28"
abbreviation (input) UNMOUNT_FILESYSTEMS :: "32 word" where "UNMOUNT_FILESYSTEMS \<equiv> 29"
abbreviation (input) SET_DATETIME :: "32 word" where "SET_DATETIME \<equiv> 30"
abbreviation (input) EXEC_IBOOT :: "32 word" where "EXEC_IBOOT \<equiv> 31"
abbreviation (input) FINALIZE_NAND_EPOCH_UPDATE :: "32 word" where "FINALIZE_NAND_EPOCH_UPDATE \<equiv> 32"
abbreviation (input) CHECK_INAPPR_BOOT_PARTITIONS :: "32 word" where "CHECK_INAPPR_BOOT_PARTITIONS \<equiv> 33"
abbreviation (input) CREATE_FACTORY_RESTORE_MARKER :: "32 word" where "CREATE_FACTORY_RESTORE_MARKER \<equiv> 34"
abbreviation (input) LOAD_FIRMWARE :: "32 word" where "LOAD_FIRMWARE \<equiv> 35"
abbreviation (input) REQUESTING_FUD_DATA :: "32 word" where "REQUESTING_FUD_DATA \<equiv> 36"
abbreviation (input) REMOVING_ACTIVATION_RECORD :: "32 word" where "REMOVING_ACTIVATION_RECORD \<equiv> 37"
abbreviation (input) CHECK_BATTERY_VOLTAGE :: "32 word" where "CHECK_BATTERY_VOLTAGE \<equiv> 38"
abbreviation (input) WAIT_BATTERY_CHARGE :: "32 word" where "WAIT_BATTERY_CHARGE \<equiv> 39"
abbreviation (input) CLOSE_MODEM_TICKETS :: "32 word" where "CLOSE_MODEM_TICKETS \<equiv> 40"
abbreviation (input) MIGRATE_DATA :: "32 word" where "MIGRATE_DATA \<equiv> 41"
abbreviation (input) WIPE_STORAGE_DEVICE :: "32 word" where "WIPE_STORAGE_DEVICE \<equiv> 42"
abbreviation (input) SEND_APPLE_LOGO :: "32 word" where "SEND_APPLE_LOGO \<equiv> 43"
abbreviation (input) CHECK_LOGS :: "32 word" where "CHECK_LOGS \<equiv> 44"
abbreviation (input) CLEAR_NVRAM :: "32 word" where "CLEAR_NVRAM \<equiv> 46"
abbreviation (input) UPDATE_GAS_GAUGE :: "32 word" where "UPDATE_GAS_GAUGE \<equiv> 47"
abbreviation (input) PREPARE_BASEBAND_UPDATE :: "32 word" where "PREPARE_BASEBAND_UPDATE \<equiv> 48"
abbreviation (input) BOOT_BASEBAND :: "32 word" where "BOOT_BASEBAND \<equiv> 49"
abbreviation (input) CREATE_SYSTEM_KEYBAG :: "32 word" where "CREATE_SYSTEM_KEYBAG \<equiv> 50"
abbreviation (input) UPDATE_IR_MCU_FIRMWARE :: "32 word" where "UPDATE_IR_MCU_FIRMWARE \<equiv> 51"
abbreviation (input) RESIZE_SYSTEM_PARTITION :: "32 word" where "RESIZE_SYSTEM_PARTITION \<equiv> 52"
abbreviation (input) COLLECTING_UPDATER_OUTPUT :: "32 word" where "COLLECTING_UPDATER_OUTPUT \<equiv> 53"
abbreviation (input) PAIR_STOCKHOLM :: "32 word" where "PAIR_STOCKHOLM \<equiv> 54"
abbreviation (input) UPDATE_STOCKHOLM :: "32 word" where "UPDATE_STOCKHOLM \<equiv> 55"
abbreviation (input) UPDATE_SWDHID :: "32 word" where "UPDATE_SWDHID \<equiv> 56"
abbreviation (input) CERTIFY_SEP :: "32 word" where "CERTIFY_SEP \<equiv> 57"
abbreviation (input) UPDATE_NAND_FIRMWARE :: "32 word" where "UPDATE_NAND_FIRMWARE \<equiv> 58"
abbreviation (input) UPDATE_SE_FIRMWARE :: "32 word" where "UPDATE_SE_FIRMWARE \<equiv> 59"
abbreviation (input) UPDATE_SAVAGE :: "32 word" where "UPDATE_SAVAGE \<equiv> 60"
abbreviation (input) INSTALLING_DEVICETREE :: "32 word" where "INSTALLING_DEVICETREE \<equiv> 61"
abbreviation (input) CERTIFY_SAVAGE :: "32 word" where "CERTIFY_SAVAGE \<equiv> 62"
abbreviation (input) SUBMITTING_PROVINFO :: "32 word" where "SUBMITTING_PROVINFO \<equiv> 63"
abbreviation (input) CERTIFY_YONKERS :: "32 word" where "CERTIFY_YONKERS \<equiv> 64"
abbreviation (input) UPDATE_ROSE :: "32 word" where "UPDATE_ROSE \<equiv> 65"
abbreviation (input) UPDATE_VERIDIAN :: "32 word" where "UPDATE_VERIDIAN \<equiv> 66"
abbreviation (input) CREATING_PROTECTED_VOLUME :: "32 word" where "CREATING_PROTECTED_VOLUME \<equiv> 67"
abbreviation (input) RESIZING_MAIN_FS_PARTITION :: "32 word" where "RESIZING_MAIN_FS_PARTITION \<equiv> 68"
abbreviation (input) CREATING_RECOVERY_OS_VOLUME :: "32 word" where "CREATING_RECOVERY_OS_VOLUME \<equiv> 69"
abbreviation (input) INSTALLING_RECOVERY_OS_FILES :: "32 word" where "INSTALLING_RECOVERY_OS_FILES \<equiv> 70"
abbreviation (input) INSTALLING_RECOVERY_OS_IMAGE :: "32 word" where "INSTALLING_RECOVERY_OS_IMAGE \<equiv> 71"
abbreviation (input) REQUESTING_EAN_DATA :: "32 word" where "REQUESTING_EAN_DATA \<equiv> 74"
abbreviation (input) SEALING_SYSTEM_VOLUME :: "32 word" where "SEALING_SYSTEM_VOLUME \<equiv> 77"
abbreviation (input) UPDATING_APPLETCON :: "32 word" where "UPDATING_APPLETCON \<equiv> 81"

text \<open>The \<^verbatim>\<open>switch\<close> of \<^verbatim>\<open>restore_progress_string\<close>, one row per \<^verbatim>\<open>case\<close> in the
  order of the source; the \<^verbatim>\<open>default\<close> is the fall-back of the lookup.\<close>

definition progress_strings :: "(32 word \<times> string) list" where
  "progress_strings =
    [(CREATE_PARTITION_MAP, ''Creating partition map''),
     (CREATE_FILESYSTEM, ''Creating filesystem''),
     (RESTORE_IMAGE, ''Restoring image''),
     (VERIFY_RESTORE, ''Verifying restore''),
     (CHECK_FILESYSTEMS, ''Checking filesystems''),
     (MOUNT_FILESYSTEMS, ''Mounting filesystems''),
     (FIXUP_VAR, ''Fixing up /var''),
     (FLASH_FIRMWARE, ''Flashing firmware''),
     (UPDATE_BASEBAND, ''Updating baseband''),
     (SET_BOOT_STAGE, ''Setting boot stage''),
     (REBOOT_DEVICE, ''Rebooting device''),
     (SHUTDOWN_DEVICE, ''Shutdown device''),
     (TURN_ON_ACCESSORY_POWER, ''Turning on accessory power''),
     (CLEAR_BOOTARGS, ''Clearing persistent boot-args''),
     (MODIFY_BOOTARGS, ''Modifying persistent boot-args''),
     (INSTALL_ROOT, ''Installing root''),
     (INSTALL_KERNELCACHE, ''Installing kernelcache''),
     (WAIT_FOR_NAND, ''Waiting for NAND''),
     (UNMOUNT_FILESYSTEMS, ''Unmounting filesystems''),
     (SET_DATETIME, ''Setting date and time on device''),
     (EXEC_IBOOT, ''Executing iBEC to bootstrap update''),
     (FINALIZE_NAND_EPOCH_UPDATE, ''Finalizing NAND epoch update''),
     (CHECK_INAPPR_BOOT_PARTITIONS, ''Checking for inappropriate bootable partitions''),
     (CREATE_FACTORY_RESTORE_MARKER, ''Creating factory restore marker''),
     (LOAD_FIRMWARE, ''Loading firmware data to flash''),
     (REQUESTING_FUD_DATA, ''Requesting FUD data''),
     (REMOVING_ACTIVATION_RECORD, ''Removing activation record''),
     (CHECK_BATTERY_VOLTAGE, ''Checking battery voltage''),
     (WAIT_BATTERY_CHARGE, ''Waiting for battery to charge''),
     (CLOSE_MODEM_TICKETS, ''Closing modem tickets''),
     (MIGRATE_DATA, ''Migrating data''),
     (WIPE_STORAGE_DEVICE, ''Wiping storage device''),
     (SEND_APPLE_LOGO, ''Sending Apple logo to device''),
     (CHECK_LOGS, ''Checking for uncollected logs''),
     (CLEAR_NVRAM, ''Clearing NVRAM''),
     (UPDATE_GAS_GAUGE, ''Updating gas gauge software''),
     (PREPARE_BASEBAND_UPDATE, ''Preparing for baseband update''),
     (BOOT_BASEBAND, ''Booting the baseband''),
     (CREATE_SYSTEM_KEYBAG, ''Creating system key bag''),
     (UPDATE_IR_MCU_FIRMWARE, ''Updating IR MCU firmware''),
     (RESIZE_SYSTEM_PARTITION, ''Resizing system partition''),
     (COLLECTING_UPDATER_OUTPUT, ''Collecting updater output''),
     (PAIR_STOCKHOLM, ''Pairing Stockholm''),
     (UPDATE_STOCKHOLM, ''Updating Stockholm''),
     (UPDATE_SWDHID, ''Updating SWDHID''),
     (CERTIFY_SEP, ''Certifying SEP''),
     (UPDATE_NAND_FIRMWARE, ''Updating NAND Firmware''),
     (UPDATE_SE_FIRMWARE, ''Updating SE Firmware''),
     (UPDATE_SAVAGE, ''Updating Savage''),
     (INSTALLING_DEVICETREE, ''Installing DeviceTree''),
     (CERTIFY_SAVAGE, ''Certifying Savage''),
     (SUBMITTING_PROVINFO, ''Submitting Provinfo''),
     (CERTIFY_YONKERS, ''Certifying Yonkers''),
     (UPDATE_ROSE, ''Updating Rose''),
     (UPDATE_VERIDIAN, ''Updating Veridian''),
     (CREATING_PROTECTED_VOLUME, ''Creating Protected Volume''),
     (RESIZING_MAIN_FS_PARTITION, ''Resizing Main Filesystem Partition''),
     (CREATING_RECOVERY_OS_VOLUME, ''Creating Recovery OS Volume''),
     (INSTALLING_RECOVERY_OS_FILES, ''Installing Recovery OS Files''),
     (INSTALLING_RECOVERY_OS_IMAGE, ''Installing Recovery OS Image''),
     (REQUESTING_EAN_DATA, ''Requesting EAN Data''),
     (SEALING_SYSTEM_VOLUME, ''Sealing System Volume''),
     (UPDATING_APPLETCON, ''Updating AppleTCON'')]"

definition restore_progress_string :: "32 word \<Rightarrow> string" where
  "restore_progress_string operation =
     (case map_of progress_strings operation of
        Some s \<Rightarrow> s
      | None \<Rightarrow> ''Unknown operation'')"

text \<open>
  What \<^verbatim>\<open>restore_handle_progress_msg\<close> does besides returning: a line on the info log
  (the stage string and the operation number as received), a line on the debug log, or a
  call of the progress sink \<^verbatim>\<open>idevicerestore_progress\<close> for a stage. The sink is called
  with \<^verbatim>\<open>progress / 100.0\<close>; the event keeps the integer that is divided.
\<close>

datatype restore_step =
  RESTORE_STEP_VERIFY_FS | RESTORE_STEP_FLASH_FW | RESTORE_STEP_FLASH_BB | RESTORE_STEP_FUD

datatype progress_event =
    Info_stage string "32 word"
  | Debug_line string
  | Debug_unhandled "32 word" "32 word"
  | Idevicerestore_progress restore_step "64 word"

text \<open>The \<^verbatim>\<open>switch (adapted_operation)\<close> inside the progress range.\<close>

definition progress_switch :: "32 word \<Rightarrow> 32 word \<Rightarrow> 64 word \<Rightarrow> progress_event list" where
  "progress_switch adapted_operation operation progress =
     (if adapted_operation = VERIFY_RESTORE then
        [Idevicerestore_progress RESTORE_STEP_VERIFY_FS progress]
      else if adapted_operation = FLASH_FIRMWARE then
        [Idevicerestore_progress RESTORE_STEP_FLASH_FW progress]
      else if adapted_operation = UPDATE_BASEBAND \<or> adapted_operation = UPDATE_IR_MCU_FIRMWARE then
        [Idevicerestore_progress RESTORE_STEP_FLASH_BB progress]
      else if adapted_operation = REQUESTING_FUD_DATA then
        [Idevicerestore_progress RESTORE_STEP_FUD progress]
      else if adapted_operation = UPDATE_ROSE \<or> adapted_operation = UPDATE_VERIDIAN
              \<or> adapted_operation = REQUESTING_EAN_DATA then
        []
      else
        [Debug_unhandled adapted_operation operation])"

text \<open>
  \<^verbatim>\<open>restore_handle_progress_msg\<close>. The first argument is the negotiated protocol version,
  \<open>None\<close> when \<^verbatim>\<open>client\<close> or \<^verbatim>\<open>client->restore\<close> is \<^verbatim>\<open>NULL\<close>; the second is the static
  \<^verbatim>\<open>lastop\<close>. \<^verbatim>\<open>(int)operation\<close> keeps the low 32 bits; the comparison with 35 is signed.
  The increment is written as word addition (C leaves it undefined at \<^verbatim>\<open>INT_MAX\<close>). The
  result is the return value, the new \<^verbatim>\<open>lastop\<close> and the events in order.
\<close>

definition restore_handle_progress_msg ::
  "64 word option \<Rightarrow> 32 word \<Rightarrow> plist \<Rightarrow> 32 word \<times> 32 word \<times> progress_event list" where
  "restore_handle_progress_msg protocol_version lastop msg =
     (let node = plist_dict_get_item msg ''Operation'' in
      if \<not> node_is node PLIST_UINT then
        (- 1, lastop, [Debug_line ''Failed to parse operation from ProgressMsg plist''])
      else
        let operation = plist_get_uint_val node 0;
            node = plist_dict_get_item msg ''Progress''
        in
        if \<not> node_is node PLIST_UINT then
          (- 1, lastop, [Debug_line ''Failed to parse progress from ProgressMsg plist ''])
        else
          let progress = plist_get_uint_val node 0;
              int_operation = (ucast operation :: 32 word);
              adapted_operation =
                (if (case protocol_version of None \<Rightarrow> False | Some v \<Rightarrow> v < 14)
                    \<and> 35 <s int_operation
                 then int_operation + 1 else int_operation);
              events =
                (if 0 < progress \<and> progress \<le> 100 then
                   (if int_operation \<noteq> lastop
                    then [Info_stage (restore_progress_string adapted_operation) int_operation]
                    else [])
                   @ progress_switch adapted_operation int_operation progress
                 else
                   [Info_stage (restore_progress_string adapted_operation) int_operation])
          in (0, int_operation, events))"

section \<open>The BootabilityBundle stream\<close>

subsection \<open>The device connection\<close>

text \<open>
  \<^verbatim>\<open>idevice_connection_send\<close> either delivers the whole buffer, or delivers what still
  fits and reports failure (an error code or a short count; the callers treat both the
  same way).
\<close>

definition idevice_connection_send :: "connection \<Rightarrow> bytes \<Rightarrow> bool \<times> connection" where
  "idevice_connection_send c buf =
     (if length buf \<le> room c
      then (True, c\<lparr>wire := wire c @ buf, room := room c - length buf\<rparr>)
      else (False, c\<lparr>wire := wire c @ take (room c) buf, room := 0\<rparr>))"

subsection \<open>CPIO records\<close>

record cpio_odc_header =
  c_magic :: string
  c_dev :: string
  c_ino :: string
  c_mode :: string
  c_uid :: string
  c_gid :: string
  c_nlink :: string
  c_rdev :: string
  c_mtime :: string
  c_namesize :: string
  c_filesize :: string

text \<open>The struct is eleven \<^verbatim>\<open>char\<close> arrays, so its 76 bytes are the fields one after
  the other.\<close>

definition header_bytes :: "cpio_odc_header \<Rightarrow> bytes" where
  "header_bytes h =
     c_magic h @ c_dev h @ c_ino h @ c_mode h @ c_uid h @ c_gid h @ c_nlink h @ c_rdev h
     @ c_mtime h @ c_namesize h @ c_filesize h"

text \<open>The digits that \<^verbatim>\<open>%o\<close> prints for an unsigned value.\<close>

function oct_digits :: "nat \<Rightarrow> string" where
  "oct_digits n =
     (if n < 8 then [''01234567'' ! n]
      else oct_digits (n div 8) @ [''01234567'' ! (n mod 8)])"
  by pat_completeness auto
termination
  by (relation "measure id") auto

text \<open>\<^verbatim>\<open>octal(p, width, v)\<close>: \<^verbatim>\<open>snprintf("%0*o", width, v)\<close> pads with zeros to at least
  \<open>width\<close> digits, and \<^verbatim>\<open>memcpy\<close> copies the first \<open>width\<close> characters of that, so a value
  with more digits loses its low ones.\<close>

definition octal :: "nat \<Rightarrow> 32 word \<Rightarrow> string" where
  "octal width v =
     (let digits = oct_digits (unat v)
      in take width (replicate (width - length digits) (CHR ''0'') @ digits))"

text \<open>The header that \<^verbatim>\<open>cpio_send_file\<close> fills in: \<^verbatim>\<open>memset\<close> to \<^verbatim>\<open>'0'\<close>, the magic, the
  \<^verbatim>\<open>stat\<close> fields, the length of the name with its terminator, and the file size only
  when there is data.\<close>

definition cpio_header :: "string \<Rightarrow> stat \<Rightarrow> bytes option \<Rightarrow> cpio_odc_header" where
  "cpio_header name st data =
     \<lparr> c_magic = ''070707'',
       c_dev = octal 6 (ucast (st_dev st)),
       c_ino = octal 6 (ucast (st_ino st)),
       c_mode = octal 6 (st_mode st),
       c_uid = octal 6 (st_uid st),
       c_gid = octal 6 (st_gid st),
       c_nlink = octal 6 (ucast (st_nlink st)),
       c_rdev = octal 6 (ucast (st_rdev st)),
       c_mtime = octal 11 (ucast (st_mtime st)),
       c_namesize = octal 6 (of_nat (length name + 1)),
       c_filesize =
         (case data of
            None \<Rightarrow> replicate 11 (CHR ''0'')
          | Some d \<Rightarrow> octal 11 (ucast (st_size st))) \<rparr>"

text \<open>
  \<^verbatim>\<open>cpio_send_file\<close> sends the header, the name with its terminating zero byte, and the
  data when there is any (\<^verbatim>\<open>st_size\<close> bytes, the length converted to \<^verbatim>\<open>uint32_t\<close>). It
  returns the return value, the connection afterwards, and the lines it wrote to the
  error log.
\<close>

definition cpio_send_file ::
  "connection \<Rightarrow> string \<Rightarrow> stat \<Rightarrow> bytes option \<Rightarrow> int \<times> connection \<times> string list" where
  "cpio_send_file connection name st data =
     (case idevice_connection_send connection (header_bytes (cpio_header name st data)) of
        (False, c1) \<Rightarrow>
          (- 1, c1, [''ERROR: BootabilityBundle unable to send header. (%d) Sent %u of %lu bytes.''])
      | (True, c1) \<Rightarrow>
          (case idevice_connection_send c1 (name @ [CHR 0x00]) of
             (False, c2) \<Rightarrow>
               (- 1, c2,
                [''ERROR: BootabilityBundle unable to send filename. (%d) Sent %u of %u bytes.''])
           | (True, c2) \<Rightarrow>
               (case data of
                  None \<Rightarrow> (0, c2, [])
                | Some d \<Rightarrow>
                    if st_size st = 0 then (0, c2, [])
                    else
                      (case idevice_connection_send c2
                              (take (unat (ucast (st_size st) :: 32 word)) d) of
                         (False, c3) \<Rightarrow>
                           (- 1, c3,
                            [''ERROR: BootabilityBundle unable to send data. (%d) Sent %u of %lu bytes.''])
                       | (True, c3) \<Rightarrow> (0, c3, [])))))"

subsection \<open>One archive entry\<close>

text \<open>\<^verbatim>\<open>S_ISLNK\<close> and \<^verbatim>\<open>S_ISREG\<close>: the file-type bits of the mode (octal 0170000) are
  0120000 or 0100000.\<close>

definition S_ISLNK :: "32 word \<Rightarrow> bool" where
  "S_ISLNK m = (m AND 0xF000 = 0xA000)"

definition S_ISREG :: "32 word \<Rightarrow> bool" where
  "S_ISREG m = (m AND 0xF000 = 0x8000)"

text \<open>\<^verbatim>\<open>strncmp(name, prefix, strlen(prefix)) == 0\<close>.\<close>

definition starts_with :: "string \<Rightarrow> string \<Rightarrow> bool" where
  "starts_with pre s = (take (length pre) s = pre)"

text \<open>
  \<^verbatim>\<open>restore_bootability_send_one\<close>, the visitor passed to \<^verbatim>\<open>ipsw_list_contents\<close>. A
  failed \<^verbatim>\<open>ipsw_extract_to_memory\<close> leaves the buffer \<^verbatim>\<open>NULL\<close> and the size 0. The size
  it reports is an \<^verbatim>\<open>unsigned int\<close>.
\<close>

definition restore_bootability_send_one ::
  "ipsw_archive \<Rightarrow> connection \<Rightarrow> string \<Rightarrow> stat \<Rightarrow> int \<times> connection \<times> string list"
  where
  "restore_bootability_send_one ipsw connection name st =
     (let prefix = ''BootabilityBundle/Restore/Bootability/'';
          subpath =
            (if name = ''BootabilityBundle/Restore/Firmware/Bootability.dmg.trustcache''
             then Some ''Bootability.trustcache''
             else if \<not> starts_with prefix name then None
             else Some (drop (length prefix) name))
      in case subpath of
           None \<Rightarrow> (0, connection, [])
         | Some subpath \<Rightarrow>
             (let buf =
                    (if (S_ISLNK (st_mode st) \<or> S_ISREG (st_mode st)) \<and> st_size st \<noteq> 0
                     then ipsw_extract_to_memory ipsw name else None);
                  size = (case buf of None \<Rightarrow> 0 | Some d \<Rightarrow> (of_nat (length d) :: 32 word))
              in if (S_ISLNK (st_mode st) \<or> S_ISREG (st_mode st)) \<and> st_size st \<noteq> 0
                    \<and> ucast size \<noteq> st_size st
                 then (- 1, connection, [''ERROR: expected %ld bytes but got %d for file %s''])
                 else cpio_send_file connection subpath (st\<lparr>st_uid := 0, st_gid := 0\<rparr>) buf))"

text \<open>
  Modelled from the spec: \<^verbatim>\<open>ipsw_list_contents\<close> (\<^verbatim>\<open>ipsw.c\<close> is not among the sources).
  The spec's archive reader has \<open>list(visitor)\<close>, "where the visitor is called for each
  entry with its POSIX-like stat and gets to return an error to abort the walk": the
  entries are visited in order, a negative return stops the walk and is returned.
\<close>

fun ipsw_list_contents ::
  "(connection \<Rightarrow> string \<Rightarrow> stat \<Rightarrow> int \<times> connection \<times> string list) \<Rightarrow>
   (string \<times> stat) list \<Rightarrow> connection \<Rightarrow> int \<times> connection \<times> string list" where
  "ipsw_list_contents cb [] ctx = (0, ctx, [])"
| "ipsw_list_contents cb ((name, st) # entries) ctx =
     (case cb ctx name st of
        (ret, ctx', errs) \<Rightarrow>
          if ret < 0 then (ret, ctx', errs)
          else (case ipsw_list_contents cb entries ctx' of
                  (ret', ctx'', errs') \<Rightarrow> (ret', ctx'', errs @ errs')))"

subsection \<open>The request handler\<close>

text \<open>
  The connection loop \<^verbatim>\<open>while (--attempts > 0)\<close>. The state is the counter \<^verbatim>\<open>attempts\<close>
  before the decrement, the number of calls of \<^verbatim>\<open>idevice_connect\<close> made so far, the
  seconds slept so far and whether \<^verbatim>\<open>device_error\<close> is \<^verbatim>\<open>IDEVICE_E_SUCCESS\<close>; the result
  is the connection (if any), the calls made, the seconds slept and the final
  \<^verbatim>\<open>device_error\<close> test.
\<close>

function connect_loop ::
  "(nat \<Rightarrow> connection option) \<Rightarrow> int \<Rightarrow> nat \<Rightarrow> nat \<Rightarrow> bool \<Rightarrow>
   connection option \<times> nat \<times> nat \<times> bool" where
  "connect_loop connect attempts calls slept success =
     (if attempts - 1 > 0 then
        (case connect calls of
           Some c \<Rightarrow> (Some c, calls + 1, slept, True)
         | None \<Rightarrow> connect_loop connect (attempts - 1) (calls + 1) (slept + 1) False)
      else (None, calls, slept, success))"
  by pat_completeness auto
termination
  by (relation "measure (\<lambda>(connect, attempts, calls, slept, success). nat attempts)") auto

text \<open>The trailer's \<^verbatim>\<open>struct stat st = {.st_nlink = 1}\<close>.\<close>

definition trailer_stat :: stat where
  "trailer_stat =
     \<lparr> st_dev = 0, st_ino = 0, st_mode = 0, st_uid = 0, st_gid = 0, st_nlink = 1,
       st_rdev = 0, st_mtime = 0, st_size = 0 \<rparr>"

text \<open>What the handler leaves behind: its return value, how often it called
  \<^verbatim>\<open>idevice_connect\<close> and how many seconds it slept, the bytes the device received on the
  data connection (\<open>None\<close> when none was opened), and the error log.\<close>

record bundle_result =
  ret :: int
  connect_calls :: nat
  seconds_slept :: nat
  stream :: "bytes option"
  errors :: "string list"

definition restore_send_bootability_bundle_data ::
  "device_io \<Rightarrow> ipsw_archive \<Rightarrow> plist \<Rightarrow> bundle_result" where
  "restore_send_bootability_bundle_data device ipsw message =
     (let u64val = plist_get_uint_val (plist_dict_get_item message ''DataPort'') 0;
          data_port = (ucast u64val :: 16 word)
      in case connect_loop (idevice_connect device data_port) 10 0 0 True of
           (connection, calls, slept, success) \<Rightarrow>
             (case (success, connection) of
                (True, Some c) \<Rightarrow>
                  (case ipsw_list_contents
                          (restore_bootability_send_one ipsw)
                          (ipsw_entries ipsw) c of
                     (r, c1, errs) \<Rightarrow>
                       if r < 0 then
                         \<lparr> ret = r, connect_calls = calls, seconds_slept = slept,
                           stream = Some (wire c1),
                           errors = errs @ [''ERROR: Failed to send BootabilityBundle''] \<rparr>
                       else
                         (case cpio_send_file c1 ''TRAILER!!!'' trailer_stat None of
                            (r2, c2, errs2) \<Rightarrow>
                              \<lparr> ret = 0, connect_calls = calls, seconds_slept = slept,
                                stream = Some (wire c2), errors = errs @ errs2 \<rparr>))
              | _ \<Rightarrow>
                  \<lparr> ret = - 1, connect_calls = calls, seconds_slept = slept, stream = None,
                    errors = [''ERROR: Unable to connect to BootabilityBundle data port''] \<rparr>))"

section \<open>Root ticket\<close>

text \<open>
  The fields of \<^verbatim>\<open>struct idevicerestore_client_t\<close> that the handlers read: the
  user-supplied root ticket (\<^verbatim>\<open>root_ticket\<close> with its length, \<open>None\<close> for \<^verbatim>\<open>NULL\<close>), the AP
  ticket response \<^verbatim>\<open>tss\<close>, the test \<^verbatim>\<open>flags & FLAG_CUSTOM\<close> (the constant lives in
  \<^verbatim>\<open>idevicerestore.h\<close>, so the field is the outcome of the test), \<^verbatim>\<open>image4supported\<close>,
  \<^verbatim>\<open>ecid\<close>, \<^verbatim>\<open>udid\<close>, \<^verbatim>\<open>tss_url\<close>, and the cached baseband ticket response
  \<^verbatim>\<open>restore->bbtss\<close>.
\<close>

record idevicerestore_client_t =
  root_ticket :: "bytes option"
  tss :: "plist option"
  flag_custom :: bool
  image4supported :: bool
  ecid :: "64 word"
  udid :: string
  tss_url :: string
  bbtss :: "plist option"

text \<open>The common end of both branches: hand the dictionary to \<^verbatim>\<open>restored_send\<close>. The
  result is the return value and the dictionary handed over.\<close>

definition send_root_ticket_dict :: "device_io \<Rightarrow> plist \<Rightarrow> int \<times> plist list" where
  "send_root_ticket_dict restore dict =
     (if restored_send restore dict then (0, [dict]) else (- 1, [dict]))"

text \<open>
  \<^verbatim>\<open>restore_send_root_ticket\<close>. In the legacy branch the getter is the right operand of
  \<^verbatim>\<open>&&\<close> after \<^verbatim>\<open>!(client->flags & FLAG_CUSTOM)\<close>, so in custom mode it is not called and
  \<^verbatim>\<open>data\<close> stays \<^verbatim>\<open>NULL\<close>. \<open>RootTicketData\<close> is set only for \<^verbatim>\<open>data && (len > 0)\<close>.
\<close>

definition restore_send_root_ticket ::
  "tss_api \<Rightarrow> device_io \<Rightarrow> idevicerestore_client_t \<Rightarrow> int \<times> plist list" where
  "restore_send_root_ticket api restore client =
     (case root_ticket client of
        Some ticket \<Rightarrow>
          send_root_ticket_dict restore
            (plist_dict_set_item (PDict []) ''RootTicketData'' (PData ticket))
      | None \<Rightarrow>
          if tss client = None \<and> \<not> flag_custom client then (- 1, [])
          else
            (let fetched =
                   (if image4supported client then
                      (case tss_response_get_ap_img4_ticket api (tss client) of
                         None \<Rightarrow> Inl ()
                       | Some d \<Rightarrow> Inr (Some d))
                    else if flag_custom client then Inr None
                    else
                      (case tss_response_get_ap_ticket api (tss client) of
                         None \<Rightarrow> Inl ()
                       | Some d \<Rightarrow> Inr (Some d)))
             in case fetched of
                  Inl _ \<Rightarrow> (- 1, [])
                | Inr data \<Rightarrow>
                    send_root_ticket_dict restore
                      (case data of
                         None \<Rightarrow> PDict []
                       | Some d \<Rightarrow>
                           if d \<noteq> []
                           then plist_dict_set_item (PDict []) ''RootTicketData'' (PData d)
                           else PDict [])))"

text \<open>
  Modelled from the spec: the getters \<^verbatim>\<open>tss_response_get_ap_img4_ticket\<close> and
  \<^verbatim>\<open>tss_response_get_ap_ticket\<close> of \<^verbatim>\<open>tss.c\<close>, which is not among the sources. The spec's
  ticket response is a tagged mapping in which "the driver consults presence of a
  subsystem-specific key (e.g., \<open>ApImg4Ticket\<close>)"; its scenarios S1 and S2 name the keys
  \<open>ApImg4Ticket\<close> and \<open>APTicket\<close> and take their values as data.
\<close>

definition tss_response_get_data_by_key :: "string \<Rightarrow> plist option \<Rightarrow> bytes option" where
  "tss_response_get_data_by_key key response =
     (case response of
        None \<Rightarrow> None
      | Some r \<Rightarrow> plist_get_data_val (plist_dict_get_item r key))"

section \<open>NOR data\<close>

subsection \<open>String helpers\<close>

text \<open>\<^verbatim>\<open>strstr(haystack, needle)\<close>: the offset of the first occurrence, \<open>None\<close> for
  \<^verbatim>\<open>NULL\<close>.\<close>

fun strstr :: "string \<Rightarrow> string \<Rightarrow> nat option" where
  "strstr [] needle = (if needle = [] then Some 0 else None)"
| "strstr (c # cs) needle =
     (if starts_with needle (c # cs) then Some 0 else map_option Suc (strstr cs needle))"

text \<open>The tokens that repeated \<^verbatim>\<open>strsep(&p, "\r\n")\<close> returns: the pieces between
  carriage returns and line feeds, empty pieces included.\<close>

fun strsep_crlf :: "string \<Rightarrow> string list" where
  "strsep_crlf [] = [[]]"
| "strsep_crlf (c # cs) =
     (if c = CHR 0x0D \<or> c = CHR 0x0A then [] # strsep_crlf cs
      else (case strsep_crlf cs of
              [] \<Rightarrow> [[c]]
            | token # tokens \<Rightarrow> (c # token) # tokens))"

text \<open>A buffer read as a C string ends at its first zero byte.\<close>

definition c_string :: "bytes \<Rightarrow> string" where
  "c_string buf = takeWhile (\<lambda>c. c \<noteq> CHR 0x00) buf"

text \<open>\<^verbatim>\<open>PATH_MAX\<close> of \<^verbatim>\<open><limits.h>\<close>, on Linux.\<close>

abbreviation (input) PATH_MAX :: nat where "PATH_MAX \<equiv> 4096"

subsection \<open>The firmware-files dictionary\<close>

text \<open>
  The \<^verbatim>\<open>while\<close> loop over the lines of the firmware manifest file: an empty line and a
  file name that \<^verbatim>\<open>get_component_name\<close> does not know are skipped; otherwise the
  component name is mapped to \<^verbatim>\<open>firmware_path/filename\<close>, which \<^verbatim>\<open>snprintf\<close> cuts to fit
  \<^verbatim>\<open>char firmware_filename[PATH_MAX]\<close>.
\<close>

fun firmware_files_from_manifest ::
  "component_api \<Rightarrow> string \<Rightarrow> string list \<Rightarrow> plist \<Rightarrow> plist" where
  "firmware_files_from_manifest api firmware_path [] firmware_files = firmware_files"
| "firmware_files_from_manifest api firmware_path (filename # filenames) firmware_files =
     (if filename = [] then
        firmware_files_from_manifest api firmware_path filenames firmware_files
      else
        (case get_component_name api filename of
           None \<Rightarrow> firmware_files_from_manifest api firmware_path filenames firmware_files
         | Some compname \<Rightarrow>
             firmware_files_from_manifest api firmware_path filenames
               (plist_dict_set_item firmware_files compname
                  (PString (take (PATH_MAX - 1) (firmware_path @ ''/'' @ filename))))))"

text \<open>The items that a dictionary iterator walks; a node that is no dictionary gives
  none.\<close>

fun plist_dict_items :: "plist \<Rightarrow> (string \<times> plist) list" where
  "plist_dict_items (PDict items) = items"
| "plist_dict_items _ = []"

text \<open>The test on one entry of the build identity's \<open>Manifest\<close>:
  \<^verbatim>\<open>is_fw || (is_secondary_fw && loaded_by_iboot)\<close>, each flag read through
  \<^verbatim>\<open>plist_access_path\<close> and left at 0 unless the node is a boolean.\<close>

definition is_nor_firmware :: "plist \<Rightarrow> bool" where
  "is_nor_firmware manifest_entry =
     (let is_fw =
            plist_get_bool_val (plist_access_path manifest_entry [''Info'', ''IsFirmwarePayload''])
              False;
          loaded_by_iboot =
            plist_get_bool_val (plist_access_path manifest_entry [''Info'', ''IsLoadedByiBoot''])
              False;
          is_secondary_fw =
            plist_get_bool_val
              (plist_access_path manifest_entry [''Info'', ''IsSecondaryFirmwarePayload'']) False
      in is_fw \<or> (is_secondary_fw \<and> loaded_by_iboot))"

text \<open>The \<^verbatim>\<open>do ... while\<close> loop over the entries of the build identity's \<open>Manifest\<close>.\<close>

fun firmware_files_from_build_identity :: "(string \<times> plist) list \<Rightarrow> plist \<Rightarrow> plist" where
  "firmware_files_from_build_identity [] firmware_files = firmware_files"
| "firmware_files_from_build_identity ((component, manifest_entry) # entries) firmware_files =
     (if plist_get_node_type manifest_entry = PLIST_DICT \<and> is_nor_firmware manifest_entry then
        (case plist_access_path manifest_entry [''Info'', ''Path''] of
           None \<Rightarrow> firmware_files_from_build_identity entries firmware_files
         | Some comp_path \<Rightarrow>
             firmware_files_from_build_identity entries
               (plist_dict_set_item firmware_files component comp_path))
      else firmware_files_from_build_identity entries firmware_files)"

text \<open>
  The dictionary \<^verbatim>\<open>firmware_files\<close> of \<^verbatim>\<open>restore_send_nor\<close>: from the manifest file next to
  LLB when the archive has one and it extracts to a non-empty buffer, from the build
  identity otherwise.
\<close>

definition nor_firmware_files ::
  "component_api \<Rightarrow> ipsw_archive \<Rightarrow> plist \<Rightarrow> string \<Rightarrow> plist" where
  "nor_firmware_files api ipsw build_identity firmware_path =
     (let manifest_file = take (PATH_MAX - 1) (firmware_path @ ''/manifest'');
          manifest_data =
            (if ipsw_file_exists ipsw manifest_file
             then ipsw_extract_to_memory ipsw manifest_file else None)
      in case manifest_data of
           Some (b # bs) \<Rightarrow>
             firmware_files_from_manifest api firmware_path (strsep_crlf (c_string (b # bs)))
               (PDict [])
         | _ \<Rightarrow>
             (case plist_dict_get_item build_identity ''Manifest'' of
                None \<Rightarrow> PDict []
              | Some build_id_manifest \<Rightarrow>
                  firmware_files_from_build_identity (plist_dict_items build_id_manifest)
                    (PDict [])))"

subsection \<open>The image list\<close>

text \<open>
  The loop over \<^verbatim>\<open>firmware_files\<close> that fills \<^verbatim>\<open>norimage\<close>. An entry whose value is no
  string is skipped, and so are \<open>LLB\<close> and \<open>RestoreSEP\<close>. A failed extraction or
  personalization ends the function with \<open>-1\<close> (\<open>None\<close> here). With
  \<^verbatim>\<open>flash_version_1\<close> the image goes into a dictionary under the component name;
  otherwise into an array, in front when the name starts with \<open>iBoot\<close> and at the end
  when not.
\<close>

fun nor_images ::
  "component_api \<Rightarrow> plist option \<Rightarrow> bool \<Rightarrow> (string \<times> plist) list \<Rightarrow> plist \<Rightarrow> plist option"
  where
  "nor_images api tss_response flash_version_1 [] norimage = Some norimage"
| "nor_images api tss_response flash_version_1 ((component, pcomp) # rest) norimage =
     (case plist_get_string_val (Some pcomp) of
        None \<Rightarrow> nor_images api tss_response flash_version_1 rest norimage
      | Some comppath \<Rightarrow>
          if component = ''LLB'' \<or> component = ''RestoreSEP'' then
            nor_images api tss_response flash_version_1 rest norimage
          else
            (case extract_component api comppath of
               None \<Rightarrow> None
             | Some component_data \<Rightarrow>
                 (case personalize_component api component component_data tss_response of
                    None \<Rightarrow> None
                  | Some nor_data \<Rightarrow>
                      nor_images api tss_response flash_version_1 rest
                        (if flash_version_1 then
                           plist_dict_set_item norimage component (PData nor_data)
                         else if starts_with ''iBoot'' component then
                           plist_array_insert_item norimage (PData nor_data) 0
                         else plist_array_append_item norimage (PData nor_data)))))"

text \<open>The two optional images at the end, \<open>RestoreSEPImageData\<close> and \<open>SEPImageData\<close>:
  the component is added when the build identity has it with a path; a failed
  extraction or personalization ends the function (\<open>None\<close> here).\<close>

definition add_optional_image ::
  "component_api \<Rightarrow> plist option \<Rightarrow> plist \<Rightarrow> string \<Rightarrow> string \<Rightarrow> plist \<Rightarrow> plist option" where
  "add_optional_image api tss_response build_identity component key dict =
     (if build_identity_has_component api build_identity component then
        (case build_identity_get_component_path api build_identity component of
           None \<Rightarrow> Some dict
         | Some path \<Rightarrow>
             (case extract_component api path of
                None \<Rightarrow> None
              | Some component_data \<Rightarrow>
                  (case personalize_component api component component_data tss_response of
                     None \<Rightarrow> None
                   | Some personalized_data \<Rightarrow>
                       Some (plist_dict_set_item dict key (PData personalized_data)))))
      else Some dict)"

subsection \<open>The request handler\<close>

text \<open>\<^verbatim>\<open>flash_version_1\<close>: set when \<open>Arguments\<close> is a dictionary with an item
  \<open>FlashVersion1\<close>, of whatever type.\<close>

definition nor_flash_version_1 :: "plist \<Rightarrow> bool" where
  "nor_flash_version_1 message =
     (case plist_dict_get_item message ''Arguments'' of
        Some (PDict arguments) \<Rightarrow> map_of arguments ''FlashVersion1'' \<noteq> None
      | _ \<Rightarrow> False)"

text \<open>The path of LLB: from the ticket response when there is one and it has the entry,
  else from the build identity.\<close>

definition nor_llb_path ::
  "tss_api \<Rightarrow> component_api \<Rightarrow> plist option \<Rightarrow> plist \<Rightarrow> string option" where
  "nor_llb_path tssapi api tss_response build_identity =
     (case (case tss_response of
              None \<Rightarrow> None
            | Some response \<Rightarrow> tss_response_get_path_by_entry tssapi response ''LLB'') of
        Some llb_path \<Rightarrow> Some llb_path
      | None \<Rightarrow> build_identity_get_component_path api build_identity ''LLB'')"

text \<open>
  \<^verbatim>\<open>restore_send_nor\<close>. The result \<open>None\<close> stands for undefined behaviour: the firmware
  path is copied with \<^verbatim>\<open>memcpy(firmware_path, llb_path, (llb_filename - 1) - llb_path)\<close>
  into \<^verbatim>\<open>char firmware_path[PATH_MAX - 9]\<close>, which has no defined outcome when the path
  starts with \<open>LLB\<close> (the length is \<open>-1\<close>) or when the copy fills the buffer. Otherwise
  the result is the return value and the dictionary handed to \<^verbatim>\<open>restored_send\<close>, if the
  function got that far.
\<close>

definition restore_send_nor ::
  "tss_api \<Rightarrow> component_api \<Rightarrow> ipsw_archive \<Rightarrow> device_io \<Rightarrow> idevicerestore_client_t \<Rightarrow>
   plist \<Rightarrow> plist \<Rightarrow> (int \<times> plist list) option" where
  "restore_send_nor tssapi api ipsw restore client build_identity message =
     (let flash_version_1 = nor_flash_version_1 message in
      case nor_llb_path tssapi api (tss client) build_identity of
        None \<Rightarrow> Some (- 1, [])
      | Some llb_path \<Rightarrow>
          (case strstr llb_path ''LLB'' of
             None \<Rightarrow> Some (- 1, [])
           | Some llb_filename \<Rightarrow>
               if llb_filename = 0 \<or> PATH_MAX - 9 \<le> llb_filename - 1 then None
               else
                 let firmware_path = take (llb_filename - 1) llb_path;
                     firmware_files = nor_firmware_files api ipsw build_identity firmware_path
                 in
                 if plist_dict_items firmware_files = [] then Some (- 1, [])
                 else
                   (case extract_component api llb_path of
                      None \<Rightarrow> Some (- 1, [])
                    | Some component_data \<Rightarrow>
                        (case personalize_component api ''LLB'' component_data (tss client) of
                           None \<Rightarrow> Some (- 1, [])
                         | Some llb_data \<Rightarrow>
                             (let dict = plist_dict_set_item (PDict []) ''LlbImageData''
                                           (PData llb_data)
                              in case nor_images api (tss client) flash_version_1
                                        (plist_dict_items firmware_files)
                                        (if flash_version_1 then PDict [] else PArray []) of
                                   None \<Rightarrow> Some (- 1, [])
                                 | Some norimage \<Rightarrow>
                                     (let dict = plist_dict_set_item dict ''NorImageData'' norimage
                                      in case add_optional_image api (tss client) build_identity
                                                ''RestoreSEP'' ''RestoreSEPImageData'' dict of
                                           None \<Rightarrow> Some (- 1, [])
                                         | Some dict \<Rightarrow>
                                             (case add_optional_image api (tss client)
                                                     build_identity ''SEP'' ''SEPImageData'' dict of
                                                None \<Rightarrow> Some (- 1, [])
                                              | Some dict \<Rightarrow>
                                                  if restored_send restore dict
                                                  then Some (0, [dict])
                                                  else Some (- 1, [dict]))))))))"

subsection \<open>Reading the result\<close>

text \<open>
  Three notions used to state what the handler sends. The firmware-files dictionary that
  the handler builds for a request (empty when it returns before building it); an entry
  of it that the image loop does not skip; and the image of an entry, which is the
  personalized data of the component extracted from the entry's path.
\<close>

definition nor_request_firmware_files ::
  "tss_api \<Rightarrow> component_api \<Rightarrow> ipsw_archive \<Rightarrow> idevicerestore_client_t \<Rightarrow> plist \<Rightarrow>
   (string \<times> plist) list" where
  "nor_request_firmware_files tssapi api ipsw client build_identity =
     (case nor_llb_path tssapi api (tss client) build_identity of
        None \<Rightarrow> []
      | Some llb_path \<Rightarrow>
          (case strstr llb_path ''LLB'' of
             None \<Rightarrow> []
           | Some llb_filename \<Rightarrow>
               plist_dict_items
                 (nor_firmware_files api ipsw build_identity (take (llb_filename - 1) llb_path))))"

definition nor_included :: "string \<times> plist \<Rightarrow> bool" where
  "nor_included entry =
     (plist_get_string_val (Some (snd entry)) \<noteq> None
      \<and> fst entry \<noteq> ''LLB'' \<and> fst entry \<noteq> ''RestoreSEP'')"

definition image_of :: "component_api \<Rightarrow> plist option \<Rightarrow> string \<times> plist \<Rightarrow> plist option" where
  "image_of api tss_response entry =
     (case plist_get_string_val (Some (snd entry)) of
        None \<Rightarrow> None
      | Some comppath \<Rightarrow>
          (case extract_component api comppath of
             None \<Rightarrow> None
           | Some component_data \<Rightarrow>
               map_option PData
                 (personalize_component api (fst entry) component_data tss_response)))"

text \<open>The entries of an array node; a node that is no array has none.\<close>

fun plist_array_items :: "plist \<Rightarrow> plist list" where
  "plist_array_items (PArray xs) = xs"
| "plist_array_items _ = []"

section \<open>Baseband firmware\<close>

subsection \<open>The archive library\<close>

text \<open>
  The baseband firmware is a ZIP archive that the code edits through libzip. The open
  archive \<^verbatim>\<open>struct zip*\<close> keeps the entries at their indices together with the changes
  staged on them; nothing reaches the disk before \<^verbatim>\<open>zip_close\<close>. A deleted entry keeps its
  index, an added one gets the next index.
\<close>

datatype zip_change = ZIP_UNCHANGED | ZIP_REPLACED bytes | ZIP_DELETED | ZIP_ADDED

record zip_entry =
  ze_name :: string
  ze_data :: bytes
  ze_change :: zip_change

type_synonym zip = "zip_entry list"

definition zip_open :: "zip_entries \<Rightarrow> zip" where
  "zip_open entries =
     map (\<lambda>(name, data). \<lparr> ze_name = name, ze_data = data, ze_change = ZIP_UNCHANGED \<rparr>) entries"

text \<open>\<^verbatim>\<open>zip_name_locate(za, name, 0)\<close>: the first index whose entry has the name and is
  not deleted.\<close>

fun zip_name_locate :: "zip \<Rightarrow> string \<Rightarrow> nat option" where
  "zip_name_locate [] name = None"
| "zip_name_locate (e # es) name =
     (if ze_name e = name \<and> ze_change e \<noteq> ZIP_DELETED then Some 0
      else map_option Suc (zip_name_locate es name))"

text \<open>\<^verbatim>\<open>zip_get_name(za, i, 0)\<close>: \<^verbatim>\<open>NULL\<close> for a deleted entry or a bad index.\<close>

definition zip_get_name :: "zip \<Rightarrow> nat \<Rightarrow> string option" where
  "zip_get_name za i =
     (if i < length za \<and> ze_change (za ! i) \<noteq> ZIP_DELETED then Some (ze_name (za ! i))
      else None)"

definition zip_delete :: "zip \<Rightarrow> nat \<Rightarrow> zip" where
  "zip_delete za i =
     (if i < length za then za[i := (za ! i)\<lparr> ze_change := ZIP_DELETED \<rparr>] else za)"

definition zip_replace :: "zip \<Rightarrow> nat \<Rightarrow> bytes \<Rightarrow> zip" where
  "zip_replace za i data =
     (if i < length za then za[i := (za ! i)\<lparr> ze_change := ZIP_REPLACED data \<rparr>] else za)"

definition zip_add :: "zip \<Rightarrow> string \<Rightarrow> bytes \<Rightarrow> zip" where
  "zip_add za name data = za @ [\<lparr> ze_name = name, ze_data = data, ze_change = ZIP_ADDED \<rparr>]"

text \<open>\<^verbatim>\<open>zip_unchange_all\<close> drops every staged change: added entries go, the others are as
  on disk.\<close>

definition zip_unchange_all :: "zip \<Rightarrow> zip" where
  "zip_unchange_all za =
     map (\<lambda>e. e\<lparr> ze_change := ZIP_UNCHANGED \<rparr>) (filter (\<lambda>e. ze_change e \<noteq> ZIP_ADDED) za)"

text \<open>What a successful \<^verbatim>\<open>zip_close\<close> writes: the entries that are not deleted, in index
  order, a replaced one with its new content.\<close>

definition zip_committed :: "zip \<Rightarrow> zip_entries" where
  "zip_committed za =
     map (\<lambda>e. (ze_name e, case ze_change e of ZIP_REPLACED data \<Rightarrow> data | _ \<Rightarrow> ze_data e))
       (filter (\<lambda>e. ze_change e \<noteq> ZIP_DELETED) za)"

text \<open>
  The functions of libzip, \<^verbatim>\<open>mbn.c\<close> and \<^verbatim>\<open>fls.c\<close> whose outcome the caller tests, as
  parameters. \<open>zip_read\<close> stands for \<^verbatim>\<open>zip_stat_index\<close>, \<^verbatim>\<open>zip_fopen_index\<close> and
  \<^verbatim>\<open>zip_fread\<close> on an index, which the code runs in a row and treats alike (\<open>None\<close> when
  one of them fails). An \<^verbatim>\<open>mbn_file\<close> or \<^verbatim>\<open>fls_file\<close> is represented by the bytes of its
  \<^verbatim>\<open>data\<close> and \<^verbatim>\<open>size\<close> fields, the only ones the code reads. Memory allocation is taken
  to succeed.
\<close>

record bbfw_api =
  zip_read :: "zip \<Rightarrow> nat \<Rightarrow> bytes option"
  zip_replace_ok :: "zip \<Rightarrow> nat \<Rightarrow> bool"
  zip_add_ok :: "zip \<Rightarrow> string \<Rightarrow> bool"
  zip_close_ok :: "zip \<Rightarrow> bool"
  mbn_parse :: "bytes \<Rightarrow> bytes option"
  mbn_update_sig_blob :: "bytes \<Rightarrow> bytes \<Rightarrow> bytes option"
  fls_parse :: "bytes \<Rightarrow> bytes option"
  fls_update_sig_blob :: "bytes \<Rightarrow> bytes \<Rightarrow> bytes option"
  fls_insert_ticket :: "bytes \<Rightarrow> bytes \<Rightarrow> bytes option"

text \<open>
  \<^verbatim>\<open>zip_close\<close> on a file whose content is \<open>file\<close> (\<open>None\<close>: no readable archive). Without
  staged changes it writes nothing. With changes it either fails and leaves the file as
  it was, or replaces it by the committed entries; an archive left without entries is
  removed from the disk.
\<close>

definition zip_close :: "bbfw_api \<Rightarrow> zip \<Rightarrow> zip_entries option \<Rightarrow> bool \<times> zip_entries option"
  where
  "zip_close api za file =
     (if list_all (\<lambda>e. ze_change e = ZIP_UNCHANGED) za then (True, file)
      else if zip_close_ok api za then
        (True, if zip_committed za = [] then None else Some (zip_committed za))
      else (False, file))"

subsection \<open>Signing the firmware files\<close>

text \<open>The table of \<^verbatim>\<open>restore_get_bbfw_fn_for_element\<close>; the loop returns the first
  match.\<close>

definition bbfw_fn_elem :: "(string \<times> string) list" where
  "bbfw_fn_elem =
     [(''RamPSI'', ''psi_ram.fls''),
      (''FlashPSI'', ''psi_flash.fls''),
      (''eDBL'', ''dbl.mbn''),
      (''RestoreDBL'', ''restoredbl.mbn''),
      (''DBL'', ''dbl.mbn''),
      (''ENANDPRG'', ''ENPRG.mbn''),
      (''RestoreSBL1'', ''restoresbl1.mbn''),
      (''SBL1'', ''sbl1.mbn''),
      (''RestorePSI'', ''restorepsi.bin''),
      (''PSI'', ''psi_ram.bin''),
      (''RestorePSI2'', ''restorepsi2.bin''),
      (''PSI2'', ''psi_ram2.bin''),
      (''Misc'', ''multi_image.mbn'')]"

definition restore_get_bbfw_fn_for_element :: "string \<Rightarrow> string option" where
  "restore_get_bbfw_fn_for_element elem = map_of bbfw_fn_elem elem"

text \<open>\<^verbatim>\<open>strrchr(s, c)\<close>: the rest of the string from the last occurrence of the
  character.\<close>

definition strrchr :: "string \<Rightarrow> char \<Rightarrow> string option" where
  "strrchr s c =
     (if c \<in> set s then Some (c # rev (takeWhile (\<lambda>x. x \<noteq> c) (rev s))) else None)"

text \<open>The local variables of \<^verbatim>\<open>restore_sign_bbfw\<close> that the loop over the ticket's
  \<open>BasebandFirmware\<close> dictionary changes: the open archive, \<^verbatim>\<open>is_fls\<close>, and the first
  \<^verbatim>\<open>signed_file_count\<close> elements of \<^verbatim>\<open>signed_file_idxs\<close>.\<close>

record sign_state =
  za :: zip
  is_fls :: bool
  signed_file_idxs :: "nat list"

text \<open>
  The error that sends \<^verbatim>\<open>restore_sign_bbfw\<close> to its end, one for each \<^verbatim>\<open>error(...)\<close> line
  of the function (the three lines for \<^verbatim>\<open>zip_stat_index\<close>, \<^verbatim>\<open>zip_fopen_index\<close> and
  \<^verbatim>\<open>zip_fread\<close> are one, and so are the two parse lines):
  "Could not find BBTicket in Baseband TSS response",
  "Could not find BasebandFirmware Dictionary node in Baseband TSS response",
  "Could not open ZIP archive",
  "can't match element name ... to baseband firmware file name",
  "can't locate ... in ..." for a firmware file,
  "zip_stat_index failed", "zip_fopen_index failed" or "zip_fread: failed",
  "could not parse fls file" or "could not parse mbn file",
  "could not get ...-Blob data" (the copy of a data node's bytes is never \<^verbatim>\<open>NULL\<close> here, so
  neither this exit nor its twin "could not get BBTicket data" is ever taken),
  "could not sign ...",
  "could not update signed ... in archive" or
  "could not update archive with ticketed ebl.fls",
  "can't locate 'ebl.fls' in ...",
  "could not insert BBTicket to ebl.fls",
  "could not add bbticket.der to archive",
  "could not close and write modified archive".
\<close>

datatype sign_error =
    NO_BBTICKET
  | NO_BASEBAND_FIRMWARE
  | ZIP_OPEN_FAILED
  | NO_FILE_NAME_FOR_ELEMENT
  | FILE_NOT_IN_ARCHIVE
  | ZIP_READ_FAILED
  | PARSE_FAILED
  | NO_BLOB_DATA
  | SIGN_FAILED
  | ZIP_REPLACE_FAILED
  | EBL_NOT_IN_ARCHIVE
  | INSERT_TICKET_FAILED
  | ZIP_ADD_FAILED
  | ZIP_CLOSE_FAILED

text \<open>How a part of the function ends: it goes on with a new state, it reports an error
  and jumps to \<^verbatim>\<open>leave\<close> with the archive as it is, or its behaviour is undefined.\<close>

datatype 'a step = Done 'a | Leave zip sign_error | Undefined

text \<open>
  One round of the loop, for the item \<open>(key, node)\<close>. The test
  \<^verbatim>\<open>strcmp(key + (strlen(key) - 5), "-Blob")\<close> reads in front of the key when it has less
  than five characters, and \<^verbatim>\<open>signed_file_idxs\<close> has room for 16 indices: both are
  undefined behaviour. \<^verbatim>\<open>strchr(key, '-')\<close> cuts the key at its first dash. \<^verbatim>\<open>is_fls\<close>,
  once set, stays set for the later items.
\<close>

definition sign_blob :: "bbfw_api \<Rightarrow> bool \<Rightarrow> sign_state \<Rightarrow> string \<times> plist \<Rightarrow> sign_state step"
  where
  "sign_blob api has_nonce st item =
     (case item of (key, node) \<Rightarrow>
        if length key < 5 then Undefined
        else if drop (length key - 5) key = ''-Blob''
                \<and> plist_get_node_type node = PLIST_DATA then
          (let element = takeWhile (\<lambda>c. c \<noteq> CHR ''-'') key in
           case restore_get_bbfw_fn_for_element element of
             None \<Rightarrow> Leave (za st) NO_FILE_NAME_FOR_ELEMENT
           | Some signfn \<Rightarrow>
               (let fls = (strrchr signfn (CHR ''.'') = Some ''.fls'' \<or> is_fls st) in
                case zip_name_locate (za st) signfn of
                  None \<Rightarrow> Leave (za st) FILE_NOT_IN_ARCHIVE
                | Some zindex \<Rightarrow>
                    (case zip_read api (za st) zindex of
                       None \<Rightarrow> Leave (za st) ZIP_READ_FAILED
                     | Some buffer \<Rightarrow>
                         (case (if fls then fls_parse api buffer else mbn_parse api buffer) of
                            None \<Rightarrow> Leave (za st) PARSE_FAILED
                          | Some parsed \<Rightarrow>
                              (case plist_get_data_val (Some node) of
                                 None \<Rightarrow> Leave (za st) NO_BLOB_DATA
                               | Some blob \<Rightarrow>
                                   (case (if fls then fls_update_sig_blob api parsed blob
                                          else mbn_update_sig_blob api parsed blob) of
                                      None \<Rightarrow> Leave (za st) SIGN_FAILED
                                    | Some fdata \<Rightarrow>
                                        if \<not> zip_replace_ok api (za st) zindex
                                        then Leave (za st) ZIP_REPLACE_FAILED
                                        else if fls \<and> \<not> has_nonce \<and> element \<noteq> ''RamPSI''
                                        then Done (st\<lparr> za := zip_replace (za st) zindex fdata,
                                                       is_fls := fls \<rparr>)
                                        else if 16 \<le> length (signed_file_idxs st)
                                        then Undefined
                                        else Done (st\<lparr> za := zip_replace (za st) zindex fdata,
                                                       is_fls := fls,
                                                       signed_file_idxs :=
                                                         signed_file_idxs st @ [zindex] \<rparr>)))))))
        else Done st)"

text \<open>The loop over the items of the dictionary.\<close>

fun sign_blobs ::
  "bbfw_api \<Rightarrow> bool \<Rightarrow> (string \<times> plist) list \<Rightarrow> sign_state \<Rightarrow> sign_state step" where
  "sign_blobs api has_nonce [] st = Done st"
| "sign_blobs api has_nonce (item # items) st =
     (case sign_blob api has_nonce st item of
        Done st' \<Rightarrow> sign_blobs api has_nonce items st'
      | Leave z e \<Rightarrow> Leave z e
      | Undefined \<Rightarrow> Undefined)"

text \<open>The extension test of the removal loop:
  \<^verbatim>\<open>ext && (!strcmp(ext, ".fls") || !strcmp(ext, ".mbn") || !strcmp(ext, ".elf") || !strcmp(ext, ".bin"))\<close>
  for \<^verbatim>\<open>ext = strrchr(fn, '.')\<close>.\<close>

definition kept_extension :: "string \<Rightarrow> bool" where
  "kept_extension fn =
     (case strrchr fn (CHR ''.'') of
        None \<Rightarrow> False
      | Some ext \<Rightarrow> ext = ''.fls'' \<or> ext = ''.mbn'' \<or> ext = ''.elf'' \<or> ext = ''.bin'')"

text \<open>The test of the removal loop for index \<open>i\<close>: a signed index is kept; with a nonce,
  so is an entry that has a name with one of the four extensions.\<close>

definition keep_entry :: "bool \<Rightarrow> nat list \<Rightarrow> zip \<Rightarrow> nat \<Rightarrow> bool" where
  "keep_entry has_nonce idxs z i =
     (i \<in> set idxs
      \<or> (has_nonce \<and>
          (case zip_get_name z i of
             None \<Rightarrow> False
           | Some fn \<Rightarrow> kept_extension fn)))"

text \<open>The loop \<^verbatim>\<open>for (i = 0; i < numf; i++)\<close> that deletes what is not kept.\<close>

fun remove_loop :: "bool \<Rightarrow> nat list \<Rightarrow> nat list \<Rightarrow> zip \<Rightarrow> zip" where
  "remove_loop has_nonce idxs [] z = z"
| "remove_loop has_nonce idxs (i # is) z =
     remove_loop has_nonce idxs is
       (if keep_entry has_nonce idxs z i then z else zip_delete z i)"

definition remove_unrequired :: "bool \<Rightarrow> nat list \<Rightarrow> zip \<Rightarrow> zip" where
  "remove_unrequired has_nonce idxs z = remove_loop has_nonce idxs [0..<length z] z"

text \<open>The ticket, with a nonce: inserted into \<open>ebl.fls\<close> on the FLS path, added as
  \<open>bbticket.der\<close> otherwise.\<close>

definition add_bbticket :: "bbfw_api \<Rightarrow> bool \<Rightarrow> bool \<Rightarrow> bytes \<Rightarrow> zip \<Rightarrow> zip step" where
  "add_bbticket api has_nonce fls bbticket z =
     (if \<not> has_nonce then Done z
      else if fls then
        (case zip_name_locate z ''ebl.fls'' of
           None \<Rightarrow> Leave z EBL_NOT_IN_ARCHIVE
         | Some zindex \<Rightarrow>
             (case zip_read api z zindex of
                None \<Rightarrow> Leave z ZIP_READ_FAILED
              | Some buffer \<Rightarrow>
                  (case fls_parse api buffer of
                     None \<Rightarrow> Leave z PARSE_FAILED
                   | Some parsed \<Rightarrow>
                       (case fls_insert_ticket api parsed bbticket of
                          None \<Rightarrow> Leave z INSERT_TICKET_FAILED
                        | Some fdata \<Rightarrow>
                            if \<not> zip_replace_ok api z zindex then Leave z ZIP_REPLACE_FAILED
                            else Done (zip_replace z zindex fdata)))))
      else if \<not> zip_add_ok api z ''bbticket.der'' then Leave z ZIP_ADD_FAILED
      else Done (zip_add z ''bbticket.der'' bbticket))"

text \<open>At \<^verbatim>\<open>leave\<close> with the archive still open: \<^verbatim>\<open>zip_unchange_all\<close>, then
  \<^verbatim>\<open>zip_close\<close>. The result is the file afterwards.\<close>

definition leave :: "bbfw_api \<Rightarrow> zip \<Rightarrow> zip_entries option \<Rightarrow> zip_entries option" where
  "leave api z file = snd (zip_close api (zip_unchange_all z) file)"

text \<open>
  \<^verbatim>\<open>restore_sign_bbfw\<close> on the file \<^verbatim>\<open>bbfwtmp\<close> with content \<open>file\<close>; \<open>has_nonce\<close> is
  \<^verbatim>\<open>bb_nonce != NULL\<close>. The result is the return value, the file afterwards and the error
  reported (\<open>None\<close> when no error line is written), or \<open>None\<close> for undefined behaviour.
\<close>

definition restore_sign_bbfw ::
  "bbfw_api \<Rightarrow> zip_entries option \<Rightarrow> plist \<Rightarrow> bool \<Rightarrow>
   (int \<times> zip_entries option \<times> sign_error option) option" where
  "restore_sign_bbfw api file bbtss_response has_nonce =
     (case plist_dict_get_item bbtss_response ''BBTicket'' of
        Some (PData bbticket) \<Rightarrow>
          (case plist_dict_get_item bbtss_response ''BasebandFirmware'' of
             Some (PDict bbfw_dict) \<Rightarrow>
               (case file of
                  None \<Rightarrow> Some (- 1, file, Some ZIP_OPEN_FAILED)
                | Some entries \<Rightarrow>
                    (case sign_blobs api has_nonce bbfw_dict
                            \<lparr> za = zip_open entries, is_fls = False, signed_file_idxs = [] \<rparr> of
                       Undefined \<Rightarrow> None
                     | Leave z e \<Rightarrow> Some (- 1, leave api z file, Some e)
                     | Done st \<Rightarrow>
                         (case add_bbticket api has_nonce (is_fls st) bbticket
                                 (remove_unrequired has_nonce (signed_file_idxs st) (za st)) of
                            Undefined \<Rightarrow> None
                          | Leave z e \<Rightarrow> Some (- 1, leave api z file, Some e)
                          | Done z \<Rightarrow>
                              (case zip_close api z file of
                                 (True, file') \<Rightarrow> Some (0, file', None)
                               | (False, file') \<Rightarrow> Some (- 1, file', Some ZIP_CLOSE_FAILED)))))
           | _ \<Rightarrow> Some (- 1, file, Some NO_BASEBAND_FIRMWARE))
      | _ \<Rightarrow> Some (- 1, file, Some NO_BBTICKET))"

subsection \<open>The request handler\<close>

text \<open>
  What \<^verbatim>\<open>restore_send_baseband_data\<close> leaves behind: its return value, the client with
  the cache \<^verbatim>\<open>restore->bbtss\<close> as it is afterwards, the nonce it found in the request,
  the requests it sent to the ticket server, the ticket response it handed to
  \<^verbatim>\<open>restore_sign_bbfw\<close> (\<open>None\<close> when it did not get that far), and the messages it handed
  to \<^verbatim>\<open>restored_send\<close>.
\<close>

record baseband_result =
  bb_ret :: int
  bb_client :: idevicerestore_client_t
  bb_nonce :: "bytes option"
  bb_requests :: "plist list"
  bb_signed_with :: "plist option"
  bb_sent :: "plist list"

text \<open>The nonce of a request: the data under \<open>Arguments.Nonce\<close>.\<close>

definition baseband_nonce :: "plist \<Rightarrow> bytes option" where
  "baseband_nonce message =
     (case plist_dict_get_item message ''Arguments'' of
        Some (PDict arguments) \<Rightarrow> plist_get_data_val (map_of arguments ''Nonce'')
      | _ \<Rightarrow> None)"

text \<open>The ticket request that is built when there is no nonce or no cached response.\<close>

definition baseband_tss_request ::
  "tss_api \<Rightarrow> idevicerestore_client_t \<Rightarrow> plist \<Rightarrow> plist \<Rightarrow> plist option" where
  "baseband_tss_request tssapi client build_identity message =
     (let arguments =
            (case plist_dict_get_item message ''Arguments'' of
               Some (PDict arguments) \<Rightarrow> PDict arguments
             | _ \<Rightarrow> PDict []);
          bb_chip_id = plist_get_uint_val (plist_dict_get_item arguments ''ChipID'') 0;
          bb_cert_id = plist_get_uint_val (plist_dict_get_item arguments ''CertID'') 0;
          bb_snum =
            (case plist_get_data_val (plist_dict_get_item arguments ''ChipSerialNo'') of
               None \<Rightarrow> []
             | Some d \<Rightarrow> d);
          parameters = plist_dict_set_item (PDict []) ''ApECID'' (PUInt (ecid client));
          parameters =
            (case baseband_nonce message of
               None \<Rightarrow> parameters
             | Some nonce \<Rightarrow> plist_dict_set_item parameters ''BbNonce'' (PData nonce));
          parameters = plist_dict_set_item parameters ''BbChipID'' (PUInt bb_chip_id);
          parameters = plist_dict_set_item parameters ''BbGoldCertId'' (PUInt bb_cert_id);
          parameters = plist_dict_set_item parameters ''BbSNUM'' (PData bb_snum);
          parameters = tss_parameters_add_from_manifest tssapi parameters build_identity
      in case tss_request_new tssapi of
           None \<Rightarrow> None
         | Some request \<Rightarrow>
             (let request = tss_request_add_common_tags tssapi request parameters;
                  request = tss_request_add_baseband_tags tssapi request parameters;
                  fdr = plist_get_bool_val
                          (plist_access_path build_identity [''Info'', ''FDRSupport'']) False
              in Some (if fdr
                       then plist_dict_set_item
                              (plist_dict_set_item request ''ApProductionMode'' (PBool True))
                              ''ApSecurityMode'' (PBool True)
                       else request)))"

text \<open>
  \<^verbatim>\<open>restore_send_baseband_data\<close>. A ticket is requested when the request has no nonce or
  nothing is cached. The response is stored in \<^verbatim>\<open>restore->bbtss\<close> when there is a nonce and
  nothing is cached, after the firmware has been extracted; the signing takes the
  cached response when there is one, else the response just received. The name of the
  temporary file plays no part and is left out. \<open>None\<close> is undefined behaviour inside
  \<^verbatim>\<open>restore_sign_bbfw\<close>.
\<close>

definition restore_send_baseband_data ::
  "tss_api \<Rightarrow> component_api \<Rightarrow> ipsw_archive \<Rightarrow> bbfw_api \<Rightarrow> device_io \<Rightarrow>
   idevicerestore_client_t \<Rightarrow> plist \<Rightarrow> plist \<Rightarrow> baseband_result option" where
  "restore_send_baseband_data tssapi api ipsw bbapi restore client build_identity message =
     (let nonce = baseband_nonce message;
          result = \<lparr> bb_ret = - 1, bb_client = client, bb_nonce = nonce, bb_requests = [],
                     bb_signed_with = None, bb_sent = [] \<rparr>;
          fetch = (nonce = None \<or> bbtss client = None);
          request = (if fetch then baseband_tss_request tssapi client build_identity message
                     else None)
      in
      if fetch \<and> request = None then Some result
      else
        (let response = (case request of
                           None \<Rightarrow> None
                         | Some r \<Rightarrow> tss_request_send tssapi r (tss_url client));
             result = result\<lparr> bb_requests := (case request of None \<Rightarrow> [] | Some r \<Rightarrow> [r]) \<rparr>
         in
         if fetch \<and> response = None then Some result
         else
           (case plist_get_string_val
                   (plist_access_path build_identity
                      [''Manifest'', ''BasebandFirmware'', ''Info'', ''Path'']) of
              None \<Rightarrow> Some result
            | Some bbfwpath \<Rightarrow>
                (case ipsw_extract_to_file ipsw bbfwpath of
                   None \<Rightarrow> Some result
                 | Some file \<Rightarrow>
                     (let cached = (if nonce \<noteq> None \<and> bbtss client = None then response
                                    else bbtss client);
                          ticket = (case cached of Some t \<Rightarrow> Some t | None \<Rightarrow> response);
                          result = result\<lparr> bb_client := client\<lparr> bbtss := cached \<rparr>,
                                           bb_signed_with := ticket \<rparr>
                      in case ticket of
                           None \<Rightarrow> Some result
                         | Some t \<Rightarrow>
                             (case restore_sign_bbfw bbapi file t (nonce \<noteq> None) of
                                None \<Rightarrow> None
                              | Some (res, file', e) \<Rightarrow>
                                  if res \<noteq> 0 then Some (result\<lparr> bb_ret := res \<rparr>)
                                  else
                                    (case read_file api file' of
                                       None \<Rightarrow> Some result
                                     | Some buffer \<Rightarrow>
                                         (let dict = plist_dict_set_item (PDict [])
                                                       ''BasebandData'' (PData buffer)
                                          in if restored_send restore dict
                                             then Some (result\<lparr> bb_ret := 0,
                                                                bb_sent := [dict] \<rparr>)
                                             else Some (result\<lparr> bb_sent := [dict] \<rparr>)))))))))"

subsection \<open>A restore session\<close>

text \<open>\<^verbatim>\<open>restore_device\<close>, before the message loop: when the AP ticket response already
  has a \<open>BBTicket\<close>, a copy of it becomes the cached baseband response.\<close>

definition restore_device_bbtss :: "idevicerestore_client_t \<Rightarrow> idevicerestore_client_t" where
  "restore_device_bbtss client =
     (if (case tss client of
            None \<Rightarrow> False
          | Some response \<Rightarrow> plist_dict_get_item response ''BBTicket'' \<noteq> None)
      then client\<lparr> bbtss := tss client \<rparr> else client)"

text \<open>The BasebandData requests of one session, handled one after the other on the same
  client: the list pairs the client before each request with what the handler left.
  The list ends where the behaviour stops being defined.\<close>

fun baseband_session ::
  "tss_api \<Rightarrow> component_api \<Rightarrow> ipsw_archive \<Rightarrow> bbfw_api \<Rightarrow> device_io \<Rightarrow> plist \<Rightarrow>
   idevicerestore_client_t \<Rightarrow> plist list \<Rightarrow> (idevicerestore_client_t \<times> baseband_result) list"
  where
  "baseband_session tssapi api ipsw bbapi restore build_identity client [] = []"
| "baseband_session tssapi api ipsw bbapi restore build_identity client (message # messages) =
     (case restore_send_baseband_data tssapi api ipsw bbapi restore client build_identity
             message of
        None \<Rightarrow> []
      | Some result \<Rightarrow>
          (client, result)
          # baseband_session tssapi api ipsw bbapi restore build_identity (bb_client result)
              messages)"

subsection \<open>Reading the result\<close>

text \<open>The names of the entries of the archive file, in order; a file that is gone has
  none.\<close>

definition archive_names :: "zip_entries option \<Rightarrow> string list" where
  "archive_names file = (case file of None \<Rightarrow> [] | Some entries \<Rightarrow> map fst entries)"

text \<open>What the signing loop keeps true of its state, for an archive opened on \<open>entries\<close>:
  the open archive has the names of the file's entries at their indices, the only
  change staged on an entry is a replacement of its content, and every index in
  \<^verbatim>\<open>signed_file_idxs\<close> is an index of the archive whose entry has been replaced.\<close>

definition sign_inv :: "zip_entries \<Rightarrow> sign_state \<Rightarrow> bool" where
  "sign_inv entries st =
     (map ze_name (za st) = map fst entries
      \<and> list_all (\<lambda>e. ze_change e \<noteq> ZIP_DELETED \<and> ze_change e \<noteq> ZIP_ADDED) (za st)
      \<and> list_all (\<lambda>i. i < length entries \<and> ze_change (za st ! i) \<noteq> ZIP_UNCHANGED)
          (signed_file_idxs st))"

section \<open>Example inputs\<close>

text \<open>Concrete devices, archives and messages at which the theorems below are evaluated.\<close>

text \<open>A device that accepts the first connection and every message.\<close>

definition device_ready :: device_io where
  "device_ready =
     \<lparr> idevice_connect = (\<lambda>port k. Some \<lparr> wire = [], room = 400 \<rparr>),
       restored_send = (\<lambda>dict. True) \<rparr>"

text \<open>A device that accepts the first connection, and whose data connection breaks after
  123 bytes.\<close>

definition device_short :: device_io where
  "device_short =
     \<lparr> idevice_connect = (\<lambda>port k. Some \<lparr> wire = [], room = 123 \<rparr>),
       restored_send = (\<lambda>dict. True) \<rparr>"

text \<open>A device whose data port refuses nine connections and would accept the tenth.\<close>

definition device_tenth :: device_io where
  "device_tenth =
     \<lparr> idevice_connect = (\<lambda>port k. if k = 9 then Some \<lparr> wire = [], room = 400 \<rparr> else None),
       restored_send = (\<lambda>dict. True) \<rparr>"

text \<open>A firmware archive whose bundle has one regular file of three bytes, and an empty
  one.\<close>

definition ipsw_one_file :: ipsw_archive where
  "ipsw_one_file =
     \<lparr> ipsw_entries =
         [(''BootabilityBundle/Restore/Bootability/foo'',
           \<lparr> st_dev = 0, st_ino = 7, st_mode = 0x81A4, st_uid = 501, st_gid = 20,
             st_nlink = 1, st_rdev = 0, st_mtime = 0, st_size = 3 \<rparr>)],
       ipsw_extract_to_memory = (\<lambda>name. Some ''abc''),
       ipsw_file_exists = (\<lambda>name. True),
       ipsw_extract_to_file = (\<lambda>name. None) \<rparr>"

definition ipsw_empty :: ipsw_archive where
  "ipsw_empty =
     \<lparr> ipsw_entries = [],
       ipsw_extract_to_memory = (\<lambda>name. None),
       ipsw_file_exists = (\<lambda>name. False),
       ipsw_extract_to_file = (\<lambda>name. None) \<rparr>"

text \<open>Ticket functions whose getters are the key lookups modelled from the spec; no
  component paths in the response, no ticket server.\<close>

definition tss_lookup :: tss_api where
  "tss_lookup =
     \<lparr> tss_response_get_ap_img4_ticket = tss_response_get_data_by_key ''ApImg4Ticket'',
       tss_response_get_ap_ticket = tss_response_get_data_by_key ''APTicket'',
       tss_response_get_path_by_entry = (\<lambda>response entry. None),
       tss_request_new = None,
       tss_parameters_add_from_manifest = (\<lambda>parameters build_identity. parameters),
       tss_request_add_common_tags = (\<lambda>request parameters. request),
       tss_request_add_baseband_tags = (\<lambda>request parameters. request),
       tss_request_send = (\<lambda>request url. None) \<rparr>"

text \<open>A client with the given ticket response, custom flag and image4 capability, and
  nothing else set.\<close>

definition client_with :: "plist \<Rightarrow> bool \<Rightarrow> bool \<Rightarrow> idevicerestore_client_t" where
  "client_with response custom image4 =
     \<lparr> root_ticket = None, tss = Some response, flag_custom = custom,
       image4supported = image4, ecid = 0, udid = [], tss_url = [], bbtss = None \<rparr>"

text \<open>Component helpers for the examples: extraction and personalization tag their
  input, the build identity is read at \<open>Manifest.<name>.Info.Path\<close>, and file names are
  recognised by their first letters.\<close>

definition components_tagging :: component_api where
  "components_tagging =
     \<lparr> build_identity_get_component_path =
         (\<lambda>build_identity name.
            plist_get_string_val
              (plist_access_path build_identity [''Manifest'', name, ''Info'', ''Path''])),
       build_identity_has_component =
         (\<lambda>build_identity name. plist_access_path build_identity [''Manifest'', name] \<noteq> None),
       extract_component = (\<lambda>path. Some (''raw:'' @ path)),
       personalize_component = (\<lambda>name data response. Some (''img4:'' @ name @ '':'' @ data)),
       get_component_name =
         (\<lambda>filename. if starts_with ''LLB'' filename then Some ''LLB''
                     else if starts_with ''iBoot'' filename then Some ''iBoot''
                     else None),
       read_file = (\<lambda>file. None) \<rparr>"

text \<open>A manifest entry with a path and \<open>IsFirmwarePayload = true\<close>.\<close>

definition firmware_entry :: "string \<Rightarrow> plist" where
  "firmware_entry path =
     PDict [(''Info'', PDict [(''Path'', PString path), (''IsFirmwarePayload'', PBool True)])]"

text \<open>The build identity of scenario S3 (LLB, iBoot, iBootData), and one with LLB, iBoot
  and AppleLogo.\<close>

definition build_identity_s3 :: plist where
  "build_identity_s3 =
     PDict [(''Manifest'', PDict
       [(''LLB'', firmware_entry ''Firmware/all_flash/LLB.d10.RELEASE.im4p''),
        (''iBoot'', firmware_entry ''Firmware/all_flash/iBoot.d10.RELEASE.im4p''),
        (''iBootData'', firmware_entry ''Firmware/all_flash/iBootData.d10.RELEASE.im4p'')])]"

definition build_identity_logo :: plist where
  "build_identity_logo =
     PDict [(''Manifest'', PDict
       [(''LLB'', firmware_entry ''Firmware/all_flash/LLB.n90ap.RELEASE.img3''),
        (''iBoot'', firmware_entry ''Firmware/all_flash/iBoot.n90ap.RELEASE.img3''),
        (''AppleLogo'', firmware_entry ''Firmware/all_flash/applelogo.s5l8930x.img3'')])]"

text \<open>An archive that carries the firmware manifest file next to LLB, listing LLB and
  iBoot on two lines.\<close>

definition manifest_llb_iboot :: bytes where
  "manifest_llb_iboot =
     ''LLB.n90ap.RELEASE.img3'' @ [CHR 0x0A] @ ''iBoot.n90ap.RELEASE.img3'' @ [CHR 0x0A]"

definition ipsw_with_manifest :: ipsw_archive where
  "ipsw_with_manifest =
     \<lparr> ipsw_entries = [],
       ipsw_extract_to_memory =
         (\<lambda>name. if name = ''Firmware/all_flash/manifest'' then Some manifest_llb_iboot
                 else None),
       ipsw_file_exists = (\<lambda>name. name = ''Firmware/all_flash/manifest''),
       ipsw_extract_to_file = (\<lambda>name. None) \<rparr>"

text \<open>A build identity with LLB, iBoot and RestoreSEP, each with a path and
  \<open>IsFirmwarePayload = true\<close>.\<close>

definition build_identity_sep :: plist where
  "build_identity_sep =
     PDict [(''Manifest'', PDict
       [(''LLB'', firmware_entry ''Firmware/all_flash/LLB.d10.RELEASE.im4p''),
        (''iBoot'', firmware_entry ''Firmware/all_flash/iBoot.d10.RELEASE.im4p''),
        (''RestoreSEP'', firmware_entry ''Firmware/all_flash/sep-firmware.d10.RELEASE.im4p'')])]"

text \<open>Archive and container functions for the examples: an entry can be read as long as
  no change is staged on it, parsing keeps the bytes, installing a blob or a ticket
  appends it, and staging and writing succeed.\<close>

definition bbfw_plain :: bbfw_api where
  "bbfw_plain =
     \<lparr> zip_read =
         (\<lambda>z i. if i < length z \<and> ze_change (z ! i) = ZIP_UNCHANGED
                then Some (ze_data (z ! i)) else None),
       zip_replace_ok = (\<lambda>z i. True),
       zip_add_ok = (\<lambda>z name. True),
       zip_close_ok = (\<lambda>z. True),
       mbn_parse = Some,
       mbn_update_sig_blob = (\<lambda>mbn blob. Some (mbn @ blob)),
       fls_parse = Some,
       fls_update_sig_blob = (\<lambda>fls blob. Some (fls @ blob)),
       fls_insert_ticket = (\<lambda>fls ticket. Some (fls @ ticket)) \<rparr>"

text \<open>Scenario S4: the archive with \<open>dbl.mbn\<close>, \<open>ENPRG.mbn\<close> and \<open>README.txt\<close>, and the
  ticket response with \<open>DBL-Blob\<close>, \<open>ENANDPRG-Blob\<close> and \<open>BBTicket\<close>.\<close>

definition bbfw_s4 :: zip_entries where
  "bbfw_s4 = [(''dbl.mbn'', ''dbl''), (''ENPRG.mbn'', ''enprg''), (''README.txt'', ''readme'')]"

definition bbtss_s4 :: plist where
  "bbtss_s4 =
     PDict [(''BBTicket'', PData ''ticket''),
            (''BasebandFirmware'',
             PDict [(''DBL-Blob'', PData ''+sig1''), (''ENANDPRG-Blob'', PData ''+sig2'')])]"



text \<open>A session with baseband requests. The ticket server copies the nonce of the
  parameters into the request; it does not answer the request with the nonce
  \<open>nonce-0\<close>, answers a request without a nonce with a ticket of its own, and every
  other request with the ticket response of scenario S4.\<close>

definition bbtss_without_nonce :: plist where
  "bbtss_without_nonce =
     PDict [(''BBTicket'', PData ''other''),
            (''BasebandFirmware'',
             PDict [(''DBL-Blob'', PData ''+sig3''), (''ENANDPRG-Blob'', PData ''+sig4'')])]"

definition tss_baseband :: tss_api where
  "tss_baseband =
     \<lparr> tss_response_get_ap_img4_ticket = tss_response_get_data_by_key ''ApImg4Ticket'',
       tss_response_get_ap_ticket = tss_response_get_data_by_key ''APTicket'',
       tss_response_get_path_by_entry = (\<lambda>response entry. None),
       tss_request_new = Some (PDict []),
       tss_parameters_add_from_manifest = (\<lambda>parameters build_identity. parameters),
       tss_request_add_common_tags = (\<lambda>request parameters. request),
       tss_request_add_baseband_tags =
         (\<lambda>request parameters.
            case plist_dict_get_item parameters ''BbNonce'' of
              None \<Rightarrow> request
            | Some nonce \<Rightarrow> plist_dict_set_item request ''BbNonce'' nonce),
       tss_request_send =
         (\<lambda>request url.
            case plist_dict_get_item request ''BbNonce'' of
              None \<Rightarrow> Some bbtss_without_nonce
            | Some nonce \<Rightarrow> if nonce = PData ''nonce-0'' then None else Some bbtss_s4) \<rparr>"

text \<open>The build identity names the baseband firmware, the firmware archive holds the
  baseband archive of scenario S4 under that name, and reading the temporary file gives
  the contents of its entries one after the other.\<close>

definition build_identity_baseband :: plist where
  "build_identity_baseband =
     PDict [(''Manifest'', PDict
       [(''BasebandFirmware'', PDict [(''Info'', PDict [(''Path'', PString ''Firmware/bbfw.zip'')])])])]"

definition ipsw_baseband :: ipsw_archive where
  "ipsw_baseband =
     \<lparr> ipsw_entries = [],
       ipsw_extract_to_memory = (\<lambda>name. None),
       ipsw_file_exists = (\<lambda>name. name = ''Firmware/bbfw.zip''),
       ipsw_extract_to_file =
         (\<lambda>name. if name = ''Firmware/bbfw.zip'' then Some (Some bbfw_s4) else None) \<rparr>"

definition components_reading :: component_api where
  "components_reading =
     components_tagging
       \<lparr> read_file := (\<lambda>file. case file of None \<Rightarrow> None
                                 | Some entries \<Rightarrow> Some (concat (map snd entries))) \<rparr>"

text \<open>A BasebandData request with a nonce, and one without arguments.\<close>

definition baseband_request :: "bytes \<Rightarrow> plist" where
  "baseband_request nonce = PDict [(''Arguments'', PDict [(''Nonce'', PData nonce)])]"



section \<open>Status messages: the return value\<close>

lemma clamp_nonpos: "sint (if 0 <s (r::32 word) then - r else r) \<le> 0"
proof (cases "0 <s r")
  case True
  then have p: "0 < sint r" by (simp add: word_sless_alt)
  have "sint r < 2 ^ 31" using sint_lt [of r] by simp
  with p have "sint (- r) = - sint r"
    by (simp add: sint_word_ariths signed_take_bit_int_eq_self)
  with p True show ?thesis by simp
next
  case False
  then show ?thesis by (simp add: word_sless_alt)
qed

lemma sint_ucast_neg_64_32:
  "sint (ucast (- (v::64 word)) :: 32 word) = signed_take_bit 31 (- uint v)"
proof -
  have "sint (ucast (- v) :: 32 word) = signed_take_bit 31 (uint (ucast (- v) :: 32 word))"
    by (simp add: sint_uint)
  also have "uint (ucast (- v) :: 32 word) = take_bit 32 (uint (- v))"
    by (simp add: unsigned_ucast_eq)
  also have "uint (- v) = take_bit 64 (- uint v)"
    by (simp add: uint_word_arith_bintrs)
  finally show ?thesis by (simp add: signed_take_bit_take_bit)
qed

lemma sint_ucast_neg_small:
  assumes "uint (v::64 word) \<le> 2 ^ 31"
  shows "sint (ucast (- v) :: 32 word) = - uint v"
proof -
  have "0 \<le> uint v" by simp
  then have b: "- uint v < 2 ^ 31" by (simp add: order.strict_trans1 [of _ 0])
  have a: "- (2 ^ 31) \<le> - uint v" using assms by simp
  have "signed_take_bit 31 (- uint v) = - uint v"
    by (rule signed_take_bit_int_eq_self [OF a b])
  then show ?thesis by (simp add: sint_ucast_neg_64_32)
qed

lemma status_result_no_error:
  "\<not> node_is (plist_dict_get_item msg ''AMRError'') PLIST_UINT \<Longrightarrow>
   fst (restore_handle_status_msg fin msg) = 0"
  by (simp add: restore_handle_status_msg_def Let_def)

lemma status_result_error:
  "plist_dict_get_item msg ''AMRError'' = Some (PUInt v) \<Longrightarrow>
   fst (restore_handle_status_msg fin msg) =
     (if 0 <s (ucast (- v) :: 32 word) then - ucast (- v) else ucast (- v))"
  by (simp add: restore_handle_status_msg_def Let_def node_is_def)

lemma status_result_nonpos: "sint (fst (restore_handle_status_msg fin msg)) \<le> 0"
proof (cases "node_is (plist_dict_get_item msg ''AMRError'') PLIST_UINT")
  case True
  then obtain v where "plist_dict_get_item msg ''AMRError'' = Some (PUInt v)"
    by (auto simp: node_is_def split: option.splits elim: plist_get_node_type.elims)
  then show ?thesis using clamp_nonpos [of "ucast (- v)"]
    by (simp only: status_result_error)
next
  case False
  then show ?thesis by (simp add: status_result_no_error)
qed

text \<open>
  C10. For every status message, \<^verbatim>\<open>restore_handle_status_msg\<close> returns no positive value.
  Without an integer \<open>AMRError\<close> entry it returns 0. With \<open>AMRError = v\<close> it returns the
  negation of \<open>v\<close> as converted to \<^verbatim>\<open>int\<close>, negated again when that came out positive; for
  every \<open>v\<close> up to \<open>2^31\<close> this is exactly \<open>- v\<close>.
\<close>

theorem restore_handle_status_msg_never_positive:
  "sint (fst (restore_handle_status_msg fin msg)) \<le> 0
   \<and> (\<not> node_is (plist_dict_get_item msg ''AMRError'') PLIST_UINT \<longrightarrow>
        fst (restore_handle_status_msg fin msg) = 0)
   \<and> (\<forall>v. plist_dict_get_item msg ''AMRError'' = Some (PUInt v) \<longrightarrow>
          fst (restore_handle_status_msg fin msg) =
            (if 0 <s (ucast (- v) :: 32 word) then - ucast (- v) else ucast (- v))
          \<and> (uint v \<le> 2 ^ 31 \<longrightarrow> sint (fst (restore_handle_status_msg fin msg)) = - uint v))"
proof (intro conjI allI impI)
  show "sint (fst (restore_handle_status_msg fin msg)) \<le> 0"
    by (rule status_result_nonpos)
next
  assume "\<not> node_is (plist_dict_get_item msg ''AMRError'') PLIST_UINT"
  then show "fst (restore_handle_status_msg fin msg) = 0"
    by (rule status_result_no_error)
next
  fix v assume "plist_dict_get_item msg ''AMRError'' = Some (PUInt v)"
  then show "fst (restore_handle_status_msg fin msg) =
      (if 0 <s (ucast (- v) :: 32 word) then - ucast (- v) else ucast (- v))"
    by (rule status_result_error)
next
  fix v assume e: "plist_dict_get_item msg ''AMRError'' = Some (PUInt v)"
    and small: "uint v \<le> 2 ^ 31"
  have s: "sint (ucast (- v) :: 32 word) = - uint v"
    by (rule sint_ucast_neg_small [OF small])
  have "0 \<le> uint v" by simp
  then have "\<not> 0 <s (ucast (- v) :: 32 word)"
    by (simp add: word_sless_alt s)
  then show "sint (fst (restore_handle_status_msg fin msg)) = - uint v"
    by (simp add: status_result_error [OF e] s)
qed

text \<open>The theorem at three messages: \<open>AMRError = 11\<close> gives \<open>-11\<close>; the 64-bit value
  \<open>2^64 - 5\<close>, whose negation converts to \<open>+5\<close>, gives \<open>-5\<close>; no \<open>AMRError\<close> gives 0.\<close>

theorem restore_handle_status_msg_never_positive_witness:
  "fst (restore_handle_status_msg False (PDict [(''Status'', PUInt 6), (''AMRError'', PUInt 11)])) = - 11
   \<and> fst (restore_handle_status_msg False (PDict [(''AMRError'', PUInt 0xFFFFFFFFFFFFFFFB)])) = - 5
   \<and> fst (restore_handle_status_msg False (PDict [(''Status'', PUInt 0)])) = 0
   \<and> sint (fst (restore_handle_status_msg False (PDict [(''AMRError'', PUInt 0xFFFFFFFFFFFFFFFB)]))) \<le> 0"
  using restore_handle_status_msg_never_positive
          [of False "PDict [(''Status'', PUInt 6), (''AMRError'', PUInt 11)]"]
        restore_handle_status_msg_never_positive
          [of False "PDict [(''AMRError'', PUInt 0xFFFFFFFFFFFFFFFB)]"]
        restore_handle_status_msg_never_positive
          [of False "PDict [(''Status'', PUInt 0)]"]
  by (simp add: node_is_def word_sless_alt)

section \<open>Progress messages: protocol 13, operation 47\<close>

lemma restore_progress_string_48:
  "restore_progress_string 48 = ''Preparing for baseband update''"
  by (simp add: restore_progress_string_def progress_strings_def)

text \<open>
  C7, as the code has it. Under protocol version 13 a progress message with operation 47
  and progress 50 is adapted to operation code 48, whose stage string is
  "Preparing for baseband update" (printed unless the previous message already carried
  operation 47); no progress callback is called, the only other effect is the debug
  line for an unhandled operation, and \<^verbatim>\<open>lastop\<close> becomes 47.
\<close>

theorem progress_13_op47_reported_as_48:
  "plist_dict_get_item msg ''Operation'' = Some (PUInt 47) \<Longrightarrow>
   plist_dict_get_item msg ''Progress'' = Some (PUInt 50) \<Longrightarrow>
   restore_handle_progress_msg (Some 13) lastop msg =
     (0, 47,
      (if lastop \<noteq> 47 then [Info_stage ''Preparing for baseband update'' 47] else [])
      @ [Debug_unhandled 48 47])"
  by (simp add: restore_handle_progress_msg_def node_is_def progress_switch_def
        restore_progress_string_48 word_sless_alt)

theorem progress_13_op47_reported_as_48_witness:
  "restore_handle_progress_msg (Some 13) 0
     (PDict [(''Operation'', PUInt 47), (''Progress'', PUInt 50)]) =
   (0, 47, [Info_stage ''Preparing for baseband update'' 47, Debug_unhandled 48 47])"
  using progress_13_op47_reported_as_48
          [of "PDict [(''Operation'', PUInt 47), (''Progress'', PUInt 50)]" 0]
  by simp

text \<open>The claim as written names the stage string of code 47; the message is reported
  with the string of code 48 instead, and the string of 47 appears nowhere in the events.\<close>

theorem progress_13_op47_gas_gauge_counterexample:
  "snd (snd (restore_handle_progress_msg (Some 13) 0
       (PDict [(''Operation'', PUInt 47), (''Progress'', PUInt 50)]))) =
     [Info_stage ''Preparing for baseband update'' 47, Debug_unhandled 48 47]
   \<and> Info_stage ''Updating gas gauge software'' 47 \<notin> set (snd (snd
       (restore_handle_progress_msg (Some 13) 0
         (PDict [(''Operation'', PUInt 47), (''Progress'', PUInt 50)]))))
   \<and> restore_progress_string 48 \<noteq> ''Updating gas gauge software''"
  by (simp add: restore_handle_progress_msg_def node_is_def progress_switch_def
        restore_progress_string_48 word_sless_alt)

section \<open>The BootabilityBundle stream: trailer and connection attempts\<close>

declare connect_loop.simps [simp del]
declare oct_digits.simps [simp del]

lemma replicate_numeral: "replicate (numeral k) x = x # replicate (pred_numeral k) x"
  by (simp add: numeral_eq_Suc)

lemma octal_values:
  "octal 6 0 = ''000000''" "octal 6 1 = ''000001''" "octal 6 4 = ''000004''"
  "octal 6 7 = ''000007''" "octal 6 11 = ''000013''" "octal 6 0x81A4 = ''100644''"
  "octal 11 0 = ''00000000000''" "octal 11 3 = ''00000000003''"
  by (simp_all add: octal_def oct_digits.simps replicate_numeral)

lemma trailer_header:
  "cpio_header ''TRAILER!!!'' trailer_stat None =
     \<lparr> c_magic = ''070707'', c_dev = ''000000'', c_ino = ''000000'', c_mode = ''000000'',
       c_uid = ''000000'', c_gid = ''000000'', c_nlink = ''000001'', c_rdev = ''000000'',
       c_mtime = ''00000000000'', c_namesize = ''000013'', c_filesize = ''00000000000'' \<rparr>"
  by (simp add: cpio_header_def trailer_stat_def octal_values replicate_numeral)

lemma cpio_send_file_no_data:
  "cpio_send_file c name st None = (r, c2, []) \<Longrightarrow>
   wire c2 = wire c @ header_bytes (cpio_header name st None) @ name @ [CHR 0x00]"
  by (auto simp: cpio_send_file_def idevice_connection_send_def split: if_splits)

lemma bundle_ok_cases:
  assumes "ret (restore_send_bootability_bundle_data device ipsw message) = 0"
    and "errors (restore_send_bootability_bundle_data device ipsw message) = []"
  shows "\<exists>c1 r2 c2. cpio_send_file c1 ''TRAILER!!!'' trailer_stat None = (r2, c2, [])
           \<and> stream (restore_send_bootability_bundle_data device ipsw message) = Some (wire c2)"
  using assms
  by (fastforce simp: restore_send_bootability_bundle_data_def Let_def
           split: prod.splits bool.splits option.splits if_splits)

text \<open>
  C8, as the code has it. Whenever the handler returns 0 and no send was reported as
  failed, the bytes received on the data connection end with the trailer record: a
  header in which every field taken from the file status is zero except \<open>c_nlink = 1\<close>
  (beside them the magic \<open>070707\<close> and \<open>c_namesize = 11\<close>, octal \<open>000013\<close>, the length of
  the name with its terminating zero byte, as in every record), followed by the name
  \<open>TRAILER!!!\<close> and a zero byte.
\<close>

theorem bootability_stream_ends_with_trailer:
  "ret (restore_send_bootability_bundle_data device ipsw message) = 0 \<Longrightarrow>
   errors (restore_send_bootability_bundle_data device ipsw message) = [] \<Longrightarrow>
   \<exists>sent. stream (restore_send_bootability_bundle_data device ipsw message) =
     Some (sent
       @ header_bytes
          \<lparr> c_magic = ''070707'', c_dev = ''000000'', c_ino = ''000000'', c_mode = ''000000'',
            c_uid = ''000000'', c_gid = ''000000'', c_nlink = ''000001'', c_rdev = ''000000'',
            c_mtime = ''00000000000'', c_namesize = ''000013'', c_filesize = ''00000000000'' \<rparr>
       @ ''TRAILER!!!'' @ [CHR 0x00])"
proof -
  assume a: "ret (restore_send_bootability_bundle_data device ipsw message) = 0"
    and b: "errors (restore_send_bootability_bundle_data device ipsw message) = []"
  from bundle_ok_cases [OF a b] obtain c1 r2 c2 where
    t: "cpio_send_file c1 ''TRAILER!!!'' trailer_stat None = (r2, c2, [])"
    and s: "stream (restore_send_bootability_bundle_data device ipsw message) = Some (wire c2)"
    by blast
  from cpio_send_file_no_data [OF t] s show ?thesis
    by (simp only: trailer_header) blast
qed

text \<open>The bundle with one regular file: the handler returns 0 without an error, and the
  stream ends with the trailer.\<close>

lemma bundle_one_file_run:
  "restore_send_bootability_bundle_data device_ready ipsw_one_file (PDict [(''DataPort'', PUInt 1082)]) =
     \<lparr> ret = 0, connect_calls = 1, seconds_slept = 0,
       stream = Some
         (''0707070000000000071006440000000000000000010000000000000000000000400000000003''
          @ ''foo'' @ [CHR 0x00] @ ''abc''
          @ ''0707070000000000000000000000000000000000010000000000000000000001300000000000''
          @ ''TRAILER!!!'' @ [CHR 0x00]),
       errors = [] \<rparr>"
  by (simp add: restore_send_bootability_bundle_data_def device_ready_def ipsw_one_file_def
        connect_loop.simps restore_bootability_send_one_def starts_with_def S_ISREG_def
        S_ISLNK_def cpio_send_file_def idevice_connection_send_def header_bytes_def
        cpio_header_def trailer_stat_def octal_values replicate_numeral)

theorem bootability_stream_ends_with_trailer_witness:
  "ret (restore_send_bootability_bundle_data device_ready ipsw_one_file
          (PDict [(''DataPort'', PUInt 1082)])) = 0
   \<and> errors (restore_send_bootability_bundle_data device_ready ipsw_one_file
          (PDict [(''DataPort'', PUInt 1082)])) = []
   \<and> (\<exists>sent. stream (restore_send_bootability_bundle_data device_ready ipsw_one_file
          (PDict [(''DataPort'', PUInt 1082)])) =
     Some (sent
       @ header_bytes
          \<lparr> c_magic = ''070707'', c_dev = ''000000'', c_ino = ''000000'', c_mode = ''000000'',
            c_uid = ''000000'', c_gid = ''000000'', c_nlink = ''000001'', c_rdev = ''000000'',
            c_mtime = ''00000000000'', c_namesize = ''000013'', c_filesize = ''00000000000'' \<rparr>
       @ ''TRAILER!!!'' @ [CHR 0x00]))"
proof -
  have r: "ret (restore_send_bootability_bundle_data device_ready ipsw_one_file
          (PDict [(''DataPort'', PUInt 1082)])) = 0"
    by (simp add: bundle_one_file_run)
  have e: "errors (restore_send_bootability_bundle_data device_ready ipsw_one_file
          (PDict [(''DataPort'', PUInt 1082)])) = []"
    by (simp add: bundle_one_file_run)
  from r e bootability_stream_ends_with_trailer [OF r e] show ?thesis by blast
qed

text \<open>The claim as written has every stream end with the trailer. On a data connection
  that breaks after 123 bytes, the same bundle goes out as the record of the file (83
  bytes) and the first 40 bytes of the trailer's header: \<^verbatim>\<open>cpio_send_file\<close> reports the
  failed send, the handler ignores the result of that call and returns 0, and the last
  87 bytes that the device received are not the trailer record.\<close>

theorem bootability_trailer_cut_off_counterexample:
  "ret (restore_send_bootability_bundle_data device_short ipsw_one_file
          (PDict [(''DataPort'', PUInt 1082)])) = 0
   \<and> stream (restore_send_bootability_bundle_data device_short ipsw_one_file
          (PDict [(''DataPort'', PUInt 1082)])) =
      Some (''0707070000000000071006440000000000000000010000000000000000000000400000000003''
          @ ''foo'' @ [CHR 0x00] @ ''abc''
          @ ''0707070000000000000000000000000000000000'')
   \<and> errors (restore_send_bootability_bundle_data device_short ipsw_one_file
          (PDict [(''DataPort'', PUInt 1082)])) =
      [''ERROR: BootabilityBundle unable to send header. (%d) Sent %u of %lu bytes.'']
   \<and> length (the (stream (restore_send_bootability_bundle_data device_short ipsw_one_file
          (PDict [(''DataPort'', PUInt 1082)])))) = 123
   \<and> drop (123 - 87) (the (stream (restore_send_bootability_bundle_data device_short
          ipsw_one_file (PDict [(''DataPort'', PUInt 1082)])))) \<noteq>
      header_bytes (cpio_header ''TRAILER!!!'' trailer_stat None) @ ''TRAILER!!!'' @ [CHR 0x00]"
proof -
  have run: "restore_send_bootability_bundle_data device_short ipsw_one_file
          (PDict [(''DataPort'', PUInt 1082)]) =
     \<lparr> ret = 0, connect_calls = 1, seconds_slept = 0,
       stream = Some
         (''0707070000000000071006440000000000000000010000000000000000000000400000000003''
          @ ''foo'' @ [CHR 0x00] @ ''abc''
          @ ''0707070000000000000000000000000000000000''),
       errors =
         [''ERROR: BootabilityBundle unable to send header. (%d) Sent %u of %lu bytes.''] \<rparr>"
    by (simp add: restore_send_bootability_bundle_data_def device_short_def ipsw_one_file_def
        connect_loop.simps restore_bootability_send_one_def starts_with_def S_ISREG_def
        S_ISLNK_def cpio_send_file_def idevice_connection_send_def header_bytes_def
        cpio_header_def trailer_stat_def octal_values replicate_numeral)
  show ?thesis
    by (simp add: run trailer_header header_bytes_def)
qed

lemma connect_loop_calls:
  "connect_loop connect attempts calls slept success = (c, n, sl, ok) \<Longrightarrow>
   n \<le> calls + nat (attempts - 1)"
proof (induction connect attempts calls slept success rule: connect_loop.induct)
  case (1 connect attempts calls slept success)
  note unfold = connect_loop.simps [of connect attempts calls slept success]
  show ?case
  proof (cases "attempts - 1 > 0")
    case False
    with "1.prems" show ?thesis by (simp add: unfold)
  next
    case True
    show ?thesis
    proof (cases "connect calls")
      case None
      with True "1.prems" have
        "connect_loop connect (attempts - 1) (calls + 1) (slept + 1) False = (c, n, sl, ok)"
        by (simp add: unfold)
      from "1.IH" [OF True None this] True show ?thesis by simp
    next
      case (Some x)
      with True "1.prems" show ?thesis by (auto simp: unfold)
    qed
  qed
qed

lemma bundle_calls_le_9:
  "connect_calls (restore_send_bootability_bundle_data device ipsw message) \<le> 9"
proof -
  obtain c n sl ok where
    l: "connect_loop (idevice_connect device
          (ucast (plist_get_uint_val (plist_dict_get_item message ''DataPort'') 0)))
          10 0 0 True = (c, n, sl, ok)"
    by (metis prod_cases4)
  from connect_loop_calls [OF l] have "n \<le> 9" by simp
  with l show ?thesis
    by (auto simp: restore_send_bootability_bundle_data_def Let_def
           split: prod.splits bool.splits option.splits if_splits)
qed

text \<open>
  C9. The loop \<^verbatim>\<open>while (--attempts > 0)\<close> starts from \<^verbatim>\<open>attempts = 10\<close> and so calls
  \<^verbatim>\<open>idevice_connect\<close> at most nine times, on every device and request. On the device that
  would accept the tenth connection, the handler gives up after nine calls and nine
  seconds of sleep and reports the connection error.
\<close>

theorem bootability_connect_nine_attempts:
  "connect_calls (restore_send_bootability_bundle_data device ipsw message) \<le> 9
   \<and> restore_send_bootability_bundle_data device_tenth ipsw_empty (PDict [(''DataPort'', PUInt 1082)]) =
       \<lparr> ret = - 1, connect_calls = 9, seconds_slept = 9, stream = None,
         errors = [''ERROR: Unable to connect to BootabilityBundle data port''] \<rparr>"
proof
  show "connect_calls (restore_send_bootability_bundle_data device ipsw message) \<le> 9"
    by (rule bundle_calls_le_9)
next
  show "restore_send_bootability_bundle_data device_tenth ipsw_empty
          (PDict [(''DataPort'', PUInt 1082)]) =
       \<lparr> ret = - 1, connect_calls = 9, seconds_slept = 9, stream = None,
         errors = [''ERROR: Unable to connect to BootabilityBundle data port''] \<rparr>"
    by (simp add: restore_send_bootability_bundle_data_def device_tenth_def ipsw_empty_def
          connect_loop.simps)
qed
section \<open>Root ticket: which slot is sent\<close>

lemma root_ticket_image4:
  assumes "root_ticket client = None" and "tss client = Some response"
    and "image4supported client"
    and "tss_response_get_ap_img4_ticket api (Some response) = Some d" and "d \<noteq> []"
  shows "restore_send_root_ticket api restore client =
           send_root_ticket_dict restore (PDict [(''RootTicketData'', PData d)])"
  using assms by (simp add: restore_send_root_ticket_def)

lemma root_ticket_legacy:
  assumes "root_ticket client = None" and "tss client = Some response"
    and "\<not> image4supported client" and "\<not> flag_custom client"
    and "tss_response_get_ap_ticket api (Some response) = Some d" and "d \<noteq> []"
  shows "restore_send_root_ticket api restore client =
           send_root_ticket_dict restore (PDict [(''RootTicketData'', PData d)])"
  using assms by (simp add: restore_send_root_ticket_def)

lemma root_ticket_ignores_legacy_slot:
  "image4supported client \<Longrightarrow>
   restore_send_root_ticket (api\<lparr>tss_response_get_ap_ticket := g\<rparr>) restore client =
   restore_send_root_ticket api restore client"
  by (auto simp: restore_send_root_ticket_def Let_def split: option.splits sum.splits)

lemma root_ticket_ignores_image4_slot:
  "\<not> image4supported client \<Longrightarrow>
   restore_send_root_ticket (api\<lparr>tss_response_get_ap_img4_ticket := g\<rparr>) restore client =
   restore_send_root_ticket api restore client"
  by (auto simp: restore_send_root_ticket_def Let_def split: option.splits sum.splits)

text \<open>
  C6, as the code has it. For a request without a user-supplied root ticket, with a
  ticket response present and a channel that delivers the reply: on an image4 device
  the reply is \<open>{RootTicketData: d}\<close> for the non-empty data \<open>d\<close> of the image4 slot, and
  the legacy slot has no influence on what the function does; on a legacy device
  outside custom mode the reply is \<open>{RootTicketData: d}\<close> for the non-empty data \<open>d\<close> of
  the legacy AP ticket slot, and the image4 slot has no influence.
\<close>

theorem root_ticket_slot_by_image4:
  assumes "root_ticket client = None" and "tss client = Some response"
    and "restored_send restore (PDict [(''RootTicketData'', PData d)])" and "d \<noteq> []"
  shows "(image4supported client \<longrightarrow>
            (tss_response_get_ap_img4_ticket api (Some response) = Some d \<longrightarrow>
               restore_send_root_ticket api restore client =
                 (0, [PDict [(''RootTicketData'', PData d)]]))
            \<and> restore_send_root_ticket (api\<lparr>tss_response_get_ap_ticket := g\<rparr>) restore client =
                restore_send_root_ticket api restore client)
       \<and> (\<not> image4supported client \<longrightarrow>
            (\<not> flag_custom client \<longrightarrow>
             tss_response_get_ap_ticket api (Some response) = Some d \<longrightarrow>
               restore_send_root_ticket api restore client =
                 (0, [PDict [(''RootTicketData'', PData d)]]))
            \<and> restore_send_root_ticket (api\<lparr>tss_response_get_ap_img4_ticket := g\<rparr>) restore client =
                restore_send_root_ticket api restore client)"
proof (intro conjI impI)
  assume "image4supported client"
    and "tss_response_get_ap_img4_ticket api (Some response) = Some d"
  with assms show "restore_send_root_ticket api restore client =
      (0, [PDict [(''RootTicketData'', PData d)]])"
    by (simp add: root_ticket_image4 send_root_ticket_dict_def)
next
  assume "image4supported client"
  then show "restore_send_root_ticket (api\<lparr>tss_response_get_ap_ticket := g\<rparr>) restore client =
      restore_send_root_ticket api restore client"
    by (rule root_ticket_ignores_legacy_slot)
next
  assume "\<not> image4supported client" and "\<not> flag_custom client"
    and "tss_response_get_ap_ticket api (Some response) = Some d"
  with assms show "restore_send_root_ticket api restore client =
      (0, [PDict [(''RootTicketData'', PData d)]])"
    by (simp add: root_ticket_legacy send_root_ticket_dict_def)
next
  assume "\<not> image4supported client"
  then show "restore_send_root_ticket (api\<lparr>tss_response_get_ap_img4_ticket := g\<rparr>) restore client =
      restore_send_root_ticket api restore client"
    by (rule root_ticket_ignores_image4_slot)
qed

text \<open>The two scenarios: an image4 device whose ticket response has 32 bytes \<open>0xA5\<close>
  under \<open>ApImg4Ticket\<close>, and a legacy device whose response has 16 bytes \<open>0x01\<close> under
  \<open>APTicket\<close>.\<close>

theorem root_ticket_slot_by_image4_witness:
  "restore_send_root_ticket tss_lookup device_ready
     (client_with (PDict [(''ApImg4Ticket'', PData (replicate 32 (CHR 0xA5)))]) False True) =
     (0, [PDict [(''RootTicketData'', PData (replicate 32 (CHR 0xA5)))]])
   \<and> restore_send_root_ticket tss_lookup device_ready
     (client_with (PDict [(''APTicket'', PData (replicate 16 (CHR 0x01)))]) False False) =
     (0, [PDict [(''RootTicketData'', PData (replicate 16 (CHR 0x01)))]])"
  using root_ticket_slot_by_image4
          [of "client_with (PDict [(''ApImg4Ticket'', PData (replicate 32 (CHR 0xA5)))]) False True"
              "PDict [(''ApImg4Ticket'', PData (replicate 32 (CHR 0xA5)))]"
              device_ready "replicate 32 (CHR 0xA5)" tss_lookup]
        root_ticket_slot_by_image4
          [of "client_with (PDict [(''APTicket'', PData (replicate 16 (CHR 0x01)))]) False False"
              "PDict [(''APTicket'', PData (replicate 16 (CHR 0x01)))]"
              device_ready "replicate 16 (CHR 0x01)" tss_lookup]
  by (simp add: tss_lookup_def device_ready_def client_with_def tss_response_get_data_by_key_def)

text \<open>The claim as written does not ask for the custom flag to be clear. On a legacy
  device in custom mode whose ticket response has the 16 bytes under \<open>APTicket\<close>, the
  reply is the empty dictionary.\<close>

theorem root_ticket_legacy_custom_counterexample:
  "restore_send_root_ticket tss_lookup device_ready
     (client_with (PDict [(''APTicket'', PData (replicate 16 (CHR 0x01)))]) True False) =
     (0, [PDict []])"
  by (simp add: restore_send_root_ticket_def send_root_ticket_dict_def tss_lookup_def
        device_ready_def client_with_def)
section \<open>NOR data: what the image list holds\<close>

lemma set_alist_update: "set (AList.update k v al) \<subseteq> insert (k, v) (set al)"
  by (induction al) auto

lemma get_item_set_item_other:
  "key' \<noteq> key \<Longrightarrow>
   plist_dict_get_item (plist_dict_set_item d key v) key' = plist_dict_get_item d key'"
  by (cases d) (simp_all add: update_conv')

lemma get_item_set_item_same:
  "plist_dict_get_item (plist_dict_set_item (PDict items) key v) key = Some v"
  by (simp add: update_conv')

lemma set_item_is_dict:
  "\<exists>items'. plist_dict_set_item (PDict items) key v = PDict items'"
  by simp

lemma add_optional_image_other:
  "add_optional_image api t bi component key d = Some d' \<Longrightarrow> key' \<noteq> key \<Longrightarrow>
   plist_dict_get_item d' key' = plist_dict_get_item d key'"
  by (auto simp: add_optional_image_def get_item_set_item_other split: if_splits option.splits)

text \<open>The array the loop builds: the images of the included entries whose name starts
  with \<open>iBoot\<close>, last one first, then what the array held, then the images of the other
  included entries in order.\<close>

lemma nor_images_array:
  "nor_images api t False fw (PArray acc) = Some r \<Longrightarrow>
   r = PArray
        (map (the \<circ> image_of api t)
           (rev (filter (\<lambda>e. starts_with ''iBoot'' (fst e)) (filter nor_included fw)))
         @ acc
         @ map (the \<circ> image_of api t)
             (filter (\<lambda>e. \<not> starts_with ''iBoot'' (fst e)) (filter nor_included fw)))"
proof (induction fw arbitrary: acc)
  case Nil
  then show ?case by simp
next
  case (Cons entry rest)
  obtain component pcomp where entry: "entry = (component, pcomp)" by (cases entry)
  show ?case
  proof (cases "nor_included entry")
    case False
    with Cons.prems entry have "nor_images api t False rest (PArray acc) = Some r"
      by (auto simp: nor_included_def split: option.splits if_splits)
    from Cons.IH [OF this] False show ?thesis by simp
  next
    case True
    with Cons.prems entry obtain comppath component_data nor_data where
      path: "plist_get_string_val (Some pcomp) = Some comppath"
      and ex: "extract_component api comppath = Some component_data"
      and pe: "personalize_component api component component_data t = Some nor_data"
      and run: "nor_images api t False rest
                  (if starts_with ''iBoot'' component
                   then plist_array_insert_item (PArray acc) (PData nor_data) 0
                   else plist_array_append_item (PArray acc) (PData nor_data)) = Some r"
      by (auto simp: nor_included_def split: option.splits if_splits)
    from path ex pe entry have img: "image_of api t entry = Some (PData nor_data)"
      by (simp add: image_of_def)
    show ?thesis
    proof (cases "starts_with ''iBoot'' component")
      case iboot: True
      with run have "nor_images api t False rest (PArray (PData nor_data # acc)) = Some r"
        by simp
      from Cons.IH [OF this] True iboot entry img show ?thesis by simp
    next
      case other: False
      with run have "nor_images api t False rest (PArray (acc @ [PData nor_data])) = Some r"
        by simp
      from Cons.IH [OF this] True other entry img show ?thesis by simp
    qed
  qed
qed

text \<open>When the loop succeeds, every included entry has an image.\<close>

lemma nor_images_all_images:
  "nor_images api t fv1 fw norimage = Some r \<Longrightarrow> e \<in> set fw \<Longrightarrow> nor_included e \<Longrightarrow>
   image_of api t e \<noteq> None"
proof (induction fw arbitrary: norimage)
  case Nil
  then show ?case by simp
next
  case (Cons entry rest)
  obtain component pcomp where entry: "entry = (component, pcomp)" by (cases entry)
  show ?case
  proof (cases "e = entry")
    case True
    with Cons.prems entry show ?thesis
      by (auto simp: nor_included_def image_of_def split: option.splits if_splits)
  next
    case False
    with Cons.prems have mem: "e \<in> set rest" by simp
    from Cons.prems(1) entry obtain norimage' where
      "nor_images api t fv1 rest norimage' = Some r"
      by (auto split: option.splits if_splits)
    from Cons.IH [OF this mem Cons.prems(3)] show ?thesis .
  qed
qed

text \<open>The dictionary the loop builds with \<^verbatim>\<open>flash_version_1\<close>: every item was there
  before or is an included entry's name with its image.\<close>

lemma nor_images_dict:
  "nor_images api t True fw (PDict acc) = Some r \<Longrightarrow>
   \<exists>items. r = PDict items \<and>
     (\<forall>kv \<in> set items. kv \<in> set acc \<or>
        (\<exists>e \<in> set fw. nor_included e \<and> fst e = fst kv \<and> image_of api t e = Some (snd kv)))"
proof (induction fw arbitrary: acc)
  case Nil
  then show ?case by auto
next
  case (Cons entry rest)
  obtain component pcomp where entry: "entry = (component, pcomp)" by (cases entry)
  show ?case
  proof (cases "nor_included entry")
    case False
    with Cons.prems entry have "nor_images api t True rest (PDict acc) = Some r"
      by (auto simp: nor_included_def split: option.splits if_splits)
    from Cons.IH [OF this] show ?thesis by auto
  next
    case True
    with Cons.prems entry obtain comppath component_data nor_data where
      path: "plist_get_string_val (Some pcomp) = Some comppath"
      and ex: "extract_component api comppath = Some component_data"
      and pe: "personalize_component api component component_data t = Some nor_data"
      and run: "nor_images api t True rest
                  (PDict (AList.update component (PData nor_data) acc)) = Some r"
      by (auto simp: nor_included_def split: option.splits if_splits)
    from path ex pe entry have img: "image_of api t entry = Some (PData nor_data)"
      by (simp add: image_of_def)
    from Cons.IH [OF run] obtain items where r: "r = PDict items"
      and items: "\<forall>kv \<in> set items. kv \<in> set (AList.update component (PData nor_data) acc) \<or>
        (\<exists>e \<in> set rest. nor_included e \<and> fst e = fst kv \<and> image_of api t e = Some (snd kv))"
      by blast
    have "\<forall>kv \<in> set items. kv \<in> set acc \<or>
        (\<exists>e \<in> set (entry # rest). nor_included e \<and> fst e = fst kv
            \<and> image_of api t e = Some (snd kv))"
    proof
      fix kv assume "kv \<in> set items"
      with items consider
          (new) "kv \<in> set (AList.update component (PData nor_data) acc)"
        | (old) "\<exists>e \<in> set rest. nor_included e \<and> fst e = fst kv
                   \<and> image_of api t e = Some (snd kv)"
        by blast
      then show "kv \<in> set acc \<or>
        (\<exists>e \<in> set (entry # rest). nor_included e \<and> fst e = fst kv
            \<and> image_of api t e = Some (snd kv))"
      proof cases
        case new
        with set_alist_update [of component "PData nor_data" acc]
        have "kv = (component, PData nor_data) \<or> kv \<in> set acc" by auto
        with True img entry show ?thesis by auto
      next
        case old
        then show ?thesis by auto
      qed
    qed
    with r show ?thesis by blast
  qed
qed

text \<open>What a run that reaches \<^verbatim>\<open>restored_send\<close> went through.\<close>

lemma restore_send_nor_sent:
  assumes "restore_send_nor tssapi api ipsw restore client build_identity message =
             Some (r, [dict])"
  obtains llb_path llb_filename component_data llb_data norimage dict1 where
    "nor_llb_path tssapi api (tss client) build_identity = Some llb_path"
    "strstr llb_path ''LLB'' = Some llb_filename"
    "extract_component api llb_path = Some component_data"
    "personalize_component api ''LLB'' component_data (tss client) = Some llb_data"
    "nor_images api (tss client) (nor_flash_version_1 message)
       (plist_dict_items
          (nor_firmware_files api ipsw build_identity (take (llb_filename - 1) llb_path)))
       (if nor_flash_version_1 message then PDict [] else PArray []) = Some norimage"
    "add_optional_image api (tss client) build_identity ''RestoreSEP'' ''RestoreSEPImageData''
       (PDict [(''LlbImageData'', PData llb_data), (''NorImageData'', norimage)]) = Some dict1"
    "add_optional_image api (tss client) build_identity ''SEP'' ''SEPImageData'' dict1 =
       Some dict"
  using assms
  by (auto simp: restore_send_nor_def Let_def split: option.splits if_splits)

lemma restore_send_nor_request_files:
  assumes "nor_llb_path tssapi api (tss client) build_identity = Some llb_path"
    and "strstr llb_path ''LLB'' = Some llb_filename"
  shows "nor_request_firmware_files tssapi api ipsw client build_identity =
           plist_dict_items
             (nor_firmware_files api ipsw build_identity (take (llb_filename - 1) llb_path))"
  using assms by (simp add: nor_request_firmware_files_def)

lemma add_optional_image_value:
  "add_optional_image api t bi component key (PDict items) = Some d' \<Longrightarrow>
   map_of items key = None \<Longrightarrow>
   plist_dict_get_item d' key = Some v \<Longrightarrow>
   \<exists>path component_data personalized_data.
     build_identity_get_component_path api bi component = Some path
     \<and> extract_component api path = Some component_data
     \<and> personalize_component api component component_data t = Some personalized_data
     \<and> v = PData personalized_data"
  by (auto simp: add_optional_image_def update_conv' split: if_splits option.splits)

lemma add_optional_image_dict:
  "add_optional_image api t bi component key (PDict items) = Some d' \<Longrightarrow>
   \<exists>items'. d' = PDict items'"
  by (auto simp: add_optional_image_def split: if_splits option.splits)

lemma add_optional_image_sets:
  "add_optional_image api t bi component key (PDict items) = Some d' \<Longrightarrow>
   build_identity_has_component api bi component \<Longrightarrow>
   build_identity_get_component_path api bi component = Some path \<Longrightarrow>
   \<exists>component_data personalized_data.
     extract_component api path = Some component_data
     \<and> personalize_component api component component_data t = Some personalized_data
     \<and> plist_dict_get_item d' key = Some (PData personalized_data)"
  by (auto simp: add_optional_image_def update_conv' split: if_splits option.splits)

text \<open>The keys that the loop over the build identity's manifest produces.\<close>

lemma firmware_files_from_build_identity_keys:
  "\<exists>items. firmware_files_from_build_identity entries (PDict acc) = PDict items
     \<and> fst ` set acc \<subseteq> fst ` set items
     \<and> (\<forall>ce \<in> set entries.
           plist_get_node_type (snd ce) = PLIST_DICT \<and> is_nor_firmware (snd ce)
           \<and> plist_access_path (snd ce) [''Info'', ''Path''] \<noteq> None \<longrightarrow>
           fst ce \<in> fst ` set items)"
proof (induction entries arbitrary: acc)
  case Nil
  then show ?case by simp
next
  case (Cons entry rest)
  obtain component manifest_entry where entry: "entry = (component, manifest_entry)"
    by (cases entry)
  show ?case
  proof (cases "plist_get_node_type manifest_entry = PLIST_DICT \<and> is_nor_firmware manifest_entry
                \<and> plist_access_path manifest_entry [''Info'', ''Path''] \<noteq> None")
    case True
    then obtain comp_path where
      p: "plist_access_path manifest_entry [''Info'', ''Path''] = Some comp_path" by auto
    from Cons.IH [of "AList.update component comp_path acc"] obtain items where
      run: "firmware_files_from_build_identity rest
              (PDict (AList.update component comp_path acc)) = PDict items"
      and old: "fst ` set (AList.update component comp_path acc) \<subseteq> fst ` set items"
      and rest: "\<forall>ce \<in> set rest.
           plist_get_node_type (snd ce) = PLIST_DICT \<and> is_nor_firmware (snd ce)
           \<and> plist_access_path (snd ce) [''Info'', ''Path''] \<noteq> None \<longrightarrow>
           fst ce \<in> fst ` set items"
      by blast
    from old have "component \<in> fst ` set items" and "fst ` set acc \<subseteq> fst ` set items"
      by (auto simp: dom_update)
    with True p entry run rest show ?thesis by auto
  next
    case False
    from Cons.IH [of acc] obtain items where
      run: "firmware_files_from_build_identity rest (PDict acc) = PDict items"
      and old: "fst ` set acc \<subseteq> fst ` set items"
      and rest: "\<forall>ce \<in> set rest.
           plist_get_node_type (snd ce) = PLIST_DICT \<and> is_nor_firmware (snd ce)
           \<and> plist_access_path (snd ce) [''Info'', ''Path''] \<noteq> None \<longrightarrow>
           fst ce \<in> fst ` set items"
      by blast
    from False entry run have
      "firmware_files_from_build_identity (entry # rest) (PDict acc) = PDict items"
      by (auto split: option.splits)
    with False entry old rest show ?thesis by auto
  qed
qed

lemma flagged_entry_is_nor_firmware:
  assumes "map_of e ''Info'' = Some (PDict info)"
    and "map_of info ''IsFirmwarePayload'' = Some (PBool True)
         \<or> (map_of info ''IsSecondaryFirmwarePayload'' = Some (PBool True)
            \<and> map_of info ''IsLoadedByiBoot'' = Some (PBool True))"
  shows "is_nor_firmware (PDict e)"
  using assms by (auto simp: is_nor_firmware_def)

lemma nor_firmware_files_from_build_identity:
  assumes "\<not> ipsw_file_exists ipsw (take (PATH_MAX - 1) (firmware_path @ ''/manifest''))"
    and "plist_dict_get_item build_identity ''Manifest'' = Some (PDict entries)"
    and "(component, PDict e) \<in> set entries"
    and "map_of e ''Info'' = Some (PDict info)"
    and "map_of info ''IsFirmwarePayload'' = Some (PBool True)
         \<or> (map_of info ''IsSecondaryFirmwarePayload'' = Some (PBool True)
            \<and> map_of info ''IsLoadedByiBoot'' = Some (PBool True))"
    and "map_of info ''Path'' = Some comp_path"
  shows "component \<in> fst ` set (plist_dict_items
           (nor_firmware_files api ipsw build_identity firmware_path))"
proof -
  from firmware_files_from_build_identity_keys [of entries "[]"] obtain items where
    items: "firmware_files_from_build_identity entries (PDict []) = PDict items"
    and keys: "\<forall>ce \<in> set entries.
           plist_get_node_type (snd ce) = PLIST_DICT \<and> is_nor_firmware (snd ce)
           \<and> plist_access_path (snd ce) [''Info'', ''Path''] \<noteq> None \<longrightarrow>
           fst ce \<in> fst ` set items"
    by blast
  from assms(4,6) have p: "plist_access_path (PDict e) [''Info'', ''Path''] \<noteq> None" by simp
  have f: "is_nor_firmware (PDict e)" by (rule flagged_entry_is_nor_firmware [OF assms(4,5)])
  from keys assms(3) have
    "plist_get_node_type (snd (component, PDict e)) = PLIST_DICT
     \<and> is_nor_firmware (snd (component, PDict e))
     \<and> plist_access_path (snd (component, PDict e)) [''Info'', ''Path''] \<noteq> None \<longrightarrow>
     fst (component, PDict e) \<in> fst ` set items"
    by (rule bspec)
  with p f have "component \<in> fst ` set items" by simp
  moreover from assms(1,2) items
  have "nor_firmware_files api ipsw build_identity firmware_path = PDict items"
    by (simp add: nor_firmware_files_def)
  ultimately show ?thesis by simp
qed

lemma nor_sent_image_list:
  assumes sent: "restore_send_nor tssapi api ipsw restore client build_identity message =
             Some (r, [dict])"
  shows "\<exists>norimage. plist_dict_get_item dict ''NorImageData'' = Some norimage
     \<and> nor_images api (tss client) (nor_flash_version_1 message)
          (nor_request_firmware_files tssapi api ipsw client build_identity)
          (if nor_flash_version_1 message then PDict [] else PArray []) = Some norimage"
proof -
  from sent obtain llb_path llb_filename and llb_data :: bytes and norimage dict1 where
    llb: "nor_llb_path tssapi api (tss client) build_identity = Some llb_path"
    and str: "strstr llb_path ''LLB'' = Some llb_filename"
    and run: "nor_images api (tss client) (nor_flash_version_1 message)
       (plist_dict_items
          (nor_firmware_files api ipsw build_identity (take (llb_filename - 1) llb_path)))
       (if nor_flash_version_1 message then PDict [] else PArray []) = Some norimage"
    and o1: "add_optional_image api (tss client) build_identity ''RestoreSEP''
       ''RestoreSEPImageData''
       (PDict [(''LlbImageData'', PData llb_data), (''NorImageData'', norimage)]) = Some dict1"
    and o2: "add_optional_image api (tss client) build_identity ''SEP'' ''SEPImageData'' dict1 =
       Some dict"
    by (rule restore_send_nor_sent)
  have "plist_dict_get_item dict ''NorImageData'' = plist_dict_get_item dict1 ''NorImageData''"
    by (rule add_optional_image_other [OF o2]) simp
  also have "\<dots> = plist_dict_get_item
      (PDict [(''LlbImageData'', PData llb_data), (''NorImageData'', norimage)]) ''NorImageData''"
    by (rule add_optional_image_other [OF o1]) simp
  finally have "plist_dict_get_item dict ''NorImageData'' = Some norimage" by simp
  with run restore_send_nor_request_files [OF llb str, of ipsw] show ?thesis by simp
qed

lemma nor_sent_llb:
  assumes sent: "restore_send_nor tssapi api ipsw restore client build_identity message =
             Some (r, [dict])"
  shows "\<exists>llb_path component_data llb_data.
           nor_llb_path tssapi api (tss client) build_identity = Some llb_path
           \<and> extract_component api llb_path = Some component_data
           \<and> personalize_component api ''LLB'' component_data (tss client) = Some llb_data
           \<and> plist_dict_get_item dict ''LlbImageData'' = Some (PData llb_data)"
proof -
  from sent obtain llb_path component_data llb_data norimage dict1 where
    llb: "nor_llb_path tssapi api (tss client) build_identity = Some llb_path"
    and ex: "extract_component api llb_path = Some component_data"
    and pe: "personalize_component api ''LLB'' component_data (tss client) = Some llb_data"
    and o1: "add_optional_image api (tss client) build_identity ''RestoreSEP''
       ''RestoreSEPImageData''
       (PDict [(''LlbImageData'', PData llb_data), (''NorImageData'', norimage)]) = Some dict1"
    and o2: "add_optional_image api (tss client) build_identity ''SEP'' ''SEPImageData'' dict1 =
       Some dict"
    by (rule restore_send_nor_sent)
  have "plist_dict_get_item dict ''LlbImageData'' = plist_dict_get_item dict1 ''LlbImageData''"
    by (rule add_optional_image_other [OF o2]) simp
  also have "\<dots> = plist_dict_get_item
      (PDict [(''LlbImageData'', PData llb_data), (''NorImageData'', norimage)]) ''LlbImageData''"
    by (rule add_optional_image_other [OF o1]) simp
  finally have "plist_dict_get_item dict ''LlbImageData'' = Some (PData llb_data)" by simp
  with llb ex pe show ?thesis by blast
qed

lemma nor_sent_restore_sep:
  assumes sent: "restore_send_nor tssapi api ipsw restore client build_identity message =
             Some (r, [dict])"
    and item: "plist_dict_get_item dict ''RestoreSEPImageData'' = Some v"
  shows "\<exists>path component_data personalized_data.
           build_identity_get_component_path api build_identity ''RestoreSEP'' = Some path
           \<and> extract_component api path = Some component_data
           \<and> personalize_component api ''RestoreSEP'' component_data (tss client) =
               Some personalized_data
           \<and> v = PData personalized_data"
proof -
  from sent obtain llb_data :: bytes and norimage dict1 where
    o1: "add_optional_image api (tss client) build_identity ''RestoreSEP''
       ''RestoreSEPImageData''
       (PDict [(''LlbImageData'', PData llb_data), (''NorImageData'', norimage)]) = Some dict1"
    and o2: "add_optional_image api (tss client) build_identity ''SEP'' ''SEPImageData'' dict1 =
       Some dict"
    by (rule restore_send_nor_sent)
  have "plist_dict_get_item dict ''RestoreSEPImageData'' =
        plist_dict_get_item dict1 ''RestoreSEPImageData''"
    by (rule add_optional_image_other [OF o2]) simp
  with item have "plist_dict_get_item dict1 ''RestoreSEPImageData'' = Some v" by simp
  with add_optional_image_value [OF o1] show ?thesis by simp
qed

lemma nor_sent_restore_sep_present:
  assumes sent: "restore_send_nor tssapi api ipsw restore client build_identity message =
             Some (r, [dict])"
    and has: "build_identity_has_component api build_identity ''RestoreSEP''"
    and path: "build_identity_get_component_path api build_identity ''RestoreSEP'' = Some path"
  shows "\<exists>component_data personalized_data.
           extract_component api path = Some component_data
           \<and> personalize_component api ''RestoreSEP'' component_data (tss client) =
               Some personalized_data
           \<and> plist_dict_get_item dict ''RestoreSEPImageData'' = Some (PData personalized_data)"
proof -
  from sent obtain llb_data :: bytes and norimage dict1 where
    o1: "add_optional_image api (tss client) build_identity ''RestoreSEP''
       ''RestoreSEPImageData''
       (PDict [(''LlbImageData'', PData llb_data), (''NorImageData'', norimage)]) = Some dict1"
    and o2: "add_optional_image api (tss client) build_identity ''SEP'' ''SEPImageData'' dict1 =
       Some dict"
    by (rule restore_send_nor_sent)
  have "plist_dict_get_item dict ''RestoreSEPImageData'' =
        plist_dict_get_item dict1 ''RestoreSEPImageData''"
    by (rule add_optional_image_other [OF o2]) simp
  with add_optional_image_sets [OF o1 has path] show ?thesis by simp
qed

lemma nor_image_entries_not_llb:
  assumes run: "nor_images api t fv1 fw (if fv1 then PDict [] else PArray []) = Some norimage"
  shows "(\<forall>item \<in> set (plist_array_items norimage).
            \<exists>e \<in> set fw. fst e \<noteq> ''LLB'' \<and> fst e \<noteq> ''RestoreSEP''
               \<and> image_of api t e = Some item)
       \<and> (\<forall>kv \<in> set (plist_dict_items norimage).
            fst kv \<noteq> ''LLB'' \<and> fst kv \<noteq> ''RestoreSEP''
            \<and> (\<exists>e \<in> set fw. fst e = fst kv \<and> image_of api t e = Some (snd kv)))"
proof (cases fv1)
  case True
  with run have "nor_images api t True fw (PDict []) = Some norimage" by simp
  from nor_images_dict [OF this] obtain items where n: "norimage = PDict items"
    and items: "\<forall>kv \<in> set items.
        \<exists>e \<in> set fw. nor_included e \<and> fst e = fst kv \<and> image_of api t e = Some (snd kv)"
    by auto
  from items have "\<forall>kv \<in> set items.
            fst kv \<noteq> ''LLB'' \<and> fst kv \<noteq> ''RestoreSEP''
            \<and> (\<exists>e \<in> set fw. fst e = fst kv \<and> image_of api t e = Some (snd kv))"
    by (fastforce simp: nor_included_def)
  with n show ?thesis by simp
next
  case False
  with run have r: "nor_images api t False fw (PArray []) = Some norimage" by simp
  let ?img = "the \<circ> image_of api t"
  let ?front = "rev (filter (\<lambda>e. starts_with ''iBoot'' (fst e)) (filter nor_included fw))"
  let ?rest = "filter (\<lambda>e. \<not> starts_with ''iBoot'' (fst e)) (filter nor_included fw)"
  from nor_images_array [OF r] have n: "norimage = PArray (map ?img ?front @ map ?img ?rest)"
    by simp
  have "\<forall>item \<in> set (map ?img ?front @ map ?img ?rest).
            \<exists>e \<in> set fw. fst e \<noteq> ''LLB'' \<and> fst e \<noteq> ''RestoreSEP''
               \<and> image_of api t e = Some item"
  proof
    fix item assume "item \<in> set (map ?img ?front @ map ?img ?rest)"
    then obtain e where e: "e \<in> set fw" "nor_included e" and i: "item = ?img e" by auto
    from nor_images_all_images [OF r e] i have "image_of api t e = Some item" by auto
    with e show "\<exists>e \<in> set fw. fst e \<noteq> ''LLB'' \<and> fst e \<noteq> ''RestoreSEP''
               \<and> image_of api t e = Some item"
      by (auto simp: nor_included_def)
  qed
  with n show ?thesis by simp
qed

text \<open>
  C1, as the code has it. In every NORData reply that reaches \<^verbatim>\<open>restored_send\<close>:
  \<open>LlbImageData\<close> is the personalized LLB; every entry of \<open>NorImageData\<close>, array or
  dictionary, is the image of an entry of the firmware-files dictionary whose name is
  neither \<open>LLB\<close> nor \<open>RestoreSEP\<close>; when the build identity has the component RestoreSEP
  with a path, \<open>RestoreSEPImageData\<close> is there and is the personalized RestoreSEP; and
  \<open>RestoreSEPImageData\<close>, when present, is never anything else. When the archive has no
  manifest file next to LLB, every entry of the build identity's manifest with
  \<open>Info.IsFirmwarePayload = true\<close>, or with \<open>IsSecondaryFirmwarePayload = true\<close> and
  \<open>IsLoadedByiBoot = true\<close>, that has an \<open>Info.Path\<close> is a key of the firmware-files
  dictionary.
\<close>

theorem nor_image_list_excludes_llb_and_restoresep:
  "(restore_send_nor tssapi api ipsw restore client build_identity message = Some (r, [dict]) \<longrightarrow>
      (\<exists>llb_path component_data llb_data.
           nor_llb_path tssapi api (tss client) build_identity = Some llb_path
           \<and> extract_component api llb_path = Some component_data
           \<and> personalize_component api ''LLB'' component_data (tss client) = Some llb_data
           \<and> plist_dict_get_item dict ''LlbImageData'' = Some (PData llb_data))
      \<and> (\<exists>norimage. plist_dict_get_item dict ''NorImageData'' = Some norimage
           \<and> (\<forall>item \<in> set (plist_array_items norimage).
                 \<exists>e \<in> set (nor_request_firmware_files tssapi api ipsw client build_identity).
                    fst e \<noteq> ''LLB'' \<and> fst e \<noteq> ''RestoreSEP''
                    \<and> image_of api (tss client) e = Some item)
           \<and> (\<forall>kv \<in> set (plist_dict_items norimage).
                 fst kv \<noteq> ''LLB'' \<and> fst kv \<noteq> ''RestoreSEP''
                 \<and> (\<exists>e \<in> set (nor_request_firmware_files tssapi api ipsw client build_identity).
                       fst e = fst kv \<and> image_of api (tss client) e = Some (snd kv))))
      \<and> (build_identity_has_component api build_identity ''RestoreSEP'' \<longrightarrow>
         (\<forall>path. build_identity_get_component_path api build_identity ''RestoreSEP'' = Some path \<longrightarrow>
           (\<exists>component_data personalized_data.
              extract_component api path = Some component_data
              \<and> personalize_component api ''RestoreSEP'' component_data (tss client) =
                  Some personalized_data
              \<and> plist_dict_get_item dict ''RestoreSEPImageData'' =
                  Some (PData personalized_data))))
      \<and> (\<forall>v. plist_dict_get_item dict ''RestoreSEPImageData'' = Some v \<longrightarrow>
           (\<exists>path component_data personalized_data.
              build_identity_get_component_path api build_identity ''RestoreSEP'' = Some path
              \<and> extract_component api path = Some component_data
              \<and> personalize_component api ''RestoreSEP'' component_data (tss client) =
                  Some personalized_data
              \<and> v = PData personalized_data)))
   \<and> (\<not> ipsw_file_exists ipsw (take (PATH_MAX - 1) (firmware_path @ ''/manifest'')) \<longrightarrow>
      plist_dict_get_item build_identity ''Manifest'' = Some (PDict entries) \<longrightarrow>
      (component, PDict e) \<in> set entries \<longrightarrow>
      map_of e ''Info'' = Some (PDict info) \<longrightarrow>
      (map_of info ''IsFirmwarePayload'' = Some (PBool True)
         \<or> (map_of info ''IsSecondaryFirmwarePayload'' = Some (PBool True)
            \<and> map_of info ''IsLoadedByiBoot'' = Some (PBool True))) \<longrightarrow>
      map_of info ''Path'' = Some comp_path \<longrightarrow>
      component \<in> fst ` set (plist_dict_items
           (nor_firmware_files api ipsw build_identity firmware_path)))"
proof (intro conjI impI allI)
  assume sent: "restore_send_nor tssapi api ipsw restore client build_identity message =
      Some (r, [dict])"
  show "\<exists>llb_path component_data llb_data.
           nor_llb_path tssapi api (tss client) build_identity = Some llb_path
           \<and> extract_component api llb_path = Some component_data
           \<and> personalize_component api ''LLB'' component_data (tss client) = Some llb_data
           \<and> plist_dict_get_item dict ''LlbImageData'' = Some (PData llb_data)"
    by (rule nor_sent_llb [OF sent])
  from nor_sent_image_list [OF sent] obtain norimage where
    n: "plist_dict_get_item dict ''NorImageData'' = Some norimage"
    and run: "nor_images api (tss client) (nor_flash_version_1 message)
          (nor_request_firmware_files tssapi api ipsw client build_identity)
          (if nor_flash_version_1 message then PDict [] else PArray []) = Some norimage"
    by blast
  from n nor_image_entries_not_llb [OF run]
  show "\<exists>norimage. plist_dict_get_item dict ''NorImageData'' = Some norimage
           \<and> (\<forall>item \<in> set (plist_array_items norimage).
                 \<exists>e \<in> set (nor_request_firmware_files tssapi api ipsw client build_identity).
                    fst e \<noteq> ''LLB'' \<and> fst e \<noteq> ''RestoreSEP''
                    \<and> image_of api (tss client) e = Some item)
           \<and> (\<forall>kv \<in> set (plist_dict_items norimage).
                 fst kv \<noteq> ''LLB'' \<and> fst kv \<noteq> ''RestoreSEP''
                 \<and> (\<exists>e \<in> set (nor_request_firmware_files tssapi api ipsw client build_identity).
                       fst e = fst kv \<and> image_of api (tss client) e = Some (snd kv)))"
    by blast
  {
    fix path
    assume has: "build_identity_has_component api build_identity ''RestoreSEP''"
      and path: "build_identity_get_component_path api build_identity ''RestoreSEP'' = Some path"
    show "\<exists>component_data personalized_data.
              extract_component api path = Some component_data
              \<and> personalize_component api ''RestoreSEP'' component_data (tss client) =
                  Some personalized_data
              \<and> plist_dict_get_item dict ''RestoreSEPImageData'' =
                  Some (PData personalized_data)"
      by (rule nor_sent_restore_sep_present [OF sent has path])
  }
  fix v assume "plist_dict_get_item dict ''RestoreSEPImageData'' = Some v"
  then show "\<exists>path component_data personalized_data.
              build_identity_get_component_path api build_identity ''RestoreSEP'' = Some path
              \<and> extract_component api path = Some component_data
              \<and> personalize_component api ''RestoreSEP'' component_data (tss client) =
                  Some personalized_data
              \<and> v = PData personalized_data"
    by (rule nor_sent_restore_sep [OF sent])
next
  assume "\<not> ipsw_file_exists ipsw (take (PATH_MAX - 1) (firmware_path @ ''/manifest''))"
    and "plist_dict_get_item build_identity ''Manifest'' = Some (PDict entries)"
    and "(component, PDict e) \<in> set entries"
    and "map_of e ''Info'' = Some (PDict info)"
    and "map_of info ''IsFirmwarePayload'' = Some (PBool True)
         \<or> (map_of info ''IsSecondaryFirmwarePayload'' = Some (PBool True)
            \<and> map_of info ''IsLoadedByiBoot'' = Some (PBool True))"
    and "map_of info ''Path'' = Some comp_path"
  then show "component \<in> fst ` set (plist_dict_items
           (nor_firmware_files api ipsw build_identity firmware_path))"
    by (rule nor_firmware_files_from_build_identity)
qed

text \<open>The reply to a NORData request without arguments for the build identity of
  scenario S3, from an archive without a manifest file.\<close>

declare strstr.simps [simp del]

lemma nor_s3_firmware_path:
  "strstr ''Firmware/all_flash/LLB.d10.RELEASE.im4p'' ''LLB'' = Some 19"
  by (simp add: strstr.simps starts_with_def)

lemma nor_s3_run:
  "restore_send_nor tss_lookup components_tagging ipsw_empty device_ready
     (client_with (PDict []) False True) build_identity_s3 (PDict []) =
   Some (0, [PDict
     [(''LlbImageData'', PData ''img4:LLB:raw:Firmware/all_flash/LLB.d10.RELEASE.im4p''),
      (''NorImageData'', PArray
         [PData ''img4:iBootData:raw:Firmware/all_flash/iBootData.d10.RELEASE.im4p'',
          PData ''img4:iBoot:raw:Firmware/all_flash/iBoot.d10.RELEASE.im4p''])]])"
  by (simp add: restore_send_nor_def nor_flash_version_1_def nor_llb_path_def tss_lookup_def
        components_tagging_def ipsw_empty_def device_ready_def client_with_def
        build_identity_s3_def firmware_entry_def nor_s3_firmware_path nor_firmware_files_def
        is_nor_firmware_def add_optional_image_def starts_with_def)

text \<open>The same request for a build identity with LLB, iBoot and RestoreSEP, all three
  flagged as firmware payload: all three are in the firmware-files dictionary, the image
  list holds iBoot alone, and LLB and RestoreSEP travel under their own keys.\<close>

lemma nor_sep_files:
  "nor_request_firmware_files tss_lookup components_tagging ipsw_empty
      (client_with (PDict []) False True) build_identity_sep =
     [(''LLB'', PString ''Firmware/all_flash/LLB.d10.RELEASE.im4p''),
      (''iBoot'', PString ''Firmware/all_flash/iBoot.d10.RELEASE.im4p''),
      (''RestoreSEP'', PString ''Firmware/all_flash/sep-firmware.d10.RELEASE.im4p'')]"
  by (simp add: nor_request_firmware_files_def nor_llb_path_def tss_lookup_def
        components_tagging_def ipsw_empty_def client_with_def build_identity_sep_def
        firmware_entry_def nor_s3_firmware_path nor_firmware_files_def is_nor_firmware_def)

lemma nor_sep_run:
  "restore_send_nor tss_lookup components_tagging ipsw_empty device_ready
     (client_with (PDict []) False True) build_identity_sep (PDict []) =
   Some (0, [PDict
     [(''LlbImageData'', PData ''img4:LLB:raw:Firmware/all_flash/LLB.d10.RELEASE.im4p''),
      (''NorImageData'', PArray
         [PData ''img4:iBoot:raw:Firmware/all_flash/iBoot.d10.RELEASE.im4p'']),
      (''RestoreSEPImageData'',
       PData ''img4:RestoreSEP:raw:Firmware/all_flash/sep-firmware.d10.RELEASE.im4p'')]])"
  by (simp add: restore_send_nor_def nor_flash_version_1_def nor_llb_path_def tss_lookup_def
        components_tagging_def ipsw_empty_def device_ready_def client_with_def
        build_identity_sep_def firmware_entry_def nor_s3_firmware_path nor_firmware_files_def
        is_nor_firmware_def add_optional_image_def starts_with_def)

theorem nor_image_list_excludes_llb_and_restoresep_witness:
  "restore_send_nor tss_lookup components_tagging ipsw_empty device_ready
     (client_with (PDict []) False True) build_identity_sep (PDict []) =
   Some (0, [PDict
     [(''LlbImageData'', PData ''img4:LLB:raw:Firmware/all_flash/LLB.d10.RELEASE.im4p''),
      (''NorImageData'', PArray
         [PData ''img4:iBoot:raw:Firmware/all_flash/iBoot.d10.RELEASE.im4p'']),
      (''RestoreSEPImageData'',
       PData ''img4:RestoreSEP:raw:Firmware/all_flash/sep-firmware.d10.RELEASE.im4p'')]])
   \<and> (\<exists>e \<in> set (nor_request_firmware_files tss_lookup components_tagging ipsw_empty
                    (client_with (PDict []) False True) build_identity_sep).
         fst e \<noteq> ''LLB'' \<and> fst e \<noteq> ''RestoreSEP''
         \<and> image_of components_tagging (Some (PDict [])) e =
             Some (PData ''img4:iBoot:raw:Firmware/all_flash/iBoot.d10.RELEASE.im4p''))
   \<and> build_identity_has_component components_tagging build_identity_sep ''RestoreSEP''
   \<and> build_identity_get_component_path components_tagging build_identity_sep ''RestoreSEP'' =
       Some ''Firmware/all_flash/sep-firmware.d10.RELEASE.im4p''
   \<and> (\<exists>component_data personalized_data.
         extract_component components_tagging
            ''Firmware/all_flash/sep-firmware.d10.RELEASE.im4p'' = Some component_data
         \<and> personalize_component components_tagging ''RestoreSEP'' component_data
              (Some (PDict [])) = Some personalized_data
         \<and> plist_dict_get_item (PDict
             [(''LlbImageData'', PData ''img4:LLB:raw:Firmware/all_flash/LLB.d10.RELEASE.im4p''),
              (''NorImageData'', PArray
                 [PData ''img4:iBoot:raw:Firmware/all_flash/iBoot.d10.RELEASE.im4p'']),
              (''RestoreSEPImageData'',
               PData ''img4:RestoreSEP:raw:Firmware/all_flash/sep-firmware.d10.RELEASE.im4p'')])
             ''RestoreSEPImageData'' = Some (PData personalized_data))
   \<and> ''RestoreSEP'' \<in> fst ` set (plist_dict_items
        (nor_firmware_files components_tagging ipsw_empty build_identity_sep
           ''Firmware/all_flash''))"
proof -
  let ?dict = "PDict
     [(''LlbImageData'', PData ''img4:LLB:raw:Firmware/all_flash/LLB.d10.RELEASE.im4p''),
      (''NorImageData'', PArray
         [PData ''img4:iBoot:raw:Firmware/all_flash/iBoot.d10.RELEASE.im4p'']),
      (''RestoreSEPImageData'',
       PData ''img4:RestoreSEP:raw:Firmware/all_flash/sep-firmware.d10.RELEASE.im4p'')]"
  let ?info = "[(''Path'', PString ''Firmware/all_flash/sep-firmware.d10.RELEASE.im4p''),
                (''IsFirmwarePayload'', PBool True)]"
  let ?entries = "[(''LLB'', firmware_entry ''Firmware/all_flash/LLB.d10.RELEASE.im4p''),
                (''iBoot'', firmware_entry ''Firmware/all_flash/iBoot.d10.RELEASE.im4p''),
                (''RestoreSEP'',
                 firmware_entry ''Firmware/all_flash/sep-firmware.d10.RELEASE.im4p'')]"
  note inst = nor_image_list_excludes_llb_and_restoresep
          [of tss_lookup components_tagging ipsw_empty device_ready
              "client_with (PDict []) False True" build_identity_sep "PDict []" 0 ?dict
              "''Firmware/all_flash''" ?entries "''RestoreSEP''" "[(''Info'', PDict ?info)]"
              ?info "PString ''Firmware/all_flash/sep-firmware.d10.RELEASE.im4p''"]
  have sent: "restore_send_nor tss_lookup components_tagging ipsw_empty device_ready
     (client_with (PDict []) False True) build_identity_sep (PDict []) = Some (0, [?dict])"
    by (rule nor_sep_run)
  note reply = inst [THEN conjunct1, rule_format, OF sent]
  from reply obtain norimage where
    n: "plist_dict_get_item ?dict ''NorImageData'' = Some norimage"
    and items: "\<forall>item \<in> set (plist_array_items norimage).
                 \<exists>e \<in> set (nor_request_firmware_files tss_lookup components_tagging ipsw_empty
                    (client_with (PDict []) False True) build_identity_sep).
                    fst e \<noteq> ''LLB'' \<and> fst e \<noteq> ''RestoreSEP''
                    \<and> image_of components_tagging (tss (client_with (PDict []) False True)) e =
                        Some item"
    by blast
  from n have "PData ''img4:iBoot:raw:Firmware/all_flash/iBoot.d10.RELEASE.im4p''
                 \<in> set (plist_array_items norimage)"
    by auto
  with items have second:
    "\<exists>e \<in> set (nor_request_firmware_files tss_lookup components_tagging ipsw_empty
                    (client_with (PDict []) False True) build_identity_sep).
         fst e \<noteq> ''LLB'' \<and> fst e \<noteq> ''RestoreSEP''
         \<and> image_of components_tagging (Some (PDict [])) e =
             Some (PData ''img4:iBoot:raw:Firmware/all_flash/iBoot.d10.RELEASE.im4p'')"
    by (simp add: client_with_def)
  have has: "build_identity_has_component components_tagging build_identity_sep ''RestoreSEP''"
    by (simp add: components_tagging_def build_identity_sep_def firmware_entry_def)
  have path: "build_identity_get_component_path components_tagging build_identity_sep
       ''RestoreSEP'' = Some ''Firmware/all_flash/sep-firmware.d10.RELEASE.im4p''"
    by (simp add: components_tagging_def build_identity_sep_def firmware_entry_def)
  from reply has path have sep: "\<exists>component_data personalized_data.
         extract_component components_tagging
            ''Firmware/all_flash/sep-firmware.d10.RELEASE.im4p'' = Some component_data
         \<and> personalize_component components_tagging ''RestoreSEP'' component_data
              (tss (client_with (PDict []) False True)) = Some personalized_data
         \<and> plist_dict_get_item ?dict ''RestoreSEPImageData'' = Some (PData personalized_data)"
    by blast
  then have fourth: "\<exists>component_data personalized_data.
         extract_component components_tagging
            ''Firmware/all_flash/sep-firmware.d10.RELEASE.im4p'' = Some component_data
         \<and> personalize_component components_tagging ''RestoreSEP'' component_data
              (Some (PDict [])) = Some personalized_data
         \<and> plist_dict_get_item ?dict ''RestoreSEPImageData'' = Some (PData personalized_data)"
    by (simp add: client_with_def)
  have fifth: "''RestoreSEP'' \<in> fst ` set (plist_dict_items
        (nor_firmware_files components_tagging ipsw_empty build_identity_sep
           ''Firmware/all_flash''))"
    by (rule inst [THEN conjunct2, rule_format])
       (simp_all add: ipsw_empty_def build_identity_sep_def firmware_entry_def)
  from sent second has path fourth fifth show ?thesis by blast
qed

text \<open>The claim as written takes every flagged component of the build identity to be
  in the firmware-files set. With a manifest file next to LLB in the archive that lists
  LLB and iBoot, the set is read from that file: the build identity's AppleLogo, which
  has \<open>Info.IsFirmwarePayload = true\<close> and a path, is not in it, and the handler sends
  its reply without it.\<close>

lemma nor_logo_firmware_path:
  "strstr ''Firmware/all_flash/LLB.n90ap.RELEASE.img3'' ''LLB'' = Some 19"
  by (simp add: strstr.simps starts_with_def)

lemma nor_logo_manifest_lines:
  "strsep_crlf (c_string manifest_llb_iboot) =
     [''LLB.n90ap.RELEASE.img3'', ''iBoot.n90ap.RELEASE.img3'', []]"
  by (simp add: c_string_def manifest_llb_iboot_def)

lemma nor_logo_manifest_nonempty:
  "\<exists>b bs. manifest_llb_iboot = b # bs"
  by (simp add: manifest_llb_iboot_def)

lemma nor_logo_firmware_files:
  "nor_firmware_files components_tagging ipsw_with_manifest build_identity_logo
     ''Firmware/all_flash'' =
   PDict [(''LLB'', PString ''Firmware/all_flash/LLB.n90ap.RELEASE.img3''),
          (''iBoot'', PString ''Firmware/all_flash/iBoot.n90ap.RELEASE.img3'')]"
proof -
  from nor_logo_manifest_nonempty obtain b bs where m: "manifest_llb_iboot = b # bs" by blast
  have "nor_firmware_files components_tagging ipsw_with_manifest build_identity_logo
     ''Firmware/all_flash'' =
     firmware_files_from_manifest components_tagging ''Firmware/all_flash''
       (strsep_crlf (c_string manifest_llb_iboot)) (PDict [])"
    by (simp add: nor_firmware_files_def ipsw_with_manifest_def m)
  also have "\<dots> = PDict [(''LLB'', PString ''Firmware/all_flash/LLB.n90ap.RELEASE.img3''),
          (''iBoot'', PString ''Firmware/all_flash/iBoot.n90ap.RELEASE.img3'')]"
    by (simp add: nor_logo_manifest_lines components_tagging_def starts_with_def)
  finally show ?thesis .
qed

lemma nor_logo_files:
  "nor_request_firmware_files tss_lookup components_tagging ipsw_with_manifest
      (client_with (PDict []) False True) build_identity_logo =
     [(''LLB'', PString ''Firmware/all_flash/LLB.n90ap.RELEASE.img3''),
      (''iBoot'', PString ''Firmware/all_flash/iBoot.n90ap.RELEASE.img3'')]"
proof -
  have "nor_llb_path tss_lookup components_tagging
          (tss (client_with (PDict []) False True)) build_identity_logo =
        Some ''Firmware/all_flash/LLB.n90ap.RELEASE.img3''"
    by (simp add: nor_llb_path_def tss_lookup_def components_tagging_def client_with_def
          build_identity_logo_def firmware_entry_def)
  then show ?thesis
    by (simp add: nor_request_firmware_files_def nor_logo_firmware_path
          nor_logo_firmware_files starts_with_def)
qed

theorem nor_firmware_files_manifest_counterexample:
  "plist_access_path build_identity_logo
      [''Manifest'', ''AppleLogo'', ''Info'', ''IsFirmwarePayload''] = Some (PBool True)
   \<and> ''AppleLogo'' \<notin> fst ` set (nor_request_firmware_files tss_lookup components_tagging
        ipsw_with_manifest (client_with (PDict []) False True) build_identity_logo)
   \<and> restore_send_nor tss_lookup components_tagging ipsw_with_manifest device_ready
        (client_with (PDict []) False True) build_identity_logo (PDict []) =
      Some (0, [PDict
        [(''LlbImageData'', PData ''img4:LLB:raw:Firmware/all_flash/LLB.n90ap.RELEASE.img3''),
         (''NorImageData'', PArray
            [PData ''img4:iBoot:raw:Firmware/all_flash/iBoot.n90ap.RELEASE.img3''])]])"
proof (intro conjI)
  show "plist_access_path build_identity_logo
      [''Manifest'', ''AppleLogo'', ''Info'', ''IsFirmwarePayload''] = Some (PBool True)"
    by (simp add: build_identity_logo_def firmware_entry_def)
  show "''AppleLogo'' \<notin> fst ` set (nor_request_firmware_files tss_lookup components_tagging
        ipsw_with_manifest (client_with (PDict []) False True) build_identity_logo)"
    by (simp add: nor_logo_files)
  show "restore_send_nor tss_lookup components_tagging ipsw_with_manifest device_ready
        (client_with (PDict []) False True) build_identity_logo (PDict []) =
      Some (0, [PDict
        [(''LlbImageData'', PData ''img4:LLB:raw:Firmware/all_flash/LLB.n90ap.RELEASE.img3''),
         (''NorImageData'', PArray
            [PData ''img4:iBoot:raw:Firmware/all_flash/iBoot.n90ap.RELEASE.img3''])]])"
  proof -
    have llb: "nor_llb_path tss_lookup components_tagging
          (tss (client_with (PDict []) False True)) build_identity_logo =
        Some ''Firmware/all_flash/LLB.n90ap.RELEASE.img3''"
      by (simp add: nor_llb_path_def tss_lookup_def components_tagging_def client_with_def
          build_identity_logo_def firmware_entry_def)
    show ?thesis
      apply (simp add: restore_send_nor_def llb nor_logo_firmware_path nor_logo_firmware_files
            nor_flash_version_1_def starts_with_def)
      apply (simp add: components_tagging_def device_ready_def client_with_def
            build_identity_logo_def firmware_entry_def add_optional_image_def starts_with_def)
      done
  qed
qed

section \<open>NOR data: iBoot comes first\<close>

lemma nor_images_iboot_first:
  assumes run: "nor_images api t False fw (PArray []) = Some (PArray arr)"
    and ex: "\<exists>e \<in> set fw. nor_included e \<and> starts_with ''iBoot'' (fst e)"
  shows "arr \<noteq> [] \<and>
         (\<exists>e \<in> set fw. nor_included e \<and> starts_with ''iBoot'' (fst e)
            \<and> image_of api t e = Some (arr ! 0))"
proof -
  define iboots where
    "iboots = filter (\<lambda>e. starts_with ''iBoot'' (fst e)) (filter nor_included fw)"
  define others where
    "others = filter (\<lambda>e. \<not> starts_with ''iBoot'' (fst e)) (filter nor_included fw)"
  from ex have "iboots \<noteq> []" by (auto simp: iboots_def filter_empty_conv)
  then have "rev iboots \<noteq> []" by simp
  then obtain x xs where rv: "rev iboots = x # xs" by (cases "rev iboots") auto
  have "x \<in> set (rev iboots)" unfolding rv by simp
  then have "x \<in> set iboots" by simp
  then have mem: "x \<in> set fw" and inc: "nor_included x"
    and ib: "starts_with ''iBoot'' (fst x)"
    by (auto simp: iboots_def)
  from nor_images_array [OF run]
  have "arr = map (the \<circ> image_of api t) (rev iboots) @ map (the \<circ> image_of api t) others"
    by (simp add: iboots_def others_def)
  then have arr: "arr = (the \<circ> image_of api t) x
                      # (map (the \<circ> image_of api t) xs @ map (the \<circ> image_of api t) others)"
    unfolding rv by simp
  from nor_images_all_images [OF run mem inc] obtain img where
    img: "image_of api t x = Some img" by blast
  from arr img have "arr \<noteq> []" and "arr ! 0 = img" by simp_all
  with mem inc ib img show ?thesis by blast
qed

text \<open>
  C2. Without \<^verbatim>\<open>flash_version_1\<close>, for every list of firmware files, in whatever order
  the loop walks them: when some entry that the loop includes has a name starting with
  \<open>iBoot\<close>, the array it builds is not empty and its entry at index 0 is the image of an
  included entry whose name starts with \<open>iBoot\<close>. The same holds for \<open>NorImageData\<close> in
  every reply of \<^verbatim>\<open>restore_send_nor\<close> that reaches \<^verbatim>\<open>restored_send\<close>.
\<close>

theorem nor_array_iboot_at_index_0:
  "(\<forall>fw arr. nor_images api t False fw (PArray []) = Some (PArray arr) \<longrightarrow>
        (\<exists>e \<in> set fw. nor_included e \<and> starts_with ''iBoot'' (fst e)) \<longrightarrow>
        arr \<noteq> [] \<and>
        (\<exists>e \<in> set fw. nor_included e \<and> starts_with ''iBoot'' (fst e)
            \<and> image_of api t e = Some (arr ! 0)))
   \<and> (restore_send_nor tssapi api ipsw restore client build_identity message =
         Some (r, [dict]) \<longrightarrow>
       \<not> nor_flash_version_1 message \<longrightarrow>
       (\<exists>e \<in> set (nor_request_firmware_files tssapi api ipsw client build_identity).
           nor_included e \<and> starts_with ''iBoot'' (fst e)) \<longrightarrow>
       (\<exists>arr. plist_dict_get_item dict ''NorImageData'' = Some (PArray arr)
          \<and> arr \<noteq> []
          \<and> (\<exists>e \<in> set (nor_request_firmware_files tssapi api ipsw client build_identity).
                nor_included e \<and> starts_with ''iBoot'' (fst e)
                \<and> image_of api (tss client) e = Some (arr ! 0))))"
proof (intro conjI allI impI)
  fix fw arr
  assume "nor_images api t False fw (PArray []) = Some (PArray arr)"
    and "\<exists>e \<in> set fw. nor_included e \<and> starts_with ''iBoot'' (fst e)"
  then show "arr \<noteq> []"
    and "\<exists>e \<in> set fw. nor_included e \<and> starts_with ''iBoot'' (fst e)
            \<and> image_of api t e = Some (arr ! 0)"
    using nor_images_iboot_first by blast+
next
  assume sent: "restore_send_nor tssapi api ipsw restore client build_identity message =
         Some (r, [dict])"
    and array: "\<not> nor_flash_version_1 message"
    and ex: "\<exists>e \<in> set (nor_request_firmware_files tssapi api ipsw client build_identity).
           nor_included e \<and> starts_with ''iBoot'' (fst e)"
  from nor_sent_image_list [OF sent] array obtain norimage where
    n: "plist_dict_get_item dict ''NorImageData'' = Some norimage"
    and run: "nor_images api (tss client) False
          (nor_request_firmware_files tssapi api ipsw client build_identity)
          (PArray []) = Some norimage"
    by auto
  from nor_images_array [OF run] obtain arr where a: "norimage = PArray arr" by blast
  from nor_images_iboot_first [OF run [unfolded a] ex] n a
  show "\<exists>arr. plist_dict_get_item dict ''NorImageData'' = Some (PArray arr)
          \<and> arr \<noteq> []
          \<and> (\<exists>e \<in> set (nor_request_firmware_files tssapi api ipsw client build_identity).
                nor_included e \<and> starts_with ''iBoot'' (fst e)
                \<and> image_of api (tss client) e = Some (arr ! 0))"
    by blast
qed

text \<open>Scenario S3: the firmware files are LLB, iBoot and iBootData in this order; both
  iBoot and iBootData start with \<open>iBoot\<close>, and index 0 holds the image of iBootData, the
  one the loop met last.\<close>

lemma nor_s3_files:
  "nor_request_firmware_files tss_lookup components_tagging ipsw_empty
      (client_with (PDict []) False True) build_identity_s3 =
     [(''LLB'', PString ''Firmware/all_flash/LLB.d10.RELEASE.im4p''),
      (''iBoot'', PString ''Firmware/all_flash/iBoot.d10.RELEASE.im4p''),
      (''iBootData'', PString ''Firmware/all_flash/iBootData.d10.RELEASE.im4p'')]"
  by (simp add: nor_request_firmware_files_def nor_llb_path_def tss_lookup_def
        components_tagging_def ipsw_empty_def client_with_def build_identity_s3_def
        firmware_entry_def nor_s3_firmware_path nor_firmware_files_def is_nor_firmware_def)

theorem nor_array_iboot_at_index_0_witness:
  "restore_send_nor tss_lookup components_tagging ipsw_empty device_ready
     (client_with (PDict []) False True) build_identity_s3 (PDict []) =
   Some (0, [PDict
     [(''LlbImageData'', PData ''img4:LLB:raw:Firmware/all_flash/LLB.d10.RELEASE.im4p''),
      (''NorImageData'', PArray
         [PData ''img4:iBootData:raw:Firmware/all_flash/iBootData.d10.RELEASE.im4p'',
          PData ''img4:iBoot:raw:Firmware/all_flash/iBoot.d10.RELEASE.im4p''])]])
   \<and> \<not> nor_flash_version_1 (PDict [])
   \<and> (\<exists>arr. plist_dict_get_item (PDict
     [(''LlbImageData'', PData ''img4:LLB:raw:Firmware/all_flash/LLB.d10.RELEASE.im4p''),
      (''NorImageData'', PArray
         [PData ''img4:iBootData:raw:Firmware/all_flash/iBootData.d10.RELEASE.im4p'',
          PData ''img4:iBoot:raw:Firmware/all_flash/iBoot.d10.RELEASE.im4p''])])
           ''NorImageData'' = Some (PArray arr)
          \<and> arr \<noteq> []
          \<and> (\<exists>e \<in> set (nor_request_firmware_files tss_lookup components_tagging ipsw_empty
                          (client_with (PDict []) False True) build_identity_s3).
                nor_included e \<and> starts_with ''iBoot'' (fst e)
                \<and> image_of components_tagging (tss (client_with (PDict []) False True)) e =
                    Some (arr ! 0)))"
proof -
  have sent: "restore_send_nor tss_lookup components_tagging ipsw_empty device_ready
     (client_with (PDict []) False True) build_identity_s3 (PDict []) =
   Some (0, [PDict
     [(''LlbImageData'', PData ''img4:LLB:raw:Firmware/all_flash/LLB.d10.RELEASE.im4p''),
      (''NorImageData'', PArray
         [PData ''img4:iBootData:raw:Firmware/all_flash/iBootData.d10.RELEASE.im4p'',
          PData ''img4:iBoot:raw:Firmware/all_flash/iBoot.d10.RELEASE.im4p''])]])"
    by (rule nor_s3_run)
  have array: "\<not> nor_flash_version_1 (PDict [])"
    by (simp add: nor_flash_version_1_def)
  have ex: "\<exists>e \<in> set (nor_request_firmware_files tss_lookup components_tagging ipsw_empty
                          (client_with (PDict []) False True) build_identity_s3).
           nor_included e \<and> starts_with ''iBoot'' (fst e)"
    by (simp add: nor_s3_files nor_included_def starts_with_def)
  from nor_array_iboot_at_index_0 [THEN conjunct2, rule_format, OF sent array ex] sent array
  show ?thesis by blast
qed

section \<open>Baseband firmware: the archive after signing\<close>



lemma zip_name_locate_Some:
  "zip_name_locate z name = Some i \<Longrightarrow>
   i < length z \<and> ze_name (z ! i) = name \<and> ze_change (z ! i) \<noteq> ZIP_DELETED"
proof (induction z arbitrary: i)
  case Nil
  then show ?case by simp
next
  case (Cons e es)
  show ?case
  proof (cases "ze_name e = name \<and> ze_change e \<noteq> ZIP_DELETED")
    case True
    with Cons.prems show ?thesis by simp
  next
    case False
    with Cons.prems obtain j where "zip_name_locate es name = Some j" and "i = Suc j"
      by auto
    with Cons.IH [of j] show ?thesis by simp
  qed
qed

lemma zip_replace_names: "map ze_name (zip_replace z i data) = map ze_name z"
  by (simp add: zip_replace_def map_update list_update_same_conv)

lemma zip_replace_length: "length (zip_replace z i data) = length z"
  by (simp add: zip_replace_def)

lemma zip_delete_length: "length (zip_delete z i) = length z"
  by (simp add: zip_delete_def)

lemma zip_replace_nth:
  "j < length z \<Longrightarrow>
   zip_replace z i d ! j = (if j = i then (z ! j)\<lparr> ze_change := ZIP_REPLACED d \<rparr> else z ! j)"
  by (simp add: zip_replace_def)

text \<open>A round of the signing loop that goes on has either changed nothing, or replaced
  the entry at an index of the archive and possibly recorded that index.\<close>

lemma sign_blob_Done:
  assumes "sign_blob api has_nonce st item = Done st'"
  shows "st' = st
     \<or> (\<exists>zindex fdata. zindex < length (za st)
          \<and> za st' = zip_replace (za st) zindex fdata
          \<and> (signed_file_idxs st' = signed_file_idxs st
              \<or> signed_file_idxs st' = signed_file_idxs st @ [zindex]))"
proof -
  obtain key node where item: "item = (key, node)" by (cases item)
  show ?thesis
  proof (cases "st' = st")
    case True
    then show ?thesis by simp
  next
    case False
    with assms item obtain signfn zindex fdata where
      loc: "zip_name_locate (za st) signfn = Some zindex"
      and upd: "za st' = zip_replace (za st) zindex fdata"
      and idx: "signed_file_idxs st' = signed_file_idxs st
                \<or> signed_file_idxs st' = signed_file_idxs st @ [zindex]"
      by (auto simp: sign_blob_def Let_def split: if_splits option.splits)
    from zip_name_locate_Some [OF loc] have "zindex < length (za st)" by simp
    with upd idx show ?thesis by blast
  qed
qed

lemma sign_inv_init:
  "sign_inv entries \<lparr> za = zip_open entries, is_fls = False, signed_file_idxs = [] \<rparr>"
  by (simp add: sign_inv_def zip_open_def list_all_iff split_def)

lemma sign_inv_length: "sign_inv entries st \<Longrightarrow> length (za st) = length entries"
  unfolding sign_inv_def using length_map by metis

lemma sign_inv_name:
  "sign_inv entries st \<Longrightarrow> j < length entries \<Longrightarrow> ze_name (za st ! j) = fst (entries ! j)"
proof -
  assume inv: "sign_inv entries st" and j: "j < length entries"
  from inv have eq: "map ze_name (za st) = map fst entries" by (simp add: sign_inv_def)
  from sign_inv_length [OF inv] j have "map ze_name (za st) ! j = ze_name (za st ! j)" by simp
  moreover from j have "map fst entries ! j = fst (entries ! j)" by simp
  ultimately show ?thesis using eq by simp
qed

lemma sign_inv_live:
  "sign_inv entries st \<Longrightarrow> j < length entries \<Longrightarrow>
   ze_change (za st ! j) \<noteq> ZIP_DELETED \<and> ze_change (za st ! j) \<noteq> ZIP_ADDED"
  using sign_inv_length [of entries st]
  by (simp add: sign_inv_def list_all_length)

lemma sign_blob_inv:
  assumes step: "sign_blob api has_nonce st item = Done st'"
    and inv: "sign_inv entries st"
  shows "sign_inv entries st'"
proof -
  note len = sign_inv_length [OF inv]
  from sign_blob_Done [OF step] consider (same) "st' = st"
    | (signed) zindex fdata where "zindex < length (za st)"
        "za st' = zip_replace (za st) zindex fdata"
        "signed_file_idxs st' = signed_file_idxs st
         \<or> signed_file_idxs st' = signed_file_idxs st @ [zindex]"
    by blast
  then show ?thesis
  proof cases
    case same
    with inv show ?thesis by simp
  next
    case signed
    have names: "map ze_name (za st') = map fst entries"
      using inv signed(2) by (simp add: sign_inv_def zip_replace_names)
    have live: "list_all (\<lambda>e. ze_change e \<noteq> ZIP_DELETED \<and> ze_change e \<noteq> ZIP_ADDED) (za st')"
      unfolding list_all_length
    proof (intro allI impI)
      fix j assume "j < length (za st')"
      then have j: "j < length (za st)" by (simp add: signed(2) zip_replace_length)
      with sign_inv_live [OF inv, of j] len
      show "ze_change (za st' ! j) \<noteq> ZIP_DELETED \<and> ze_change (za st' ! j) \<noteq> ZIP_ADDED"
        by (simp add: signed(2) zip_replace_nth)
    qed
    have old: "list_all (\<lambda>i. i < length entries \<and> ze_change (za st' ! i) \<noteq> ZIP_UNCHANGED)
                 (signed_file_idxs st)"
      unfolding list_all_iff
    proof
      fix i assume "i \<in> set (signed_file_idxs st)"
      with inv have "i < length entries" and "ze_change (za st ! i) \<noteq> ZIP_UNCHANGED"
        by (simp_all add: sign_inv_def list_all_iff)
      with len show "i < length entries \<and> ze_change (za st' ! i) \<noteq> ZIP_UNCHANGED"
        by (simp add: signed(2) zip_replace_nth)
    qed
    have new: "zindex < length entries \<and> ze_change (za st' ! zindex) \<noteq> ZIP_UNCHANGED"
      using signed(1) len by (simp add: signed(2) zip_replace_nth)
    from signed(3) old new
    have "list_all (\<lambda>i. i < length entries \<and> ze_change (za st' ! i) \<noteq> ZIP_UNCHANGED)
            (signed_file_idxs st')"
      by auto
    with names live show ?thesis by (simp add: sign_inv_def)
  qed
qed

lemma sign_blobs_inv:
  "sign_blobs api has_nonce items st = Done st' \<Longrightarrow> sign_inv entries st \<Longrightarrow>
   sign_inv entries st'"
proof (induction items arbitrary: st)
  case Nil
  then show ?case by simp
next
  case (Cons item items)
  from Cons.prems(1) obtain st1 where
    one: "sign_blob api has_nonce st item = Done st1"
    and more: "sign_blobs api has_nonce items st1 = Done st'"
    by (auto split: step.splits)
  from Cons.IH [OF more sign_blob_inv [OF one Cons.prems(2)]] show ?case .
qed


text \<open>The removal loop.\<close>

lemma keep_entry_cong:
  "length z' = length z \<Longrightarrow> z' ! j = z ! j \<Longrightarrow>
   keep_entry has_nonce idxs z' j = keep_entry has_nonce idxs z j"
  by (simp add: keep_entry_def zip_get_name_def)

lemma remove_loop_length: "length (remove_loop has_nonce idxs js z) = length z"
  by (induction js arbitrary: z) (simp_all add: zip_delete_length)

lemma remove_loop_nth:
  "distinct js \<Longrightarrow> j < length z \<Longrightarrow>
   remove_loop has_nonce idxs js z ! j =
     (if j \<in> set js \<and> \<not> keep_entry has_nonce idxs z j
      then (z ! j)\<lparr> ze_change := ZIP_DELETED \<rparr> else z ! j)"
proof (induction js arbitrary: z)
  case Nil
  then show ?case by simp
next
  case (Cons i js)
  let ?z1 = "if keep_entry has_nonce idxs z i then z else zip_delete z i"
  have len1: "length ?z1 = length z" by (simp add: zip_delete_length)
  from Cons.prems have d: "distinct js" and notin: "i \<notin> set js" by simp_all
  from Cons.IH [OF d, of ?z1] Cons.prems(2) len1
  have ih: "remove_loop has_nonce idxs js ?z1 ! j =
     (if j \<in> set js \<and> \<not> keep_entry has_nonce idxs ?z1 j
      then (?z1 ! j)\<lparr> ze_change := ZIP_DELETED \<rparr> else ?z1 ! j)"
    by simp
  show ?case
  proof (cases "j = i")
    case True
    with notin ih Cons.prems(2) show ?thesis by (simp add: zip_delete_def)
  next
    case False
    then have same: "?z1 ! j = z ! j" by (simp add: zip_delete_def)
    from keep_entry_cong [OF len1 same]
    have "keep_entry has_nonce idxs ?z1 j = keep_entry has_nonce idxs z j" .
    with ih same False show ?thesis by simp
  qed
qed

lemma remove_unrequired_length:
  "length (remove_unrequired has_nonce idxs z) = length z"
  by (simp add: remove_unrequired_def remove_loop_length)

lemma remove_unrequired_nth:
  "j < length z \<Longrightarrow>
   remove_unrequired has_nonce idxs z ! j =
     (if keep_entry has_nonce idxs z j then z ! j else (z ! j)\<lparr> ze_change := ZIP_DELETED \<rparr>)"
  by (simp add: remove_unrequired_def remove_loop_nth)

text \<open>On the state the signing loop leaves, the test of the removal loop reads the names
  of the file's entries.\<close>

lemma keep_entry_after_signing:
  assumes inv: "sign_inv entries st" and j: "j < length entries"
  shows "keep_entry has_nonce idxs (za st) j =
         (j \<in> set idxs \<or> (has_nonce \<and> kept_extension (fst (entries ! j))))"
  using sign_inv_length [OF inv] sign_inv_live [OF inv j] sign_inv_name [OF inv j] j
  by (simp add: keep_entry_def zip_get_name_def)

lemma filter_nth_conv:
  "map f (filter P z) = map (\<lambda>j. f (z ! j)) (filter (\<lambda>j. P (z ! j)) [0..<length z])"
proof -
  have "map f (filter P (map (\<lambda>j. z ! j) [0..<length z])) =
        map (\<lambda>j. f (z ! j)) (filter (\<lambda>j. P (z ! j)) [0..<length z])"
    by (simp add: filter_map comp_def)
  then show ?thesis by (simp add: map_nth)
qed

lemma committed_names:
  "map fst (zip_committed z) =
   map (\<lambda>j. ze_name (z ! j)) (filter (\<lambda>j. ze_change (z ! j) \<noteq> ZIP_DELETED) [0..<length z])"
proof -
  have "map fst (zip_committed z) = map ze_name (filter (\<lambda>e. ze_change e \<noteq> ZIP_DELETED) z)"
    by (simp add: zip_committed_def comp_def)
  also have "\<dots> = map (\<lambda>j. ze_name (z ! j))
      (filter (\<lambda>j. ze_change (z ! j) \<noteq> ZIP_DELETED) [0..<length z])"
    by (rule filter_nth_conv)
  finally show ?thesis .
qed

text \<open>What is left after the removal loop: the entries at a signed index and, with a
  nonce, those with a kept extension.\<close>

lemma removed_committed_names:
  assumes inv: "sign_inv entries st"
  shows "map fst (zip_committed (remove_unrequired has_nonce idxs (za st))) =
         map (\<lambda>j. fst (entries ! j))
           (filter (\<lambda>j. j \<in> set idxs \<or> (has_nonce \<and> kept_extension (fst (entries ! j))))
              [0..<length entries])"
proof -
  let ?zr = "remove_unrequired has_nonce idxs (za st)"
  note len = sign_inv_length [OF inv]
  have nth: "\<And>j. j < length entries \<Longrightarrow>
      ze_name (?zr ! j) = fst (entries ! j)
      \<and> (ze_change (?zr ! j) \<noteq> ZIP_DELETED) =
          (j \<in> set idxs \<or> (has_nonce \<and> kept_extension (fst (entries ! j))))"
  proof -
    fix j assume j: "j < length entries"
    with len have "j < length (za st)" by simp
    from remove_unrequired_nth [OF this, of has_nonce idxs]
         keep_entry_after_signing [OF inv j, of has_nonce idxs]
         sign_inv_live [OF inv j] sign_inv_name [OF inv j]
    show "ze_name (?zr ! j) = fst (entries ! j)
      \<and> (ze_change (?zr ! j) \<noteq> ZIP_DELETED) =
          (j \<in> set idxs \<or> (has_nonce \<and> kept_extension (fst (entries ! j))))"
      by simp
  qed
  have lr: "length ?zr = length entries" by (simp add: remove_unrequired_length len)
  have f: "filter (\<lambda>j. ze_change (?zr ! j) \<noteq> ZIP_DELETED) [0..<length entries] =
           filter (\<lambda>j. j \<in> set idxs \<or> (has_nonce \<and> kept_extension (fst (entries ! j))))
              [0..<length entries]"
    by (rule filter_cong) (simp_all add: nth)
  have "map fst (zip_committed ?zr) =
        map (\<lambda>j. ze_name (?zr ! j))
          (filter (\<lambda>j. ze_change (?zr ! j) \<noteq> ZIP_DELETED) [0..<length entries])"
    by (simp add: committed_names lr)
  also have "\<dots> = map (\<lambda>j. ze_name (?zr ! j))
          (filter (\<lambda>j. j \<in> set idxs \<or> (has_nonce \<and> kept_extension (fst (entries ! j))))
              [0..<length entries])"
    by (simp only: f)
  also have "\<dots> = map (\<lambda>j. fst (entries ! j))
          (filter (\<lambda>j. j \<in> set idxs \<or> (has_nonce \<and> kept_extension (fst (entries ! j))))
              [0..<length entries])"
    by (rule map_cong) (simp_all add: nth)
  finally show ?thesis .
qed

lemma removed_names:
  assumes inv: "sign_inv entries st"
  shows "map ze_name (remove_unrequired has_nonce idxs (za st)) = map fst entries"
proof (rule nth_equalityI)
  show "length (map ze_name (remove_unrequired has_nonce idxs (za st))) = length (map fst entries)"
    by (simp add: remove_unrequired_length sign_inv_length [OF inv])
next
  fix j assume "j < length (map ze_name (remove_unrequired has_nonce idxs (za st)))"
  then have j: "j < length entries"
    by (simp add: remove_unrequired_length sign_inv_length [OF inv])
  with sign_inv_length [OF inv] have jz: "j < length (za st)" by simp
  from remove_unrequired_nth [OF jz, of has_nonce idxs] sign_inv_name [OF inv j] j jz
  show "map ze_name (remove_unrequired has_nonce idxs (za st)) ! j = map fst entries ! j"
    by (simp add: remove_unrequired_length)
qed

lemma filter_update_same:
  "i < length z \<Longrightarrow> f e = f (z ! i) \<Longrightarrow> P e = P (z ! i) \<Longrightarrow>
   map f (filter P (z[i := e])) = map f (filter P z)"
  by (induction z arbitrary: i) (auto split: nat.splits)

lemma committed_names_replace:
  "i < length z \<Longrightarrow> ze_change (z ! i) \<noteq> ZIP_DELETED \<Longrightarrow>
   map fst (zip_committed (zip_replace z i d)) = map fst (zip_committed z)"
proof -
  assume i: "i < length z" and live: "ze_change (z ! i) \<noteq> ZIP_DELETED"
  have "map ze_name (filter (\<lambda>e. ze_change e \<noteq> ZIP_DELETED)
            (z[i := (z ! i)\<lparr> ze_change := ZIP_REPLACED d \<rparr>])) =
        map ze_name (filter (\<lambda>e. ze_change e \<noteq> ZIP_DELETED) z)"
    by (rule filter_update_same) (simp_all add: i live)
  with i show ?thesis by (simp add: zip_committed_def zip_replace_def comp_def)
qed

lemma committed_names_add:
  "map fst (zip_committed (zip_add z name d)) = map fst (zip_committed z) @ [name]"
  by (simp add: zip_committed_def zip_add_def)

lemma committed_names_live:
  "list_all (\<lambda>e. ze_change e \<noteq> ZIP_DELETED) z \<Longrightarrow> map fst (zip_committed z) = map ze_name z"
  by (simp add: zip_committed_def comp_def list_all_iff)

text \<open>The ticket step keeps the names of the committed entries, and adds
  \<open>bbticket.der\<close> at the end on the MBN path with a nonce.\<close>

lemma add_bbticket_names:
  assumes "add_bbticket api has_nonce fls bbticket z = Done z'"
  shows "map fst (zip_committed z') =
         map fst (zip_committed z) @ (if has_nonce \<and> \<not> fls then [''bbticket.der''] else [])"
proof (cases has_nonce)
  case False
  with assms show ?thesis by (simp add: add_bbticket_def)
next
  case nonce: True
  show ?thesis
  proof (cases fls)
    case False
    with assms nonce show ?thesis
      by (auto simp: add_bbticket_def committed_names_add split: if_splits)
  next
    case True
    with assms nonce obtain zindex fdata where
      loc: "zip_name_locate z ''ebl.fls'' = Some zindex"
      and z': "z' = zip_replace z zindex fdata"
      by (auto simp: add_bbticket_def split: option.splits if_splits)
    from zip_name_locate_Some [OF loc] z' True nonce show ?thesis
      by (simp add: committed_names_replace)
  qed
qed

text \<open>A ticket step that stages nothing is one without a nonce.\<close>

lemma add_bbticket_unchanged:
  assumes "add_bbticket api has_nonce fls bbticket z = Done z'"
    and "list_all (\<lambda>e. ze_change e = ZIP_UNCHANGED) z'"
  shows "\<not> has_nonce \<and> z' = z"
proof (cases has_nonce)
  case False
  with assms show ?thesis by (simp add: add_bbticket_def)
next
  case nonce: True
  show ?thesis
  proof (cases fls)
    case False
    with assms nonce show ?thesis
      by (auto simp: add_bbticket_def zip_add_def split: if_splits)
  next
    case True
    with assms(1) nonce obtain zindex fdata where
      loc: "zip_name_locate z ''ebl.fls'' = Some zindex"
      and z': "z' = zip_replace z zindex fdata"
      by (auto simp: add_bbticket_def split: option.splits if_splits)
    from zip_name_locate_Some [OF loc] have i: "zindex < length z" by simp
    then have "ze_change (z' ! zindex) = ZIP_REPLACED fdata"
      by (simp add: z' zip_replace_nth)
    moreover from assms(2) i have "ze_change (z' ! zindex) = ZIP_UNCHANGED"
      by (simp add: list_all_length z' zip_replace_length)
    ultimately show ?thesis by simp
  qed
qed

text \<open>The extension test, read on the name: the part of the name from its last dot is one
  of the four extensions exactly when the name ends with one of them.\<close>

lemma strrchr_Some:
  assumes "strrchr s c = Some ext"
  shows "\<exists>stem rest. s = stem @ ext \<and> ext = c # rest \<and> c \<notin> set rest"
proof -
  let ?P = "\<lambda>x. x \<noteq> c"
  from assms have mem: "c \<in> set s" and ext: "ext = c # rev (takeWhile ?P (rev s))"
    by (auto simp: strrchr_def split: if_splits)
  from mem have "dropWhile ?P (rev s) \<noteq> []" by (simp add: dropWhile_eq_Nil_conv)
  then obtain d ds where dw: "dropWhile ?P (rev s) = d # ds" by (cases "dropWhile ?P (rev s)") auto
  from hd_dropWhile [of ?P "rev s"] dw have "d = c" by auto
  have "rev s = takeWhile ?P (rev s) @ dropWhile ?P (rev s)" by simp
  with dw \<open>d = c\<close> have "rev s = takeWhile ?P (rev s) @ c # ds" by simp
  then have "rev (rev s) = rev (takeWhile ?P (rev s) @ c # ds)" by (rule arg_cong)
  then have s: "s = rev ds @ c # rev (takeWhile ?P (rev s))" by simp
  have "c \<notin> set (rev (takeWhile ?P (rev s)))"
    using set_takeWhileD [of c ?P "rev s"] by auto
  with s ext show ?thesis by blast
qed

lemma strrchr_suffix:
  "c \<notin> set rest \<Longrightarrow> strrchr (stem @ c # rest) c = Some (c # rest)"
proof -
  assume notin: "c \<notin> set rest"
  then have "takeWhile (\<lambda>x. x \<noteq> c) (rev rest @ c # rev stem) = rev rest"
    by (subst takeWhile_append2) auto
  then show ?thesis by (simp add: strrchr_def)
qed

lemma kept_extension_iff:
  "kept_extension fn =
     (\<exists>stem ext. fn = stem @ ext \<and> ext \<in> {''.fls'', ''.mbn'', ''.elf'', ''.bin''})"
proof
  assume "kept_extension fn"
  then obtain ext where e: "strrchr fn (CHR ''.'') = Some ext"
    and four: "ext \<in> {''.fls'', ''.mbn'', ''.elf'', ''.bin''}"
    by (auto simp: kept_extension_def split: option.splits)
  from strrchr_Some [OF e] obtain stem where "fn = stem @ ext" by auto
  with four show "\<exists>stem ext. fn = stem @ ext \<and> ext \<in> {''.fls'', ''.mbn'', ''.elf'', ''.bin''}"
    by auto
next
  assume "\<exists>stem ext. fn = stem @ ext \<and> ext \<in> {''.fls'', ''.mbn'', ''.elf'', ''.bin''}"
  then obtain stem ext where fn: "fn = stem @ ext"
    and four: "ext \<in> {''.fls'', ''.mbn'', ''.elf'', ''.bin''}"
    by auto
  from four obtain rest where ext: "ext = CHR ''.'' # rest" and nodot: "CHR ''.'' \<notin> set rest"
    by auto
  from strrchr_suffix [OF nodot, of stem] fn ext
  have "strrchr fn (CHR ''.'') = Some ext" by simp
  with four show "kept_extension fn" by (auto simp: kept_extension_def)
qed
text \<open>What a successful run went through.\<close>

lemma restore_sign_bbfw_success:
  assumes "restore_sign_bbfw api file bbtss_response has_nonce = Some (0, file', e)"
  obtains bbticket bbfw_dict entries st z where
    "plist_dict_get_item bbtss_response ''BBTicket'' = Some (PData bbticket)"
    "plist_dict_get_item bbtss_response ''BasebandFirmware'' = Some (PDict bbfw_dict)"
    "file = Some entries"
    "sign_blobs api has_nonce bbfw_dict
       \<lparr> za = zip_open entries, is_fls = False, signed_file_idxs = [] \<rparr> = Done st"
    "add_bbticket api has_nonce (is_fls st) bbticket
       (remove_unrequired has_nonce (signed_file_idxs st) (za st)) = Done z"
    "zip_close api z file = (True, file')"
    "e = None"
  using assms
  by (auto simp: restore_sign_bbfw_def
           split: option.splits plist.splits step.splits prod.splits bool.splits)

lemma zip_close_names:
  assumes closed: "zip_close api z file = (True, file')"
    and same: "list_all (\<lambda>e. ze_change e = ZIP_UNCHANGED) z \<Longrightarrow>
               archive_names file = map fst (zip_committed z)"
  shows "archive_names file' = map fst (zip_committed z)"
proof (cases "list_all (\<lambda>e. ze_change e = ZIP_UNCHANGED) z")
  case True
  with closed have "file' = file" by (simp add: zip_close_def)
  with same [OF True] show ?thesis by simp
next
  case False
  with closed have "file' = (if zip_committed z = [] then None else Some (zip_committed z))"
    by (simp add: zip_close_def split: if_splits)
  then show ?thesis by (simp add: archive_names_def)
qed

text \<open>
  C4. After a run of \<^verbatim>\<open>restore_sign_bbfw\<close> that returns 0 on an archive with the entries
  \<open>entries\<close>: every index in \<^verbatim>\<open>signed_file_idxs\<close> is an entry whose content was replaced by
  the signed one; and the entries of the archive afterwards are, in their order, exactly
  the entries of the original archive at an index that is in \<^verbatim>\<open>signed_file_idxs\<close> or,
  with a nonce, has a name that ends with \<open>.fls\<close>, \<open>.mbn\<close>, \<open>.elf\<close> or \<open>.bin\<close>. No other
  entry of the original archive is left. With a nonce on the MBN path the new entry
  \<open>bbticket.der\<close> follows them.
\<close>

theorem sign_bbfw_retained_entries:
  "restore_sign_bbfw api (Some entries) bbtss_response has_nonce = Some (0, file', e) \<Longrightarrow>
   \<exists>bbticket bbfw_dict st.
      plist_dict_get_item bbtss_response ''BBTicket'' = Some (PData bbticket)
      \<and> plist_dict_get_item bbtss_response ''BasebandFirmware'' = Some (PDict bbfw_dict)
      \<and> sign_blobs api has_nonce bbfw_dict
           \<lparr> za = zip_open entries, is_fls = False, signed_file_idxs = [] \<rparr> = Done st
      \<and> (\<forall>i \<in> set (signed_file_idxs st).
            i < length entries \<and> (\<exists>signed. ze_change (za st ! i) = ZIP_REPLACED signed))
      \<and> archive_names file' =
          map (\<lambda>i. fst (entries ! i))
            (filter (\<lambda>i. i \<in> set (signed_file_idxs st)
                          \<or> (has_nonce
                              \<and> (\<exists>stem ext. fst (entries ! i) = stem @ ext
                                    \<and> ext \<in> {''.fls'', ''.mbn'', ''.elf'', ''.bin''})))
               [0..<length entries])
          @ (if has_nonce \<and> \<not> is_fls st then [''bbticket.der''] else [])"
proof -
  assume run: "restore_sign_bbfw api (Some entries) bbtss_response has_nonce =
                 Some (0, file', e)"
  from run obtain bbticket bbfw_dict st z where
    ticket: "plist_dict_get_item bbtss_response ''BBTicket'' = Some (PData bbticket)"
    and dict: "plist_dict_get_item bbtss_response ''BasebandFirmware'' = Some (PDict bbfw_dict)"
    and loop: "sign_blobs api has_nonce bbfw_dict
       \<lparr> za = zip_open entries, is_fls = False, signed_file_idxs = [] \<rparr> = Done st"
    and add: "add_bbticket api has_nonce (is_fls st) bbticket
       (remove_unrequired has_nonce (signed_file_idxs st) (za st)) = Done z"
    and closed: "zip_close api z (Some entries) = (True, file')"
    by (rule restore_sign_bbfw_success) simp
  let ?zr = "remove_unrequired has_nonce (signed_file_idxs st) (za st)"
  let ?kept = "map (\<lambda>i. fst (entries ! i))
            (filter (\<lambda>i. i \<in> set (signed_file_idxs st)
                          \<or> (has_nonce
                              \<and> (\<exists>stem ext. fst (entries ! i) = stem @ ext
                                    \<and> ext \<in> {''.fls'', ''.mbn'', ''.elf'', ''.bin''})))
               [0..<length entries])
          @ (if has_nonce \<and> \<not> is_fls st then [''bbticket.der''] else [])"
  from sign_blobs_inv [OF loop sign_inv_init] have inv: "sign_inv entries st" .
  have signed: "\<forall>i \<in> set (signed_file_idxs st).
            i < length entries \<and> (\<exists>signed. ze_change (za st ! i) = ZIP_REPLACED signed)"
  proof
    fix i assume "i \<in> set (signed_file_idxs st)"
    with inv have i: "i < length entries" and c: "ze_change (za st ! i) \<noteq> ZIP_UNCHANGED"
      by (simp_all add: sign_inv_def list_all_iff)
    from sign_inv_live [OF inv i] c have "\<exists>signed. ze_change (za st ! i) = ZIP_REPLACED signed"
      by (cases "ze_change (za st ! i)") simp_all
    with i show "i < length entries \<and> (\<exists>signed. ze_change (za st ! i) = ZIP_REPLACED signed)"
      by simp
  qed
  have committed: "map fst (zip_committed z) = ?kept"
    by (simp only: add_bbticket_names [OF add] removed_committed_names [OF inv]
          kept_extension_iff)
  have "archive_names file' = map fst (zip_committed z)"
  proof (rule zip_close_names [OF closed])
    assume same: "list_all (\<lambda>e. ze_change e = ZIP_UNCHANGED) z"
    from add_bbticket_unchanged [OF add same] have z: "z = ?zr" by simp
    from same have "list_all (\<lambda>e. ze_change e \<noteq> ZIP_DELETED) z"
      by (simp add: list_all_iff)
    from committed_names_live [OF this] z removed_names [OF inv]
    show "archive_names (Some entries) = map fst (zip_committed z)"
      by (simp add: archive_names_def)
  qed
  with committed have "archive_names file' = ?kept" by simp
  with ticket dict loop signed show ?thesis by blast
qed
section \<open>Baseband firmware: how signing fails\<close>










section \<open>Baseband data: the cached ticket response\<close>

text \<open>What one request does to the cache: the handler leaves the client as it was, except
  that a request with a nonce that finds the cache empty and gets as far as signing
  stores the response it signs with, which is the response to the request it sent.\<close>

lemma baseband_step:
  assumes run: "restore_send_baseband_data tssapi api ipsw bbapi restore client build_identity
                  message = Some r"
  shows "bb_nonce r = baseband_nonce message
     \<and> bb_client r =
         client\<lparr> bbtss := (if bbtss client = None \<and> baseband_nonce message \<noteq> None
                                \<and> bb_signed_with r \<noteq> None
                             then bb_signed_with r else bbtss client) \<rparr>
     \<and> (bbtss client = None \<longrightarrow> bb_signed_with r \<noteq> None \<longrightarrow>
          (\<exists>request. bb_requests r = [request]
             \<and> bb_signed_with r = tss_request_send tssapi request (tss_url client)))
     \<and> (bbtss client \<noteq> None \<longrightarrow>
          (bb_signed_with r = None \<or> bb_signed_with r = bbtss client)
          \<and> (baseband_nonce message \<noteq> None \<longrightarrow> bb_requests r = []))"
proof (cases "baseband_nonce message = None \<or> bbtss client = None")
  case fetch: True
  show ?thesis
  proof (cases "baseband_tss_request tssapi client build_identity message")
    case None
    with run fetch show ?thesis
      by (auto simp: restore_send_baseband_data_def Let_def)
  next
    case (Some request)
    note req = Some
    show ?thesis
    proof (cases "tss_request_send tssapi request (tss_url client)")
      case None
      with run fetch req show ?thesis
        by (auto simp: restore_send_baseband_data_def Let_def)
    next
      case (Some response)
      with run fetch req show ?thesis
        by (auto simp: restore_send_baseband_data_def Let_def
                 split: option.splits if_splits prod.splits)
    qed
  qed
next
  case False
  with run show ?thesis
    by (auto simp: restore_send_baseband_data_def Let_def
             split: option.splits if_splits prod.splits)
qed

lemma baseband_step_cached:
  assumes run: "restore_send_baseband_data tssapi api ipsw bbapi restore client build_identity
                  message = Some r"
    and cached: "bbtss client = Some t"
  shows "bb_client r = client \<and> (bb_signed_with r = None \<or> bb_signed_with r = Some t)"
  using baseband_step [OF run] cached by simp

text \<open>Once a response is cached, every request of the session finds it, leaves it, and
  signs with it if it signs at all.\<close>

lemma baseband_session_cached:
  "bbtss client = Some t \<Longrightarrow>
   (c, r) \<in> set (baseband_session tssapi api ipsw bbapi restore build_identity client messages)
   \<Longrightarrow>
   bbtss c = Some t \<and> bbtss (bb_client r) = Some t
   \<and> (bb_signed_with r = None \<or> bb_signed_with r = Some t)"
proof (induction messages arbitrary: client)
  case Nil
  then show ?case by simp
next
  case (Cons message messages)
  show ?case
  proof (cases "restore_send_baseband_data tssapi api ipsw bbapi restore client build_identity
                  message")
    case None
    with Cons.prems(2) show ?thesis by simp
  next
    case (Some first)
    from baseband_step_cached [OF Some Cons.prems(1)]
    have same: "bb_client first = client"
      and signed: "bb_signed_with first = None \<or> bb_signed_with first = Some t"
      by simp_all
    from Cons.prems(2) Some consider "(c, r) = (client, first)"
      | "(c, r) \<in> set (baseband_session tssapi api ipsw bbapi restore build_identity
                          (bb_client first) messages)"
      by auto
    then show ?thesis
    proof cases
      case 1
      with same signed Cons.prems(1) show ?thesis by simp
    next
      case 2
      from Cons.IH [OF _ 2] same Cons.prems(1) show ?thesis by simp
    qed
  qed
qed

lemma baseband_session_cached_no_write:
  assumes "bbtss client = Some t"
  shows "filter (\<lambda>(c, r). bbtss (bb_client r) \<noteq> bbtss c)
           (baseband_session tssapi api ipsw bbapi restore build_identity client messages) = []"
  using baseband_session_cached [OF assms]
  by (auto simp: filter_empty_conv)

text \<open>When the AP ticket response already has a \<open>BBTicket\<close>, \<^verbatim>\<open>restore_device\<close> has filled
  the cache with a copy of it before the first request, and no request of the session
  stores anything.\<close>

lemma baseband_session_prefilled:
  assumes "tss client = Some response"
    and "plist_dict_get_item response ''BBTicket'' \<noteq> None"
  shows "bbtss (restore_device_bbtss client) = Some response
     \<and> filter (\<lambda>(c, r). bbtss (bb_client r) \<noteq> bbtss c)
           (baseband_session tssapi api ipsw bbapi restore build_identity
              (restore_device_bbtss client) messages) = []"
proof -
  from assms have "bbtss (restore_device_bbtss client) = Some response"
    by (simp add: restore_device_bbtss_def)
  with baseband_session_cached_no_write [OF this] show ?thesis by simp
qed

text \<open>A session stores a response at most once.\<close>

lemma baseband_session_writes:
  "length (filter (\<lambda>(c, r). bbtss (bb_client r) \<noteq> bbtss c)
     (baseband_session tssapi api ipsw bbapi restore build_identity client messages)) \<le> 1"
proof (induction messages arbitrary: client)
  case Nil
  then show ?case by simp
next
  case (Cons message messages)
  show ?case
  proof (cases "restore_send_baseband_data tssapi api ipsw bbapi restore client build_identity
                  message")
    case None
    then show ?thesis by simp
  next
    case (Some first)
    show ?thesis
    proof (cases "bbtss (bb_client first) = bbtss client")
      case True
      with Some Cons.IH [of "bb_client first"] show ?thesis by simp
    next
      case False
      with baseband_step [OF Some] obtain t where "bbtss (bb_client first) = Some t"
        by (cases "bb_signed_with first") (auto split: if_splits)
      from baseband_session_cached_no_write [OF this] Some False show ?thesis by simp
    qed
  qed
qed
lemma baseband_session_steps:
  "(c, r) \<in> set (baseband_session tssapi api ipsw bbapi restore build_identity client messages)
   \<Longrightarrow>
   \<exists>message \<in> set messages.
      restore_send_baseband_data tssapi api ipsw bbapi restore c build_identity message = Some r"
proof (induction messages arbitrary: client)
  case Nil
  then show ?case by simp
next
  case (Cons message messages)
  show ?case
  proof (cases "restore_send_baseband_data tssapi api ipsw bbapi restore client build_identity
                  message")
    case None
    with Cons.prems show ?thesis by simp
  next
    case (Some first)
    from Cons.prems Some consider "(c, r) = (client, first)"
      | "(c, r) \<in> set (baseband_session tssapi api ipsw bbapi restore build_identity
                          (bb_client first) messages)"
      by auto
    then show ?thesis
    proof cases
      case 1
      with Some show ?thesis by simp
    next
      case 2
      from Cons.IH [OF 2] show ?thesis by simp
    qed
  qed
qed

lemma baseband_session_first:
  assumes "baseband_session tssapi api ipsw bbapi restore build_identity client messages =
             (c, r) # rest"
  shows "\<exists>message others. messages = message # others \<and> c = client
    \<and> restore_send_baseband_data tssapi api ipsw bbapi restore client build_identity message =
         Some r
    \<and> rest = baseband_session tssapi api ipsw bbapi restore build_identity (bb_client r) others"
proof (cases messages)
  case Nil
  with assms show ?thesis by simp
next
  case (Cons message others)
  with assms show ?thesis by (auto split: option.splits)
qed

text \<open>What each request of a session does to the cache.\<close>

lemma baseband_session_each:
  assumes mem: "(c, r) \<in> set (baseband_session tssapi api ipsw bbapi restore build_identity
                                client messages)"
  shows "(bbtss (bb_client r) \<noteq> bbtss c \<longrightarrow>
            bbtss c = None \<and> bb_nonce r \<noteq> None \<and> bb_signed_with r = bbtss (bb_client r)
            \<and> (\<exists>request. bb_requests r = [request]
                  \<and> bbtss (bb_client r) = tss_request_send tssapi request (tss_url c)))
         \<and> (bbtss c = None \<longrightarrow> bb_nonce r \<noteq> None \<longrightarrow> bb_signed_with r \<noteq> None \<longrightarrow>
              bbtss (bb_client r) = bb_signed_with r)
         \<and> (bbtss c \<noteq> None \<longrightarrow>
              bbtss (bb_client r) = bbtss c
              \<and> (bb_signed_with r = None \<or> bb_signed_with r = bbtss c)
              \<and> (bb_nonce r \<noteq> None \<longrightarrow> bb_requests r = []))"
proof -
  from baseband_session_steps [OF mem] obtain message where
    run: "restore_send_baseband_data tssapi api ipsw bbapi restore c build_identity message =
            Some r"
    by auto
  note step = baseband_step [OF run]
  note nonce = step [THEN conjunct1]
  note client = step [THEN conjunct2, THEN conjunct1]
  note fetched = step [THEN conjunct2, THEN conjunct2, THEN conjunct1]
  note found = step [THEN conjunct2, THEN conjunct2, THEN conjunct2]
  have cache: "bbtss (bb_client r) =
      (if bbtss c = None \<and> baseband_nonce message \<noteq> None \<and> bb_signed_with r \<noteq> None
       then bb_signed_with r else bbtss c)"
    by (subst client) simp
  show ?thesis
  proof (cases "bbtss c")
    case None
    show ?thesis
    proof (cases "baseband_nonce message \<noteq> None \<and> bb_signed_with r \<noteq> None")
      case True
      with None cache have stored: "bbtss (bb_client r) = bb_signed_with r" by simp
      from fetched None True obtain request where "bb_requests r = [request]"
        and "bb_signed_with r = tss_request_send tssapi request (tss_url c)"
        by auto
      with stored None True nonce show ?thesis by simp
    next
      case False
      with None cache have "bbtss (bb_client r) = bbtss c" by auto
      with None False nonce show ?thesis by auto
    qed
  next
    case (Some t)
    with cache have "bbtss (bb_client r) = bbtss c" by simp
    with Some found nonce show ?thesis by simp
  qed
qed

text \<open>A session whose first request carries a nonce, finds the cache empty and gets as
  far as signing.\<close>

lemma baseband_session_first_stores:
  assumes shape: "baseband_session tssapi api ipsw bbapi restore build_identity client messages =
                    (c, r) # rest"
    and empty: "bbtss c = None" and nonce: "bb_nonce r \<noteq> None"
    and signed: "bb_signed_with r = Some t"
  shows "bbtss (bb_client r) = Some t
     \<and> filter (\<lambda>(c, r). bbtss (bb_client r) \<noteq> bbtss c) rest = []
     \<and> (\<forall>(c', r') \<in> set rest.
           bbtss c' = Some t \<and> bbtss (bb_client r') = Some t
           \<and> (bb_signed_with r' = None \<or> bb_signed_with r' = Some t))"
proof -
  from baseband_session_first [OF shape] obtain message where
    "\<exists>others. messages = message # others \<and> c = client
    \<and> restore_send_baseband_data tssapi api ipsw bbapi restore client build_identity message =
         Some r
    \<and> rest = baseband_session tssapi api ipsw bbapi restore build_identity (bb_client r) others"
    ..
  then obtain others where
    first: "messages = message # others \<and> c = client
    \<and> restore_send_baseband_data tssapi api ipsw bbapi restore client build_identity message =
         Some r
    \<and> rest = baseband_session tssapi api ipsw bbapi restore build_identity (bb_client r) others"
    ..
  note rest = first [THEN conjunct2, THEN conjunct2, THEN conjunct2]
  have "(c, r) \<in> set (baseband_session tssapi api ipsw bbapi restore build_identity
                         client messages)"
    by (simp add: shape)
  note each = baseband_session_each [OF this]
  note stored = each [THEN conjunct2, THEN conjunct1, rule_format, OF empty nonce]
  from signed have "bb_signed_with r \<noteq> None" by simp
  from stored [OF this] signed have cached: "bbtss (bb_client r) = Some t" by simp
  have later: "\<forall>(c', r') \<in> set rest.
           bbtss c' = Some t \<and> bbtss (bb_client r') = Some t
           \<and> (bb_signed_with r' = None \<or> bb_signed_with r' = Some t)"
  proof (intro ballI, clarify)
    fix c' r' assume "(c', r') \<in> set rest"
    then have "(c', r') \<in> set (baseband_session tssapi api ipsw bbapi restore build_identity
                    (bb_client r) others)"
      by (simp only: rest)
    from baseband_session_cached [OF cached this]
    show "bbtss c' = Some t \<and> bbtss (bb_client r') = Some t
           \<and> (bb_signed_with r' = None \<or> bb_signed_with r' = Some t)" .
  qed
  have "filter (\<lambda>(c, r). bbtss (bb_client r) \<noteq> bbtss c) rest = []"
    unfolding rest by (rule baseband_session_cached_no_write [OF cached])
  with cached later show ?thesis by (intro conjI)
qed

text \<open>
  C3, as the code has it. In the BasebandData requests of one session, handled one after
  the other, the cache \<^verbatim>\<open>restore->bbtss\<close> changes at most once. A request changes it only
  when it carries a nonce and finds the cache empty; what it stores is the response to
  the ticket request that it sent itself, and it signs with that response. A request
  that carries a nonce, finds the cache empty and gets as far as signing does store the
  response. A request that finds a cached response leaves it, signs with it if it gets
  as far as signing, and sends no ticket request when it carries a nonce. So when the
  first request carries a nonce, finds the cache empty and gets as far as signing, the
  response is cached exactly once, at that request, and every later request finds it,
  leaves it and signs with nothing else.
\<close>

theorem baseband_ticket_cached_once:
  "session = baseband_session tssapi api ipsw bbapi restore build_identity client messages \<Longrightarrow>
   length (filter (\<lambda>(c, r). bbtss (bb_client r) \<noteq> bbtss c) session) \<le> 1
   \<and> (\<forall>(c, r) \<in> set session.
         (bbtss (bb_client r) \<noteq> bbtss c \<longrightarrow>
            bbtss c = None \<and> bb_nonce r \<noteq> None \<and> bb_signed_with r = bbtss (bb_client r)
            \<and> (\<exists>request. bb_requests r = [request]
                  \<and> bbtss (bb_client r) = tss_request_send tssapi request (tss_url c)))
         \<and> (bbtss c = None \<longrightarrow> bb_nonce r \<noteq> None \<longrightarrow> bb_signed_with r \<noteq> None \<longrightarrow>
              bbtss (bb_client r) = bb_signed_with r)
         \<and> (bbtss c \<noteq> None \<longrightarrow>
              bbtss (bb_client r) = bbtss c
              \<and> (bb_signed_with r = None \<or> bb_signed_with r = bbtss c)
              \<and> (bb_nonce r \<noteq> None \<longrightarrow> bb_requests r = [])))
   \<and> (\<forall>c r rest.
         session = (c, r) # rest \<longrightarrow>
         bbtss c = None \<longrightarrow> bb_nonce r \<noteq> None \<longrightarrow> bb_signed_with r \<noteq> None \<longrightarrow>
           length (filter (\<lambda>(c, r). bbtss (bb_client r) \<noteq> bbtss c) session) = 1
           \<and> bbtss (bb_client r) = bb_signed_with r
           \<and> (\<forall>(c', r') \<in> set rest.
                 bbtss c' = bb_signed_with r \<and> bbtss (bb_client r') = bb_signed_with r
                 \<and> (bb_signed_with r' = None \<or> bb_signed_with r' = bb_signed_with r)))"
proof -
  assume session:
    "session = baseband_session tssapi api ipsw bbapi restore build_identity client messages"
  have once: "length (filter (\<lambda>(c, r). bbtss (bb_client r) \<noteq> bbtss c) session) \<le> 1"
    unfolding session by (rule baseband_session_writes)
  have each: "\<forall>(c, r) \<in> set session.
         (bbtss (bb_client r) \<noteq> bbtss c \<longrightarrow>
            bbtss c = None \<and> bb_nonce r \<noteq> None \<and> bb_signed_with r = bbtss (bb_client r)
            \<and> (\<exists>request. bb_requests r = [request]
                  \<and> bbtss (bb_client r) = tss_request_send tssapi request (tss_url c)))
         \<and> (bbtss c = None \<longrightarrow> bb_nonce r \<noteq> None \<longrightarrow> bb_signed_with r \<noteq> None \<longrightarrow>
              bbtss (bb_client r) = bb_signed_with r)
         \<and> (bbtss c \<noteq> None \<longrightarrow>
              bbtss (bb_client r) = bbtss c
              \<and> (bb_signed_with r = None \<or> bb_signed_with r = bbtss c)
              \<and> (bb_nonce r \<noteq> None \<longrightarrow> bb_requests r = []))"
  proof (intro ballI, clarify)
    fix c r assume "(c, r) \<in> set session"
    then have "(c, r) \<in> set (baseband_session tssapi api ipsw bbapi restore build_identity
                                client messages)"
      by (simp only: session)
    then show "(bbtss (bb_client r) \<noteq> bbtss c \<longrightarrow>
            bbtss c = None \<and> bb_nonce r \<noteq> None \<and> bb_signed_with r = bbtss (bb_client r)
            \<and> (\<exists>request. bb_requests r = [request]
                  \<and> bbtss (bb_client r) = tss_request_send tssapi request (tss_url c)))
         \<and> (bbtss c = None \<longrightarrow> bb_nonce r \<noteq> None \<longrightarrow> bb_signed_with r \<noteq> None \<longrightarrow>
              bbtss (bb_client r) = bb_signed_with r)
         \<and> (bbtss c \<noteq> None \<longrightarrow>
              bbtss (bb_client r) = bbtss c
              \<and> (bb_signed_with r = None \<or> bb_signed_with r = bbtss c)
              \<and> (bb_nonce r \<noteq> None \<longrightarrow> bb_requests r = []))"
      by (rule baseband_session_each)
  qed
  have first: "\<forall>c r rest.
         session = (c, r) # rest \<longrightarrow>
         bbtss c = None \<longrightarrow> bb_nonce r \<noteq> None \<longrightarrow> bb_signed_with r \<noteq> None \<longrightarrow>
           length (filter (\<lambda>(c, r). bbtss (bb_client r) \<noteq> bbtss c) session) = 1
           \<and> bbtss (bb_client r) = bb_signed_with r
           \<and> (\<forall>(c', r') \<in> set rest.
                 bbtss c' = bb_signed_with r \<and> bbtss (bb_client r') = bb_signed_with r
                 \<and> (bb_signed_with r' = None \<or> bb_signed_with r' = bb_signed_with r))"
  proof (intro allI impI)
    fix c r rest
    assume shape: "session = (c, r) # rest" and empty: "bbtss c = None"
      and nonce: "bb_nonce r \<noteq> None" and signed: "bb_signed_with r \<noteq> None"
    from signed obtain t where t: "bb_signed_with r = Some t" by auto
    from shape session
    have "baseband_session tssapi api ipsw bbapi restore build_identity client messages =
            (c, r) # rest"
      by simp
    note stores = baseband_session_first_stores [OF this empty nonce t]
    note cached = stores [THEN conjunct1]
    note quiet = stores [THEN conjunct2, THEN conjunct1]
    note later = stores [THEN conjunct2, THEN conjunct2]
    have "filter (\<lambda>(c, r). bbtss (bb_client r) \<noteq> bbtss c) session = [(c, r)]"
      by (simp add: shape quiet cached empty)
    then have "length (filter (\<lambda>(c, r). bbtss (bb_client r) \<noteq> bbtss c) session) = 1"
      by simp
    with cached later
    show "length (filter (\<lambda>(c, r). bbtss (bb_client r) \<noteq> bbtss c) session) = 1
           \<and> bbtss (bb_client r) = bb_signed_with r
           \<and> (\<forall>(c', r') \<in> set rest.
                 bbtss c' = bb_signed_with r \<and> bbtss (bb_client r') = bb_signed_with r
                 \<and> (bb_signed_with r' = None \<or> bb_signed_with r' = bb_signed_with r))"
      by (simp only: t)
  qed
  from once each first show ?thesis by (intro conjI)
qed
section \<open>Baseband firmware and data at the example inputs\<close>

declare sign_blobs.simps [simp del]

lemma bbfw_element_files:
  "restore_get_bbfw_fn_for_element ''DBL'' = Some ''dbl.mbn''"
  "restore_get_bbfw_fn_for_element ''ENANDPRG'' = Some ''ENPRG.mbn''"
  by (simp_all add: restore_get_bbfw_fn_for_element_def bbfw_fn_elem_def)

lemma kept_extension_examples:
  "kept_extension ''dbl.mbn''" "kept_extension ''ENPRG.mbn''" "\<not> kept_extension ''README.txt''"
  "\<not> kept_extension ''bbticket.der''"
  by (simp_all add: kept_extension_def strrchr_def)

text \<open>Scenario S4: both blobs are installed, and the indices 0 and 1 are recorded.\<close>

lemma sign_s4_loop:
  "sign_blobs bbfw_plain has_nonce
     [(''DBL-Blob'', PData blob1), (''ENANDPRG-Blob'', PData blob2)]
     \<lparr> za = zip_open bbfw_s4, is_fls = False, signed_file_idxs = [] \<rparr> =
   Done \<lparr> za =
           [\<lparr> ze_name = ''dbl.mbn'', ze_data = ''dbl'',
              ze_change = ZIP_REPLACED (''dbl'' @ blob1) \<rparr>,
            \<lparr> ze_name = ''ENPRG.mbn'', ze_data = ''enprg'',
              ze_change = ZIP_REPLACED (''enprg'' @ blob2) \<rparr>,
            \<lparr> ze_name = ''README.txt'', ze_data = ''readme'', ze_change = ZIP_UNCHANGED \<rparr>],
          is_fls = False, signed_file_idxs = [0, 1] \<rparr>"
  by (simp add: sign_blobs.simps sign_blob_def bbfw_element_files strrchr_def zip_open_def
        bbfw_s4_def bbfw_plain_def zip_replace_def)

lemma sign_s4_run:
  "restore_sign_bbfw bbfw_plain (Some bbfw_s4) bbtss_s4 True =
     Some (0, Some [(''dbl.mbn'', ''dbl+sig1''), (''ENPRG.mbn'', ''enprg+sig2''),
                    (''bbticket.der'', ''ticket'')], None)"
  apply (simp add: restore_sign_bbfw_def bbtss_s4_def sign_s4_loop)
  apply (simp add: remove_unrequired_def keep_entry_def zip_get_name_def kept_extension_examples
        zip_delete_def add_bbticket_def bbfw_plain_def zip_add_def zip_close_def
        zip_committed_def upt_rec)
  done

lemma sign_s4_run_no_nonce:
  "restore_sign_bbfw bbfw_plain (Some bbfw_s4) bbtss_s4 False =
     Some (0, Some [(''dbl.mbn'', ''dbl+sig1''), (''ENPRG.mbn'', ''enprg+sig2'')], None)"
  apply (simp add: restore_sign_bbfw_def bbtss_s4_def sign_s4_loop)
  apply (simp add: remove_unrequired_def keep_entry_def zip_get_name_def kept_extension_examples
        zip_delete_def add_bbticket_def bbfw_plain_def zip_add_def zip_close_def
        zip_committed_def upt_rec)
  done

lemma sign_without_nonce_run:
  "restore_sign_bbfw bbfw_plain (Some bbfw_s4) bbtss_without_nonce False =
     Some (0, Some [(''dbl.mbn'', ''dbl+sig3''), (''ENPRG.mbn'', ''enprg+sig4'')], None)"
  apply (simp add: restore_sign_bbfw_def bbtss_without_nonce_def sign_s4_loop)
  apply (simp add: remove_unrequired_def keep_entry_def zip_get_name_def kept_extension_examples
        zip_delete_def add_bbticket_def bbfw_plain_def zip_add_def zip_close_def
        zip_committed_def upt_rec)
  done






text \<open>The requests of the example session, one by one: a request with a nonce on an
  empty cache, one with a nonce on a filled cache, one without a nonce on a filled cache,
  and one whose ticket request gets no answer.\<close>

lemma baseband_first_request:
  "restore_send_baseband_data tss_baseband components_reading ipsw_baseband bbfw_plain
     device_ready (client_with (PDict []) False True) build_identity_baseband
     (baseband_request ''nonce-1'') =
   Some \<lparr> bb_ret = 0,
          bb_client = (client_with (PDict []) False True)\<lparr> bbtss := Some bbtss_s4 \<rparr>,
          bb_nonce = Some ''nonce-1'',
          bb_requests = [PDict [(''BbNonce'', PData ''nonce-1'')]],
          bb_signed_with = Some bbtss_s4,
          bb_sent = [PDict [(''BasebandData'', PData ''dbl+sig1enprg+sig2ticket'')]] \<rparr>"
  apply (simp add: restore_send_baseband_data_def baseband_nonce_def baseband_request_def
        baseband_tss_request_def tss_baseband_def build_identity_baseband_def ipsw_baseband_def
        client_with_def sign_s4_run)
  apply (simp add: components_reading_def components_tagging_def device_ready_def Let_def)
  done

lemma baseband_second_request:
  "restore_send_baseband_data tss_baseband components_reading ipsw_baseband bbfw_plain
     device_ready ((client_with (PDict []) False True)\<lparr> bbtss := Some bbtss_s4 \<rparr>)
     build_identity_baseband (baseband_request ''nonce-2'') =
   Some \<lparr> bb_ret = 0,
          bb_client = (client_with (PDict []) False True)\<lparr> bbtss := Some bbtss_s4 \<rparr>,
          bb_nonce = Some ''nonce-2'',
          bb_requests = [],
          bb_signed_with = Some bbtss_s4,
          bb_sent = [PDict [(''BasebandData'', PData ''dbl+sig1enprg+sig2ticket'')]] \<rparr>"
  apply (simp add: restore_send_baseband_data_def baseband_nonce_def baseband_request_def
        baseband_tss_request_def tss_baseband_def build_identity_baseband_def ipsw_baseband_def
        client_with_def sign_s4_run)
  apply (simp add: components_reading_def components_tagging_def device_ready_def Let_def)
  done

lemma baseband_third_request:
  "restore_send_baseband_data tss_baseband components_reading ipsw_baseband bbfw_plain
     device_ready ((client_with (PDict []) False True)\<lparr> bbtss := Some bbtss_s4 \<rparr>)
     build_identity_baseband (PDict []) =
   Some \<lparr> bb_ret = 0,
          bb_client = (client_with (PDict []) False True)\<lparr> bbtss := Some bbtss_s4 \<rparr>,
          bb_nonce = None,
          bb_requests = [PDict []],
          bb_signed_with = Some bbtss_s4,
          bb_sent = [PDict [(''BasebandData'', PData ''dbl+sig1enprg+sig2'')]] \<rparr>"
  apply (simp add: restore_send_baseband_data_def baseband_nonce_def
        baseband_tss_request_def tss_baseband_def build_identity_baseband_def ipsw_baseband_def
        client_with_def sign_s4_run_no_nonce)
  apply (simp add: components_reading_def components_tagging_def device_ready_def Let_def)
  done

lemma baseband_unanswered_request:
  "restore_send_baseband_data tss_baseband components_reading ipsw_baseband bbfw_plain
     device_ready (client_with (PDict []) False True) build_identity_baseband
     (baseband_request ''nonce-0'') =
   Some \<lparr> bb_ret = - 1,
          bb_client = client_with (PDict []) False True,
          bb_nonce = Some ''nonce-0'',
          bb_requests = [PDict [(''BbNonce'', PData ''nonce-0'')]],
          bb_signed_with = None,
          bb_sent = [] \<rparr>"
  by (simp add: restore_send_baseband_data_def baseband_nonce_def baseband_request_def
        baseband_tss_request_def tss_baseband_def build_identity_baseband_def ipsw_baseband_def
        client_with_def)

lemma baseband_request_without_nonce:
  "restore_send_baseband_data tss_baseband components_reading ipsw_baseband bbfw_plain
     device_ready (client_with (PDict []) False True) build_identity_baseband (PDict []) =
   Some \<lparr> bb_ret = 0,
          bb_client = client_with (PDict []) False True,
          bb_nonce = None,
          bb_requests = [PDict []],
          bb_signed_with = Some bbtss_without_nonce,
          bb_sent = [PDict [(''BasebandData'', PData ''dbl+sig3enprg+sig4'')]] \<rparr>"
  apply (simp add: restore_send_baseband_data_def baseband_nonce_def
        baseband_tss_request_def tss_baseband_def build_identity_baseband_def ipsw_baseband_def
        client_with_def sign_without_nonce_run)
  apply (simp add: components_reading_def components_tagging_def device_ready_def Let_def)
  done
section \<open>The baseband theorems at the example inputs\<close>

text \<open>Scenario S4 with a nonce: the signed \<open>dbl.mbn\<close> and \<open>ENPRG.mbn\<close> stay, \<open>README.txt\<close>
  goes, \<open>bbticket.der\<close> is added. Without a nonce the two signed files stay.\<close>

theorem sign_bbfw_retained_entries_witness:
  "restore_sign_bbfw bbfw_plain (Some bbfw_s4) bbtss_s4 True =
     Some (0, Some [(''dbl.mbn'', ''dbl+sig1''), (''ENPRG.mbn'', ''enprg+sig2''),
                    (''bbticket.der'', ''ticket'')], None)
   \<and> (\<exists>st. sign_blobs bbfw_plain True
               [(''DBL-Blob'', PData ''+sig1''), (''ENANDPRG-Blob'', PData ''+sig2'')]
               \<lparr> za = zip_open bbfw_s4, is_fls = False, signed_file_idxs = [] \<rparr> = Done st
         \<and> signed_file_idxs st = [0, 1]
         \<and> [''dbl.mbn'', ''ENPRG.mbn'', ''bbticket.der''] =
             map (\<lambda>i. fst (bbfw_s4 ! i))
               (filter (\<lambda>i. i \<in> set (signed_file_idxs st)
                             \<or> (True
                                 \<and> (\<exists>stem ext. fst (bbfw_s4 ! i) = stem @ ext
                                       \<and> ext \<in> {''.fls'', ''.mbn'', ''.elf'', ''.bin''})))
                  [0..<length bbfw_s4])
             @ (if True \<and> \<not> is_fls st then [''bbticket.der''] else []))
   \<and> restore_sign_bbfw bbfw_plain (Some bbfw_s4) bbtss_s4 False =
     Some (0, Some [(''dbl.mbn'', ''dbl+sig1''), (''ENPRG.mbn'', ''enprg+sig2'')], None)
   \<and> (\<exists>st. sign_blobs bbfw_plain False
               [(''DBL-Blob'', PData ''+sig1''), (''ENANDPRG-Blob'', PData ''+sig2'')]
               \<lparr> za = zip_open bbfw_s4, is_fls = False, signed_file_idxs = [] \<rparr> = Done st
         \<and> signed_file_idxs st = [0, 1]
         \<and> [''dbl.mbn'', ''ENPRG.mbn''] =
             map (\<lambda>i. fst (bbfw_s4 ! i))
               (filter (\<lambda>i. i \<in> set (signed_file_idxs st)
                             \<or> (False
                                 \<and> (\<exists>stem ext. fst (bbfw_s4 ! i) = stem @ ext
                                       \<and> ext \<in> {''.fls'', ''.mbn'', ''.elf'', ''.bin''})))
                  [0..<length bbfw_s4])
             @ (if False \<and> \<not> is_fls st then [''bbticket.der''] else []))"
proof -
  have dict: "plist_dict_get_item bbtss_s4 ''BasebandFirmware'' =
      Some (PDict [(''DBL-Blob'', PData ''+sig1''), (''ENANDPRG-Blob'', PData ''+sig2'')])"
    by (simp add: bbtss_s4_def)
  from sign_bbfw_retained_entries [OF sign_s4_run] dict
  have with_nonce: "\<exists>st. sign_blobs bbfw_plain True
               [(''DBL-Blob'', PData ''+sig1''), (''ENANDPRG-Blob'', PData ''+sig2'')]
               \<lparr> za = zip_open bbfw_s4, is_fls = False, signed_file_idxs = [] \<rparr> = Done st
         \<and> signed_file_idxs st = [0, 1]
         \<and> [''dbl.mbn'', ''ENPRG.mbn'', ''bbticket.der''] =
             map (\<lambda>i. fst (bbfw_s4 ! i))
               (filter (\<lambda>i. i \<in> set (signed_file_idxs st)
                             \<or> (True
                                 \<and> (\<exists>stem ext. fst (bbfw_s4 ! i) = stem @ ext
                                       \<and> ext \<in> {''.fls'', ''.mbn'', ''.elf'', ''.bin''})))
                  [0..<length bbfw_s4])
             @ (if True \<and> \<not> is_fls st then [''bbticket.der''] else [])"
    by (auto simp: archive_names_def sign_s4_loop)
  from sign_bbfw_retained_entries [OF sign_s4_run_no_nonce] dict
  have without_nonce: "\<exists>st. sign_blobs bbfw_plain False
               [(''DBL-Blob'', PData ''+sig1''), (''ENANDPRG-Blob'', PData ''+sig2'')]
               \<lparr> za = zip_open bbfw_s4, is_fls = False, signed_file_idxs = [] \<rparr> = Done st
         \<and> signed_file_idxs st = [0, 1]
         \<and> [''dbl.mbn'', ''ENPRG.mbn''] =
             map (\<lambda>i. fst (bbfw_s4 ! i))
               (filter (\<lambda>i. i \<in> set (signed_file_idxs st)
                             \<or> (False
                                 \<and> (\<exists>stem ext. fst (bbfw_s4 ! i) = stem @ ext
                                       \<and> ext \<in> {''.fls'', ''.mbn'', ''.elf'', ''.bin''})))
                  [0..<length bbfw_s4])
             @ (if False \<and> \<not> is_fls st then [''bbticket.der''] else [])"
    by (auto simp: archive_names_def sign_s4_loop)
  from sign_s4_run with_nonce sign_s4_run_no_nonce without_nonce show ?thesis
    by (intro conjI)
qed


text \<open>A session of three requests: the first, with a nonce on an empty cache, stores the
  response it fetched; the second, with a nonce, sends no ticket request and signs with
  the cached response; the third, without a nonce, fetches another response and still
  signs with the cached one.\<close>

lemma baseband_session_run:
  "baseband_session tss_baseband components_reading ipsw_baseband bbfw_plain device_ready
     build_identity_baseband (client_with (PDict []) False True)
     [baseband_request ''nonce-1'', baseband_request ''nonce-2'', PDict []] =
   [(client_with (PDict []) False True,
     \<lparr> bb_ret = 0,
       bb_client = (client_with (PDict []) False True)\<lparr> bbtss := Some bbtss_s4 \<rparr>,
       bb_nonce = Some ''nonce-1'',
       bb_requests = [PDict [(''BbNonce'', PData ''nonce-1'')]],
       bb_signed_with = Some bbtss_s4,
       bb_sent = [PDict [(''BasebandData'', PData ''dbl+sig1enprg+sig2ticket'')]] \<rparr>),
    ((client_with (PDict []) False True)\<lparr> bbtss := Some bbtss_s4 \<rparr>,
     \<lparr> bb_ret = 0,
       bb_client = (client_with (PDict []) False True)\<lparr> bbtss := Some bbtss_s4 \<rparr>,
       bb_nonce = Some ''nonce-2'',
       bb_requests = [],
       bb_signed_with = Some bbtss_s4,
       bb_sent = [PDict [(''BasebandData'', PData ''dbl+sig1enprg+sig2ticket'')]] \<rparr>),
    ((client_with (PDict []) False True)\<lparr> bbtss := Some bbtss_s4 \<rparr>,
     \<lparr> bb_ret = 0,
       bb_client = (client_with (PDict []) False True)\<lparr> bbtss := Some bbtss_s4 \<rparr>,
       bb_nonce = None,
       bb_requests = [PDict []],
       bb_signed_with = Some bbtss_s4,
       bb_sent = [PDict [(''BasebandData'', PData ''dbl+sig1enprg+sig2'')]] \<rparr>)]"
  by (simp add: baseband_first_request baseband_second_request baseband_third_request)

theorem baseband_ticket_cached_once_witness:
  "map (\<lambda>(c, r). (bbtss c, bb_nonce r, bb_ret r, bb_requests r, bb_signed_with r,
                  bbtss (bb_client r)))
     (baseband_session tss_baseband components_reading ipsw_baseband bbfw_plain device_ready
        build_identity_baseband (client_with (PDict []) False True)
        [baseband_request ''nonce-1'', baseband_request ''nonce-2'', PDict []]) =
   [(None, Some ''nonce-1'', 0, [PDict [(''BbNonce'', PData ''nonce-1'')]],
     Some bbtss_s4, Some bbtss_s4),
    (Some bbtss_s4, Some ''nonce-2'', 0, [], Some bbtss_s4, Some bbtss_s4),
    (Some bbtss_s4, None, 0, [PDict []], Some bbtss_s4, Some bbtss_s4)]
   \<and> length (filter (\<lambda>(c, r). bbtss (bb_client r) \<noteq> bbtss c)
       (baseband_session tss_baseband components_reading ipsw_baseband bbfw_plain device_ready
          build_identity_baseband (client_with (PDict []) False True)
          [baseband_request ''nonce-1'', baseband_request ''nonce-2'', PDict []])) = 1
   \<and> tss_request_send tss_baseband (PDict []) [] = Some bbtss_without_nonce"
proof -
  let ?session = "baseband_session tss_baseband components_reading ipsw_baseband bbfw_plain
     device_ready build_identity_baseband (client_with (PDict []) False True)
     [baseband_request ''nonce-1'', baseband_request ''nonce-2'', PDict []]"
  let ?c = "client_with (PDict []) False True"
  let ?r = "\<lparr> bb_ret = 0,
       bb_client = (client_with (PDict []) False True)\<lparr> bbtss := Some bbtss_s4 \<rparr>,
       bb_nonce = Some ''nonce-1'',
       bb_requests = [PDict [(''BbNonce'', PData ''nonce-1'')]],
       bb_signed_with = Some bbtss_s4,
       bb_sent = [PDict [(''BasebandData'', PData ''dbl+sig1enprg+sig2ticket'')]] \<rparr>"
  let ?rest = "[((client_with (PDict []) False True)\<lparr> bbtss := Some bbtss_s4 \<rparr>,
     \<lparr> bb_ret = 0,
       bb_client = (client_with (PDict []) False True)\<lparr> bbtss := Some bbtss_s4 \<rparr>,
       bb_nonce = Some ''nonce-2'',
       bb_requests = [],
       bb_signed_with = Some bbtss_s4,
       bb_sent = [PDict [(''BasebandData'', PData ''dbl+sig1enprg+sig2ticket'')]] \<rparr>),
    ((client_with (PDict []) False True)\<lparr> bbtss := Some bbtss_s4 \<rparr>,
     \<lparr> bb_ret = 0,
       bb_client = (client_with (PDict []) False True)\<lparr> bbtss := Some bbtss_s4 \<rparr>,
       bb_nonce = None,
       bb_requests = [PDict []],
       bb_signed_with = Some bbtss_s4,
       bb_sent = [PDict [(''BasebandData'', PData ''dbl+sig1enprg+sig2'')]] \<rparr>)]"
  have shape: "?session = (?c, ?r) # ?rest" by (rule baseband_session_run)
  have empty: "bbtss ?c = None" by (simp add: client_with_def)
  have nonce: "bb_nonce ?r \<noteq> None" by simp
  have signed: "bb_signed_with ?r \<noteq> None" by simp
  note first = baseband_ticket_cached_once [OF refl, THEN conjunct2, THEN conjunct2,
      rule_format, OF shape empty nonce signed]
  then have once: "length (filter (\<lambda>(c, r). bbtss (bb_client r) \<noteq> bbtss c) ?session) = 1"
    by (rule conjunct1)
  have run: "map (\<lambda>(c, r). (bbtss c, bb_nonce r, bb_ret r, bb_requests r, bb_signed_with r,
                  bbtss (bb_client r))) ?session =
   [(None, Some ''nonce-1'', 0, [PDict [(''BbNonce'', PData ''nonce-1'')]],
     Some bbtss_s4, Some bbtss_s4),
    (Some bbtss_s4, Some ''nonce-2'', 0, [], Some bbtss_s4, Some bbtss_s4),
    (Some bbtss_s4, None, 0, [PDict []], Some bbtss_s4, Some bbtss_s4)]"
    unfolding baseband_session_run by (simp add: client_with_def)
  have other: "tss_request_send tss_baseband (PDict []) [] = Some bbtss_without_nonce"
    by (simp add: tss_baseband_def)
  from run once other show ?thesis by (intro conjI)
qed

text \<open>The claim as written has the response cached at the first request when that
  request carries a nonce and nothing is cached. In a session whose first request
  carries the nonce \<open>nonce-0\<close>, to which the ticket server gives no answer, the handler
  returns \<open>-1\<close> before it stores anything: the cache is still empty after the first
  request, and it is the second request that stores a response. And in a session whose
  first request carries no nonce, that request signs with the response it fetched and
  stores nothing; again it is the second request, the first with a nonce, that stores
  a response.\<close>

theorem baseband_ticket_unanswered_counterexample:
  "map (\<lambda>(c, r). (bbtss c, bb_nonce r, bb_ret r, bb_signed_with r, bbtss (bb_client r)))
     (baseband_session tss_baseband components_reading ipsw_baseband bbfw_plain device_ready
        build_identity_baseband (client_with (PDict []) False True)
        [baseband_request ''nonce-0'', baseband_request ''nonce-1'']) =
   [(None, Some ''nonce-0'', - 1, None, None),
    (None, Some ''nonce-1'', 0, Some bbtss_s4, Some bbtss_s4)]
   \<and> map (\<lambda>(c, r). (bbtss c, bb_nonce r, bb_ret r, bb_signed_with r, bbtss (bb_client r)))
     (baseband_session tss_baseband components_reading ipsw_baseband bbfw_plain device_ready
        build_identity_baseband (client_with (PDict []) False True)
        [PDict [], baseband_request ''nonce-1'']) =
   [(None, None, 0, Some bbtss_without_nonce, None),
    (None, Some ''nonce-1'', 0, Some bbtss_s4, Some bbtss_s4)]"
  apply (simp add: baseband_unanswered_request baseband_request_without_nonce
        baseband_first_request)
  apply (simp add: client_with_def)
  done

end
